theory Spec2Isabelle
  imports Complex_Main "HOL-Library.AList"
begin

section \<open>Values of the annotated example script\<close>

text \<open>
  The repository is one Python script, \<^verbatim>\<open>src/python_typing.py\<close>. Its annotations are for a
  static checker; at runtime every value is dynamically typed, so the model has one type
  of values. Integers are Python's unbounded integers. \<open>PFloat r\<close> is the float of value
  \<open>r\<close>; the two zeros are one value, and infinities and NaN are not values of the model.
  Arithmetic on floats is modelled only where it is exact (see \<open>exact_float\<close>): where
  Python would round, overflow or refuse an integer too large for a float, the outcome is
  \<open>Unmodelled\<close>. Lists, tuples, sets and dictionaries
  are values (no container of the script is reachable through two names); classes and
  their instances live in a heap and are referred to by \<open>PRef\<close>.
  An exception object of a built-in class is \<open>PExc name args\<close>; the message of an
  exception the interpreter raises by itself is left out, except for the name in a
  \<open>NameError\<close> or an \<open>AttributeError\<close>.

  \<open>PFun f env\<close> is the function object made by the \<^verbatim>\<open>def\<close> or \<^verbatim>\<open>lambda\<close> called \<open>f\<close>
  below, with the variables it captured; \<open>PBound f self\<close> is a bound method;
  \<open>PBuiltin n\<close> is the built-in function or class \<open>n\<close>; \<open>PImported m n\<close> is the object
  \<open>n\<close> of the standard module \<open>m\<close>; \<open>PAlias v\<close> is the generic alias made by subscripting
  \<open>v\<close> (\<^verbatim>\<open>List[float]\<close> is \<open>PAlias (PImported ''typing'' ''List'')\<close>: the script only
  stores aliases, so the type arguments are dropped); \<open>PUnionType\<close> is what \<^verbatim>\<open>|\<close> makes of
  two types; \<open>PTypeVar\<close>, \<open>PNewType\<close> and \<open>PTypedDict\<close> are what calls of
  \<^verbatim>\<open>TypeVar\<close>, \<^verbatim>\<open>NewType\<close> and \<^verbatim>\<open>TypedDict\<close> return.
\<close>

datatype pyval =
    PNone
  | PEllipsis
  | PBool bool
  | PInt int
  | PFloat real
  | PComplex complex
  | PStr string
  | PBytes string
  | PList "pyval list"
  | PTuple "pyval list"
  | PSet "pyval list"
  | PDict "(pyval \<times> pyval) list"
  | PRange int int
  | PRef nat
  | PFun string "(string \<times> pyval) list"
  | PBound pyval pyval
  | PBuiltin string
  | PExc string "pyval list"
  | PImported string string
  | PAlias pyval
  | PUnionType
  | PTypeVar string
  | PNewType string
  | PTypedDict string

text \<open>
  The outcome of a computation is a value, a raised exception, or \<open>Unmodelled\<close> where the
  model does not say what Python does (for instance the text of a float).
\<close>

datatype 'a outcome = Ok 'a | Raise pyval | Unmodelled

definition TypeError :: pyval where
  "TypeError = PExc ''TypeError'' []"

definition ValueError :: pyval where
  "ValueError = PExc ''ValueError'' []"

definition IndexError :: pyval where
  "IndexError = PExc ''IndexError'' []"

definition KeyError :: "pyval \<Rightarrow> pyval" where
  "KeyError k = PExc ''KeyError'' [k]"

definition NameError :: "string \<Rightarrow> pyval" where
  "NameError n = PExc ''NameError'' [PStr n]"

definition AttributeError :: "string \<Rightarrow> pyval" where
  "AttributeError n = PExc ''AttributeError'' [PStr n]"

definition ImportError :: "string \<Rightarrow> pyval" where
  "ImportError n = PExc ''ImportError'' [PStr n]"

definition AssertionError :: pyval where
  "AssertionError = PExc ''AssertionError'' []"

definition is_Ok :: "'a outcome \<Rightarrow> bool" where
  "is_Ok r = (case r of Ok _ \<Rightarrow> True | _ \<Rightarrow> False)"

definition outcome_map :: "('a \<Rightarrow> 'b) \<Rightarrow> 'a outcome \<Rightarrow> 'b outcome" where
  "outcome_map f r = (case r of Ok x \<Rightarrow> Ok (f x) | Raise e \<Rightarrow> Raise e | Unmodelled \<Rightarrow> Unmodelled)"

text \<open>A comprehension: the elements left to right, stopping at the first that raises.\<close>

fun comprehension :: "('a \<Rightarrow> 'b outcome) \<Rightarrow> 'a list \<Rightarrow> 'b list outcome" where
  "comprehension f [] = Ok []"
| "comprehension f (x # xs) =
     (case f x of
        Ok y \<Rightarrow> outcome_map (\<lambda>ys. y # ys) (comprehension f xs)
      | Raise e \<Rightarrow> Raise e
      | Unmodelled \<Rightarrow> Unmodelled)"

subsection \<open>Numbers\<close>

datatype num = NI int | NF real | NC complex

definition as_num :: "pyval \<Rightarrow> num option" where
  "as_num v =
     (case v of
        PBool b \<Rightarrow> Some (NI (if b then 1 else 0))
      | PInt i \<Rightarrow> Some (NI i)
      | PFloat x \<Rightarrow> Some (NF x)
      | PComplex c \<Rightarrow> Some (NC c)
      | _ \<Rightarrow> None)"

fun of_num :: "num \<Rightarrow> pyval" where
  "of_num (NI i) = PInt i"
| "of_num (NF x) = PFloat x"
| "of_num (NC c) = PComplex c"

text \<open>
  Float arithmetic is IEEE 754 binary64, which returns the exact result of an operation
  whenever that result is a binary64 number. A multiple of \<^verbatim>\<open>2 ** -20\<close> of magnitude at
  most \<^verbatim>\<open>2 ** 30\<close> is one (its significand has at most 51 bits), so an operation whose two operands
  and whose exact result are all of this kind returns that result. The model gives a value
  to these operations only; the others have no value here (\<open>None\<close>), so that rounding,
  overflow to \<^verbatim>\<open>inf\<close> and the \<^verbatim>\<open>OverflowError\<close> of an integer too large to convert are
  never given a wrong value. An integer operand of a mixed operation is converted to a
  float first, as Python does.
\<close>

definition exact_float :: "real \<Rightarrow> bool" where
  "exact_float r = (of_int \<lfloor>r * 1048576\<rfloor> = r * 1048576 \<and> \<bar>r\<bar> \<le> 1073741824)"

definition float_op :: "real \<Rightarrow> real \<Rightarrow> real \<Rightarrow> num option" where
  "float_op a b r = (if exact_float a \<and> exact_float b \<and> exact_float r then Some (NF r) else None)"

text \<open>
  The sum of two complex numbers is the sum of the real parts and the sum of the imaginary
  parts, each a float addition. Products with a complex number are not modelled (the
  script has none).
\<close>

definition complex_add :: "complex \<Rightarrow> complex \<Rightarrow> num option" where
  "complex_add a b =
     (case (float_op (Re a) (Re b) (Re a + Re b), float_op (Im a) (Im b) (Im a + Im b)) of
        (Some (NF x), Some (NF y)) \<Rightarrow> Some (NC (Complex x y))
      | _ \<Rightarrow> None)"

fun num_mul :: "num \<Rightarrow> num \<Rightarrow> num option" where
  "num_mul (NI a) (NI b) = Some (NI (a * b))"
| "num_mul (NI a) (NF b) = float_op (of_int a) b (of_int a * b)"
| "num_mul (NF a) (NI b) = float_op a (of_int b) (a * of_int b)"
| "num_mul (NF a) (NF b) = float_op a b (a * b)"
| "num_mul (NI a) (NC b) = None"
| "num_mul (NF a) (NC b) = None"
| "num_mul (NC a) (NI b) = None"
| "num_mul (NC a) (NF b) = None"
| "num_mul (NC a) (NC b) = None"

fun num_add :: "num \<Rightarrow> num \<Rightarrow> num option" where
  "num_add (NI a) (NI b) = Some (NI (a + b))"
| "num_add (NI a) (NF b) = float_op (of_int a) b (of_int a + b)"
| "num_add (NF a) (NI b) = float_op a (of_int b) (a + of_int b)"
| "num_add (NF a) (NF b) = float_op a b (a + b)"
| "num_add (NI a) (NC b) = complex_add (Complex (of_int a) 0) b"
| "num_add (NF a) (NC b) = complex_add (Complex a 0) b"
| "num_add (NC a) (NI b) = complex_add a (Complex (of_int b) 0)"
| "num_add (NC a) (NF b) = complex_add a (Complex b 0)"
| "num_add (NC a) (NC b) = complex_add a b"

text \<open>The value of an arithmetic operation on two numbers, where the model has one.\<close>

definition arith :: "num option \<Rightarrow> pyval outcome" where
  "arith r = (case r of Some z \<Rightarrow> Ok (of_num z) | None \<Rightarrow> Unmodelled)"

fun num_eq :: "num \<Rightarrow> num \<Rightarrow> bool" where
  "num_eq (NI a) (NI b) = (a = b)"
| "num_eq (NI a) (NF b) = (of_int a = b)"
| "num_eq (NF a) (NI b) = (a = of_int b)"
| "num_eq (NF a) (NF b) = (a = b)"
| "num_eq (NI a) (NC b) = (of_int a = b)"
| "num_eq (NF a) (NC b) = (of_real a = b)"
| "num_eq (NC a) (NI b) = (a = of_int b)"
| "num_eq (NC a) (NF b) = (a = of_real b)"
| "num_eq (NC a) (NC b) = (a = b)"

definition is_number :: "pyval \<Rightarrow> bool" where
  "is_number v = (as_num v \<noteq> None)"

text \<open>An index or a repetition count: an \<^verbatim>\<open>int\<close> or a \<^verbatim>\<open>bool\<close>.\<close>

definition as_index :: "pyval \<Rightarrow> int option" where
  "as_index v =
     (case v of PBool b \<Rightarrow> Some (if b then 1 else 0) | PInt i \<Rightarrow> Some i | _ \<Rightarrow> None)"

definition repeat :: "'a list \<Rightarrow> int \<Rightarrow> 'a list" where
  "repeat xs n = concat (replicate (nat n) xs)"

definition seq_repeat :: "pyval \<Rightarrow> int \<Rightarrow> pyval option" where
  "seq_repeat v n =
     (case v of
        PStr s \<Rightarrow> Some (PStr (repeat s n))
      | PBytes s \<Rightarrow> Some (PBytes (repeat s n))
      | PList xs \<Rightarrow> Some (PList (repeat xs n))
      | PTuple xs \<Rightarrow> Some (PTuple (repeat xs n))
      | _ \<Rightarrow> None)"

text \<open>
  \<^verbatim>\<open>a * b\<close>: the product of two numbers (exact on integers; on floats where it is exact,
  and not modelled elsewhere), or a sequence repeated an integer number of times; a
  \<^verbatim>\<open>TypeError\<close> otherwise (no class of the script defines \<^verbatim>\<open>__mul__\<close>).
\<close>

definition py_mul :: "pyval \<Rightarrow> pyval \<Rightarrow> pyval outcome" where
  "py_mul a b =
     (case (as_num a, as_num b) of
        (Some x, Some y) \<Rightarrow> arith (num_mul x y)
      | _ \<Rightarrow>
        (case (as_index a, as_index b) of
           (_, Some n) \<Rightarrow> (case seq_repeat a n of Some r \<Rightarrow> Ok r | None \<Rightarrow> Raise TypeError)
         | (Some n, None) \<Rightarrow> (case seq_repeat b n of Some r \<Rightarrow> Ok r | None \<Rightarrow> Raise TypeError)
         | (None, None) \<Rightarrow> Raise TypeError))"

definition seq_concat :: "pyval \<Rightarrow> pyval \<Rightarrow> pyval option" where
  "seq_concat a b =
     (case a of
        PStr x \<Rightarrow> (case b of PStr y \<Rightarrow> Some (PStr (x @ y)) | _ \<Rightarrow> None)
      | PBytes x \<Rightarrow> (case b of PBytes y \<Rightarrow> Some (PBytes (x @ y)) | _ \<Rightarrow> None)
      | PList x \<Rightarrow> (case b of PList y \<Rightarrow> Some (PList (x @ y)) | _ \<Rightarrow> None)
      | PTuple x \<Rightarrow> (case b of PTuple y \<Rightarrow> Some (PTuple (x @ y)) | _ \<Rightarrow> None)
      | _ \<Rightarrow> None)"

text \<open>
  \<^verbatim>\<open>a + b\<close>: the sum of two numbers (as for the product) or the concatenation of two
  sequences of one kind.
\<close>

definition py_add :: "pyval \<Rightarrow> pyval \<Rightarrow> pyval outcome" where
  "py_add a b =
     (case (as_num a, as_num b) of
        (Some x, Some y) \<Rightarrow> arith (num_add x y)
      | _ \<Rightarrow> (case seq_concat a b of Some r \<Rightarrow> Ok r | None \<Rightarrow> Raise TypeError))"

text \<open>
  \<^verbatim>\<open>a == b\<close> is modelled between numbers (by value, a \<^verbatim>\<open>bool\<close> counting as 0 or 1),
  between strings and with \<^verbatim>\<open>None\<close>; the script compares integers only.
\<close>

definition is_scalar :: "pyval \<Rightarrow> bool" where
  "is_scalar v =
     (case v of PNone \<Rightarrow> True | PStr _ \<Rightarrow> True | PBytes _ \<Rightarrow> True | _ \<Rightarrow> is_number v)"

definition py_eq :: "pyval \<Rightarrow> pyval \<Rightarrow> pyval outcome" where
  "py_eq a b =
     (case (as_num a, as_num b) of
        (Some x, Some y) \<Rightarrow> Ok (PBool (num_eq x y))
      | _ \<Rightarrow> if is_scalar a \<and> is_scalar b then Ok (PBool (a = b)) else Unmodelled)"

text \<open>Equality of two hashable scalars, as a set or a dictionary compares its keys.\<close>

definition scalar_eq :: "pyval \<Rightarrow> pyval \<Rightarrow> bool" where
  "scalar_eq a b =
     (case (as_num a, as_num b) of (Some x, Some y) \<Rightarrow> num_eq x y | _ \<Rightarrow> a = b)"

text \<open>
  The truth value of an object: \<^verbatim>\<open>None\<close>, zero and an empty container are false. An
  instance of a class of the script is true (none defines \<^verbatim>\<open>__bool__\<close> or \<^verbatim>\<open>__len__\<close>).
\<close>

definition py_truthy :: "pyval \<Rightarrow> bool" where
  "py_truthy v =
     (case v of
        PNone \<Rightarrow> False
      | PBool b \<Rightarrow> b
      | PInt i \<Rightarrow> i \<noteq> 0
      | PFloat x \<Rightarrow> x \<noteq> 0
      | PComplex c \<Rightarrow> c \<noteq> 0
      | PStr s \<Rightarrow> s \<noteq> []
      | PBytes s \<Rightarrow> s \<noteq> []
      | PList xs \<Rightarrow> xs \<noteq> []
      | PTuple xs \<Rightarrow> xs \<noteq> []
      | PSet xs \<Rightarrow> xs \<noteq> []
      | PDict kvs \<Rightarrow> kvs \<noteq> []
      | PRange a b \<Rightarrow> a < b
      | _ \<Rightarrow> True)"

subsection \<open>Text of a value\<close>

fun digits :: "nat \<Rightarrow> string" where
  "digits n = (if n < 10 then [''0123456789'' ! n]
               else digits (n div 10) @ [''0123456789'' ! (n mod 10)])"

declare digits.simps [simp del]

definition str_of_int :: "int \<Rightarrow> string" where
  "str_of_int i = (if i < 0 then CHR ''-'' # digits (nat (- i)) else digits (nat i))"

text \<open>
  \<^verbatim>\<open>str(v)\<close>, which an f-string applies to each interpolated value. Modelled for
  \<^verbatim>\<open>None\<close>, booleans, integers and strings.
\<close>

definition py_str :: "pyval \<Rightarrow> string outcome" where
  "py_str v =
     (case v of
        PNone \<Rightarrow> Ok ''None''
      | PBool b \<Rightarrow> Ok (if b then ''True'' else ''False'')
      | PInt i \<Rightarrow> Ok (str_of_int i)
      | PStr s \<Rightarrow> Ok s
      | _ \<Rightarrow> Unmodelled)"

subsection \<open>Subscription and iteration\<close>

text \<open>An index counts from the end when it is negative.\<close>

definition seq_item :: "'a list \<Rightarrow> int \<Rightarrow> 'a outcome" where
  "seq_item xs i =
     (if 0 \<le> i \<and> i < int (length xs) then Ok (xs ! nat i)
      else if i < 0 \<and> - i \<le> int (length xs) then Ok (xs ! nat (int (length xs) + i))
      else Raise IndexError)"

definition range_list :: "int \<Rightarrow> int \<Rightarrow> pyval list" where
  "range_list a b = map PInt [a .. b - 1]"

definition is_PStr :: "pyval \<Rightarrow> bool" where
  "is_PStr v = (case v of PStr _ \<Rightarrow> True | _ \<Rightarrow> False)"

text \<open>
  The names of \<^verbatim>\<open>typing\<close> that the script subscripts. The arguments are not checked:
  every subscript of the script is well-formed (types, \<^verbatim>\<open>...\<close>, string literals).
\<close>

definition typing_subscriptable :: "string list" where
  "typing_subscriptable =
     [''List'', ''Set'', ''Dict'', ''Tuple'', ''Final'', ''Literal'', ''ClassVar'', ''Union'',
      ''Optional'', ''TypeGuard'', ''Iterable'', ''Callable'', ''Sequence'', ''Generic'',
      ''Protocol'']"

text \<open>
  \<^verbatim>\<open>v[i]\<close> with a single index, for a value that is not in the heap. A dictionary is
  looked up where the keys are scalars; slices are not modelled.
\<close>

definition py_getitem :: "pyval \<Rightarrow> pyval \<Rightarrow> pyval outcome" where
  "py_getitem v i =
     (case v of
        PList xs \<Rightarrow>
          (case as_index i of Some k \<Rightarrow> seq_item xs k | None \<Rightarrow> Raise TypeError)
      | PTuple xs \<Rightarrow>
          (case as_index i of Some k \<Rightarrow> seq_item xs k | None \<Rightarrow> Raise TypeError)
      | PStr s \<Rightarrow>
          (case as_index i of
             Some k \<Rightarrow> outcome_map (\<lambda>c. PStr [c]) (seq_item s k)
           | None \<Rightarrow> Raise TypeError)
      | PBytes s \<Rightarrow>
          (case as_index i of
             Some k \<Rightarrow> outcome_map (\<lambda>c. PInt (of_char c)) (seq_item s k)
           | None \<Rightarrow> Raise TypeError)
      | PRange a b \<Rightarrow>
          (case as_index i of Some k \<Rightarrow> seq_item (range_list a b) k | None \<Rightarrow> Raise TypeError)
      | PDict kvs \<Rightarrow>
          (if is_scalar i \<and> list_all (\<lambda>kv. is_scalar (fst kv)) kvs
           then (case find (\<lambda>kv. scalar_eq (fst kv) i) kvs of
                   Some kv \<Rightarrow> Ok (snd kv)
                 | None \<Rightarrow> Raise (KeyError i))
           else Unmodelled)
      | PImported m n \<Rightarrow>
          (if m = ''typing'' \<and> n \<in> set typing_subscriptable then Ok (PAlias v) else Unmodelled)
      | PBuiltin n \<Rightarrow>
          (if n \<in> {''list'', ''tuple'', ''dict''} then Ok (PAlias v) else Unmodelled)
      | PSet xs \<Rightarrow> Raise TypeError
      | PNone \<Rightarrow> Raise TypeError
      | PEllipsis \<Rightarrow> Raise TypeError
      | PBool b \<Rightarrow> Raise TypeError
      | PInt n \<Rightarrow> Raise TypeError
      | PFloat x \<Rightarrow> Raise TypeError
      | PComplex c \<Rightarrow> Raise TypeError
      | _ \<Rightarrow> Unmodelled)"

text \<open>The elements a \<^verbatim>\<open>for\<close> over the value visits; a dictionary gives its keys.\<close>

definition py_iter :: "pyval \<Rightarrow> pyval list outcome" where
  "py_iter v =
     (case v of
        PList xs \<Rightarrow> Ok xs
      | PTuple xs \<Rightarrow> Ok xs
      | PSet xs \<Rightarrow> Ok xs
      | PDict kvs \<Rightarrow> Ok (map fst kvs)
      | PStr s \<Rightarrow> Ok (map (\<lambda>c. PStr [c]) s)
      | PBytes s \<Rightarrow> Ok (map (\<lambda>c. PInt (of_char c)) s)
      | PRange a b \<Rightarrow> Ok (range_list a b)
      | PNone \<Rightarrow> Raise TypeError
      | PEllipsis \<Rightarrow> Raise TypeError
      | PBool b \<Rightarrow> Raise TypeError
      | PInt n \<Rightarrow> Raise TypeError
      | PFloat x \<Rightarrow> Raise TypeError
      | PComplex c \<Rightarrow> Raise TypeError
      | _ \<Rightarrow> Unmodelled)"

subsection \<open>Changing a container\<close>

text \<open>
  \<^verbatim>\<open>v.append(x)\<close>, \<^verbatim>\<open>v.add(x)\<close> and \<^verbatim>\<open>v[k] = x\<close> give the changed container. A value
  without the method is an \<^verbatim>\<open>AttributeError\<close>, an unhashable element or key a
  \<^verbatim>\<open>TypeError\<close>.
\<close>

definition unhashable :: "pyval \<Rightarrow> bool" where
  "unhashable v = (case v of PList _ \<Rightarrow> True | PSet _ \<Rightarrow> True | PDict _ \<Rightarrow> True | _ \<Rightarrow> False)"

definition list_append :: "pyval \<Rightarrow> pyval \<Rightarrow> pyval outcome" where
  "list_append v x =
     (case v of
        PList xs \<Rightarrow> Ok (PList (xs @ [x]))
      | PRef r \<Rightarrow> Unmodelled
      | PBuiltin n \<Rightarrow> Unmodelled
      | PImported m n \<Rightarrow> Unmodelled
      | PAlias a \<Rightarrow> Unmodelled
      | _ \<Rightarrow> Raise (AttributeError ''append''))"

definition set_add :: "pyval \<Rightarrow> pyval \<Rightarrow> pyval outcome" where
  "set_add v x =
     (case v of
        PSet xs \<Rightarrow>
          (if unhashable x then Raise TypeError
           else if is_scalar x \<and> list_all is_scalar xs
           then Ok (PSet (if list_ex (scalar_eq x) xs then xs else xs @ [x]))
           else Unmodelled)
      | PRef r \<Rightarrow> Unmodelled
      | PBuiltin n \<Rightarrow> Unmodelled
      | PImported m n \<Rightarrow> Unmodelled
      | PAlias a \<Rightarrow> Unmodelled
      | _ \<Rightarrow> Raise (AttributeError ''add''))"

fun dict_update :: "pyval \<Rightarrow> pyval \<Rightarrow> (pyval \<times> pyval) list \<Rightarrow> (pyval \<times> pyval) list" where
  "dict_update k x [] = [(k, x)]"
| "dict_update k x ((k', x') # kvs) =
     (if scalar_eq k' k then (k', x) # kvs else (k', x') # dict_update k x kvs)"

definition dict_set :: "pyval \<Rightarrow> pyval \<Rightarrow> pyval \<Rightarrow> pyval outcome" where
  "dict_set v k x =
     (case v of
        PDict kvs \<Rightarrow>
          (if unhashable k then Raise TypeError
           else if is_scalar k \<and> list_all (\<lambda>kv. is_scalar (fst kv)) kvs
           then Ok (PDict (dict_update k x kvs))
           else Unmodelled)
      | _ \<Rightarrow> Unmodelled)"

text \<open>A set display and a dictionary display, built from the left.\<close>

fun set_from :: "pyval \<Rightarrow> pyval list \<Rightarrow> pyval outcome" where
  "set_from acc [] = Ok acc"
| "set_from acc (x # xs) =
     (case set_add acc x of
        Ok acc' \<Rightarrow> set_from acc' xs
      | Raise e \<Rightarrow> Raise e
      | Unmodelled \<Rightarrow> Unmodelled)"

fun dict_from :: "pyval \<Rightarrow> (pyval \<times> pyval) list \<Rightarrow> pyval outcome" where
  "dict_from acc [] = Ok acc"
| "dict_from acc ((k, x) # kvs) =
     (case dict_set acc k x of
        Ok acc' \<Rightarrow> dict_from acc' kvs
      | Raise e \<Rightarrow> Raise e
      | Unmodelled \<Rightarrow> Unmodelled)"

subsection \<open>Built-in functions over an iterable\<close>

text \<open>\<^verbatim>\<open>sum(values)\<close>: the elements added to 0 from the left.\<close>

fun sum_from :: "pyval \<Rightarrow> pyval list \<Rightarrow> pyval outcome" where
  "sum_from acc [] = Ok acc"
| "sum_from acc (x # xs) =
     (case py_add acc x of
        Ok acc' \<Rightarrow> sum_from acc' xs
      | Raise e \<Rightarrow> Raise e
      | Unmodelled \<Rightarrow> Unmodelled)"

definition py_sum :: "pyval \<Rightarrow> pyval outcome" where
  "py_sum v =
     (case py_iter v of
        Ok xs \<Rightarrow> sum_from (PInt 0) xs
      | Raise e \<Rightarrow> Raise e
      | Unmodelled \<Rightarrow> Unmodelled)"

text \<open>\<^verbatim>\<open>sep.join(v)\<close>: every element has to be a string.\<close>

fun join_strs :: "string \<Rightarrow> pyval list \<Rightarrow> string option" where
  "join_strs sep [] = Some []"
| "join_strs sep [x] = (case x of PStr s \<Rightarrow> Some s | _ \<Rightarrow> None)"
| "join_strs sep (x # y # ys) =
     (case x of
        PStr s \<Rightarrow> (case join_strs sep (y # ys) of Some r \<Rightarrow> Some (s @ sep @ r) | None \<Rightarrow> None)
      | _ \<Rightarrow> None)"

definition str_join :: "string \<Rightarrow> pyval \<Rightarrow> pyval outcome" where
  "str_join sep v =
     (case py_iter v of
        Ok xs \<Rightarrow> (case join_strs sep xs of Some r \<Rightarrow> Ok (PStr r) | None \<Rightarrow> Raise TypeError)
      | Raise e \<Rightarrow> Raise e
      | Unmodelled \<Rightarrow> Unmodelled)"

section \<open>Functions of the script that compute a value\<close>

text \<open>
  The bodies below use only built-in names (\<^verbatim>\<open>isinstance\<close>, \<^verbatim>\<open>list\<close>, \<^verbatim>\<open>sum\<close>, \<^verbatim>\<open>all\<close>,
  \<^verbatim>\<open>str\<close>), none of which the module rebinds, so they do not read the module namespace.
\<close>

text \<open>Line 132: \<^verbatim>\<open>def multiply(a, b): return a * b\<close> (the name is rebound at line 694).\<close>

definition multiply_ab :: "pyval \<Rightarrow> pyval \<Rightarrow> pyval outcome" where
  "multiply_ab a b = py_mul a b"

text \<open>
  Lines 449 and 463: \<^verbatim>\<open>if isinstance(number, list): return [x * 2 for x in number]\<close>,
  \<^verbatim>\<open>return number * 2\<close>.
\<close>

definition double :: "pyval \<Rightarrow> pyval outcome" where
  "double number =
     (case number of
        PList xs \<Rightarrow> outcome_map PList (comprehension (\<lambda>x. py_mul x (PInt 2)) xs)
      | _ \<Rightarrow> py_mul number (PInt 2))"

definition double_alternative :: "pyval \<Rightarrow> pyval outcome" where
  "double_alternative number =
     (case number of
        PList xs \<Rightarrow> outcome_map PList (comprehension (\<lambda>x. py_mul x (PInt 2)) xs)
      | _ \<Rightarrow> py_mul number (PInt 2))"

text \<open>
  Line 560, the implementation behind the two \<^verbatim>\<open>@overload\<close> stubs:
  \<^verbatim>\<open>if isinstance(number, list): return [x * 3 for x in number]\<close>, \<^verbatim>\<open>return number * 3\<close>.
\<close>

definition triple :: "pyval \<Rightarrow> pyval outcome" where
  "triple number =
     (case number of
        PList xs \<Rightarrow> outcome_map PList (comprehension (\<lambda>x. py_mul x (PInt 3)) xs)
      | _ \<Rightarrow> py_mul number (PInt 3))"

text \<open>Line 508: \<^verbatim>\<open>def get_scores(): return [4.5, 0.6]\<close>.\<close>

definition get_scores :: "pyval outcome" where
  "get_scores = Ok (PList [PFloat 4.5, PFloat 0.6])"

text \<open>Line 243: \<^verbatim>\<open>def is_user_valid(user_id): return f"Welcome {user_id}!"\<close>.\<close>

definition is_user_valid :: "pyval \<Rightarrow> pyval outcome" where
  "is_user_valid user_id = outcome_map (\<lambda>s. PStr (''Welcome '' @ s @ ''!'')) (py_str user_id)"

text \<open>
  Line 530: \<^verbatim>\<open>def convertable_to_string(value): return all(isinstance(x, str) for x in value)\<close>.
\<close>

definition convertable_to_string :: "pyval \<Rightarrow> pyval outcome" where
  "convertable_to_string v = outcome_map (\<lambda>xs. PBool (list_all is_PStr xs)) (py_iter v)"

text \<open>
  Lines 584, 595 and 611: \<^verbatim>\<open>return sum(values)\<close>; the second name is defined twice with
  the same body.
\<close>

definition sum_all_elements :: "pyval \<Rightarrow> pyval outcome" where
  "sum_all_elements v = py_sum v"

definition sum_all_elements_2 :: "pyval \<Rightarrow> pyval outcome" where
  "sum_all_elements_2 v = py_sum v"

text \<open>Line 661: \<^verbatim>\<open>def double_def(x): return x * 2\<close>, and the \<^verbatim>\<open>lambda x: x * 2\<close> of line 673.\<close>

definition double_def :: "pyval \<Rightarrow> pyval outcome" where
  "double_def x = py_mul x (PInt 2)"

definition lambda_673 :: "pyval \<Rightarrow> pyval outcome" where
  "lambda_673 x = py_mul x (PInt 2)"

text \<open>
  Line 682: \<^verbatim>\<open>def summation(*args, **kwargs): return sum(args) + sum(kwargs.values())\<close>.
\<close>

definition summation :: "pyval list \<Rightarrow> (string \<times> pyval) list \<Rightarrow> pyval outcome" where
  "summation args kwargs =
     (case sum_from (PInt 0) args of
        Ok a \<Rightarrow>
          (case sum_from (PInt 0) (map snd kwargs) of
             Ok b \<Rightarrow> py_add a b
           | Raise e \<Rightarrow> Raise e
           | Unmodelled \<Rightarrow> Unmodelled)
      | Raise e \<Rightarrow> Raise e
      | Unmodelled \<Rightarrow> Unmodelled)"

text \<open>
  Line 694: \<^verbatim>\<open>def multiply(x)\<close> returns the function \<^verbatim>\<open>helper\<close> it defines, which has
  captured \<^verbatim>\<open>x\<close>; \<^verbatim>\<open>helper(y)\<close> returns \<^verbatim>\<open>x * y\<close>.
\<close>

definition multiply :: "pyval \<Rightarrow> pyval outcome" where
  "multiply x = Ok (PFun ''helper'' [(''x'', x)])"

definition helper :: "(string \<times> pyval) list \<Rightarrow> pyval \<Rightarrow> pyval outcome" where
  "helper env y =
     (case map_of env ''x'' of
        Some x \<Rightarrow> py_mul x y
      | None \<Rightarrow> Raise (NameError ''x''))"

text \<open>
  Lines 722, 743, 761 and 785: the four functions differ in their annotations only; the
  body of each is \<^verbatim>\<open>return values[0]\<close>.
\<close>

definition first_union :: "pyval \<Rightarrow> pyval outcome" where
  "first_union values = py_getitem values (PInt 0)"

definition first_typevar :: "pyval \<Rightarrow> pyval outcome" where
  "first_typevar values = py_getitem values (PInt 0)"

definition first_typevar_constrained :: "pyval \<Rightarrow> pyval outcome" where
  "first_typevar_constrained values = py_getitem values (PInt 0)"

definition first_typevar_bounded :: "pyval \<Rightarrow> pyval outcome" where
  "first_typevar_bounded values = py_getitem values (PInt 0)"

text \<open>
  Line 230: \<^verbatim>\<open>UserID = NewType("UserID", int)\<close>. Calling the object that \<^verbatim>\<open>NewType\<close> made
  returns its argument unchanged.
\<close>

definition UserID :: "pyval \<Rightarrow> pyval outcome" where
  "UserID x = Ok x"

section \<open>The state of a run\<close>

text \<open>
  A class object has its name, its bases as the class statement evaluated them, its
  method resolution order (itself first), the namespace its body left, the annotations
  of its body in order and, once \<^verbatim>\<open>@dataclass\<close> has processed it, its fields in order
  with their defaults. An instance has its class and its own attributes.
\<close>

record pyclass =
  cname :: string
  cbases :: "pyval list"
  cmro :: "nat list"
  cdict :: "(string \<times> pyval) list"
  cannots :: "(string \<times> pyval) list"
  cfields :: "(string \<times> pyval option) list option"

datatype obj = ClassObj pyclass | InstObj nat "(string \<times> pyval) list"

text \<open>
  The module namespace, the namespace and annotations of the class body being executed
  (if any), the heap with the next free reference, and the lines written to the console
  so far. A namespace and the heap are association lists with the newest binding first: a
  lookup takes the first binding of a name or reference, so a new binding shadows the
  older ones. The annotations of a class body keep the order in which the names were
  first annotated, which is the order of the fields of a dataclass.
\<close>

type_synonym heap = "(nat \<times> obj) list"

record state =
  globals :: "(string \<times> pyval) list"
  locals :: "(string \<times> pyval) list option"
  annots :: "(string \<times> pyval) list"
  heap :: heap
  next_ref :: nat
  console :: "string list"

definition initial_state :: state where
  "initial_state =
     \<lparr>globals = [], locals = None, annots = [], heap = [], next_ref = 0, console = []\<rparr>"

type_synonym 'a py = "state \<Rightarrow> 'a outcome \<times> state"

definition py_return :: "'a \<Rightarrow> 'a py" where
  "py_return v = (\<lambda>s. (Ok v, s))"

definition py_raise :: "pyval \<Rightarrow> 'a py" where
  "py_raise e = (\<lambda>s. (Raise e, s))"

definition unmodelled :: "'a py" where
  "unmodelled = (\<lambda>s. (Unmodelled, s))"

definition lift :: "'a outcome \<Rightarrow> 'a py" where
  "lift r = (\<lambda>s. (r, s))"

text \<open>Sequencing: an exception ends the computation and keeps the state reached.\<close>

definition py_bind :: "'a py \<Rightarrow> ('a \<Rightarrow> 'b py) \<Rightarrow> 'b py" where
  "py_bind m f =
     (\<lambda>s. case m s of
        (Ok v, s') \<Rightarrow> f v s'
      | (Raise e, s') \<Rightarrow> (Raise e, s')
      | (Unmodelled, s') \<Rightarrow> (Unmodelled, s'))"

definition py_then :: "'a py \<Rightarrow> 'b py \<Rightarrow> 'b py" where
  "py_then m k = py_bind m (\<lambda>_. k)"

fun exec :: "unit py list \<Rightarrow> unit py" where
  "exec [] = py_return ()"
| "exec (c # cs) = py_then c (exec cs)"

fun eval_all :: "'a py list \<Rightarrow> 'a list py" where
  "eval_all [] = py_return []"
| "eval_all (e # es) = py_bind e (\<lambda>v. py_bind (eval_all es) (\<lambda>vs. py_return (v # vs)))"

fun py_mapM :: "('a \<Rightarrow> 'b py) \<Rightarrow> 'a list \<Rightarrow> 'b list py" where
  "py_mapM f [] = py_return []"
| "py_mapM f (x # xs) = py_bind (f x) (\<lambda>v. py_bind (py_mapM f xs) (\<lambda>vs. py_return (v # vs)))"

definition py_print :: "string \<Rightarrow> pyval py" where
  "py_print line = (\<lambda>s. (Ok PNone, s\<lparr>console := console s @ [line]\<rparr>))"

subsection \<open>Names\<close>

text \<open>
  The built-in classes and functions, and the built-in exception classes with their
  base class. \<^verbatim>\<open>Generic\<close> is a name of the module \<^verbatim>\<open>typing\<close>, not a built-in name.
\<close>

definition builtin_classes :: "string list" where
  "builtin_classes =
     [''int'', ''float'', ''str'', ''bytes'', ''complex'', ''object'', ''list'', ''tuple'',
      ''dict'', ''set'', ''bool'', ''range'', ''type'', ''frozenset'', ''bytearray'',
      ''slice'', ''property'', ''staticmethod'', ''classmethod'', ''super'', ''enumerate'',
      ''zip'', ''map'', ''filter'', ''reversed'', ''memoryview'']"

definition builtin_functions :: "string list" where
  "builtin_functions =
     [''print'', ''isinstance'', ''issubclass'', ''sum'', ''all'', ''any'', ''len'', ''abs'',
      ''min'', ''max'', ''sorted'', ''repr'', ''hash'', ''id'', ''iter'', ''next'', ''getattr'',
      ''setattr'', ''hasattr'', ''delattr'', ''callable'', ''round'', ''pow'', ''divmod'',
      ''ord'', ''chr'', ''hex'', ''oct'', ''bin'', ''format'', ''input'', ''open'', ''vars'',
      ''dir'', ''globals'', ''locals'', ''eval'', ''exec'', ''compile'', ''ascii'',
      ''breakpoint'', ''help'', ''aiter'', ''anext'']"

definition exc_parent :: "(string \<times> string) list" where
  "exc_parent =
     [(''Exception'', ''BaseException''), (''KeyboardInterrupt'', ''BaseException''),
      (''SystemExit'', ''BaseException''), (''GeneratorExit'', ''BaseException''),
      (''ValueError'', ''Exception''), (''TypeError'', ''Exception''),
      (''NameError'', ''Exception''), (''AttributeError'', ''Exception''),
      (''ImportError'', ''Exception''), (''AssertionError'', ''Exception''),
      (''LookupError'', ''Exception''), (''IndexError'', ''LookupError''),
      (''KeyError'', ''LookupError''), (''RuntimeError'', ''Exception''),
      (''NotImplementedError'', ''RuntimeError''), (''RecursionError'', ''RuntimeError''),
      (''ArithmeticError'', ''Exception''), (''ZeroDivisionError'', ''ArithmeticError''),
      (''OverflowError'', ''ArithmeticError''), (''StopIteration'', ''Exception''),
      (''OSError'', ''Exception''), (''MemoryError'', ''Exception''),
      (''UnboundLocalError'', ''NameError''), (''ModuleNotFoundError'', ''ImportError''),
      (''UnicodeError'', ''ValueError'')]"

definition exception_classes :: "string list" where
  "exception_classes = ''BaseException'' # map fst exc_parent"

definition builtin_names :: "string list" where
  "builtin_names = builtin_classes @ builtin_functions @ exception_classes"

text \<open>The class and its base classes, nearest first (the table is at most three deep).\<close>

fun exc_chain :: "nat \<Rightarrow> string \<Rightarrow> string list" where
  "exc_chain 0 c = [c]"
| "exc_chain (Suc k) c =
     (case map_of exc_parent c of None \<Rightarrow> [c] | Some p \<Rightarrow> c # exc_chain k p)"

definition exc_isa :: "string \<Rightarrow> string \<Rightarrow> bool" where
  "exc_isa c d = (d \<in> set (exc_chain 4 c))"

text \<open>
  A lookup in newer bindings laid over older ones, which is what \<open>map_of\<close> does on the
  two lists appended.
\<close>

fun lookup_in :: "'k \<Rightarrow> ('k \<times> 'v) list \<Rightarrow> ('k \<Rightarrow> 'v option) \<Rightarrow> 'v option" where
  "lookup_in k [] older = older k"
| "lookup_in k ((k', v) # newer) older = (if k = k' then Some v else lookup_in k newer older)"

text \<open>
  A name is looked up in the class body being executed, then in the module namespace,
  then among the built-in names; it is stored in the innermost of the first two.
\<close>

definition load :: "string \<Rightarrow> pyval py" where
  "load n =
     (\<lambda>s. case (case locals s of Some l \<Rightarrow> map_of l n | None \<Rightarrow> None) of
        Some v \<Rightarrow> (Ok v, s)
      | None \<Rightarrow>
        (case map_of (globals s) n of
           Some v \<Rightarrow> (Ok v, s)
         | None \<Rightarrow>
           if n \<in> set builtin_names then (Ok (PBuiltin n), s) else (Raise (NameError n), s)))"

definition store :: "string \<Rightarrow> pyval \<Rightarrow> unit py" where
  "store n v =
     (\<lambda>s. case locals s of
        Some l \<Rightarrow> (Ok (), s\<lparr>locals := Some ((n, v) # l)\<rparr>)
      | None \<Rightarrow> (Ok (), s\<lparr>globals := (n, v) # globals s\<rparr>))"

text \<open>
  The annotation of a name is kept for the class body being executed, where
  \<^verbatim>\<open>@dataclass\<close> reads it. The annotations of the module itself are evaluated and not
  kept: nothing reads them.
\<close>

definition note_annotation :: "string \<Rightarrow> pyval \<Rightarrow> unit py" where
  "note_annotation n v =
     (\<lambda>s. case locals s of
        Some l \<Rightarrow> (Ok (), s\<lparr>annots := AList.update n v (annots s)\<rparr>)
      | None \<Rightarrow> (Ok (), s))"

text \<open>
  The names the three imported modules define (Python 3.10 to 3.12, where every
  \<^verbatim>\<open>import\<close> of the script succeeds; \<^verbatim>\<open>TypeAlias\<close> and \<^verbatim>\<open>TypeGuard\<close> are missing before
  3.10). \<^verbatim>\<open>from m import a, b\<close> binds each name in turn.
\<close>

definition module_names :: "(string \<times> string list) list" where
  "module_names =
     [(''typing'',
         [''List'', ''Set'', ''Dict'', ''Tuple'', ''NoReturn'', ''TypeAlias'', ''NewType'',
          ''TypedDict'', ''Final'', ''final'', ''Literal'', ''Any'', ''ClassVar'', ''Union'',
          ''Optional'', ''TypeGuard'', ''overload'', ''Iterable'', ''Protocol'', ''Callable'',
          ''Sequence'', ''TypeVar'', ''Generic'', ''ParamSpec'', ''Concatenate'',
          ''Annotated'']),
      (''abc'', [''ABC'', ''ABCMeta'', ''abstractmethod'']),
      (''dataclasses'', [''dataclass'', ''field'', ''fields'', ''asdict'', ''astuple''])]"

definition import_one :: "string \<Rightarrow> string \<Rightarrow> unit py" where
  "import_one m n =
     (case map_of module_names m of
        None \<Rightarrow> unmodelled
      | Some ns \<Rightarrow> if n \<in> set ns then store n (PImported m n) else py_raise (ImportError n))"

definition import_from :: "string \<Rightarrow> string list \<Rightarrow> unit py" where
  "import_from m ns = exec (map (import_one m) ns)"

subsection \<open>Classes and instances\<close>

definition heap_at :: "heap \<Rightarrow> nat \<Rightarrow> obj option" where
  "heap_at h r = map_of h r"

definition alloc :: "obj \<Rightarrow> pyval py" where
  "alloc x =
     (\<lambda>s. (Ok (PRef (next_ref s)),
           s\<lparr>heap := (next_ref s, x) # heap s, next_ref := Suc (next_ref s)\<rparr>))"

definition heap_put :: "nat \<Rightarrow> obj \<Rightarrow> state \<Rightarrow> state" where
  "heap_put r x s = s\<lparr>heap := (r, x) # heap s\<rparr>"

definition class_at :: "heap \<Rightarrow> nat \<Rightarrow> pyclass option" where
  "class_at h r = (case heap_at h r of Some (ClassObj k) \<Rightarrow> Some k | _ \<Rightarrow> None)"

text \<open>The first class of a resolution order whose namespace has the attribute.\<close>

fun mro_lookup :: "heap \<Rightarrow> nat list \<Rightarrow> string \<Rightarrow> pyval option" where
  "mro_lookup h [] n = None"
| "mro_lookup h (c # cs) n =
     (case class_at h c of
        Some k \<Rightarrow> (case map_of (cdict k) n of Some v \<Rightarrow> Some v | None \<Rightarrow> mro_lookup h cs n)
      | None \<Rightarrow> mro_lookup h cs n)"

text \<open>
  A base the model looks through: a class of the heap (also as a subscripted alias),
  \<^verbatim>\<open>object\<close>, \<^verbatim>\<open>ABC\<close> and \<^verbatim>\<open>Generic[...]\<close> add no attribute a statement of the script
  reads and leave construction alone. A class with another base (\<^verbatim>\<open>TypedDict\<close>,
  \<^verbatim>\<open>Protocol\<close>, a built-in class) can be defined; what its instances do is not modelled.
\<close>

definition base_ref :: "pyval \<Rightarrow> nat option" where
  "base_ref b =
     (case b of
        PRef r \<Rightarrow> Some r
      | PAlias a \<Rightarrow> (case a of PRef r \<Rightarrow> Some r | _ \<Rightarrow> None)
      | _ \<Rightarrow> None)"

definition is_Generic :: "pyval \<Rightarrow> bool" where
  "is_Generic b = (b = PImported ''typing'' ''Generic'' \<or> b = PAlias (PImported ''typing'' ''Generic''))"

definition transparent_base :: "pyval \<Rightarrow> bool" where
  "transparent_base b =
     (base_ref b \<noteq> None \<or> b = PBuiltin ''object'' \<or> b = PImported ''abc'' ''ABC'' \<or> is_Generic b)"

definition known_base :: "pyval \<Rightarrow> bool" where
  "known_base b =
     (transparent_base b
      \<or> b = PImported ''typing'' ''TypedDict'' \<or> b = PImported ''typing'' ''Protocol''
      \<or> b = PAlias (PImported ''typing'' ''Protocol'')
      \<or> (case b of PBuiltin n \<Rightarrow> n \<in> set builtin_classes \<or> n \<in> set exception_classes
          | _ \<Rightarrow> False))"

definition plain_class :: "heap \<Rightarrow> pyclass \<Rightarrow> bool" where
  "plain_class h k =
     list_all (\<lambda>c. case class_at h c of
                      Some k' \<Rightarrow> list_all transparent_base (cbases k')
                    | None \<Rightarrow> False) (cmro k)"

definition generic_class :: "heap \<Rightarrow> pyclass \<Rightarrow> bool" where
  "generic_class h k =
     list_ex (\<lambda>c. case class_at h c of
                    Some k' \<Rightarrow> list_ex is_Generic (cbases k')
                  | None \<Rightarrow> False) (cmro k)"

text \<open>
  The class statement's last step. The resolution order is the class followed by the
  order of its one heap base; two heap bases (which need the C3 merge) are not modelled.
\<close>

definition make_class ::
  "string \<Rightarrow> pyval list \<Rightarrow> (string \<times> pyval) list \<Rightarrow> (string \<times> pyval) list \<Rightarrow> pyval py" where
  "make_class n bases d anns =
     (\<lambda>s. let self = next_ref s;
               new = (\<lambda>m. \<lparr>cname = n, cbases = bases, cmro = self # m, cdict = d,
                           cannots = anns, cfields = None\<rparr>)
           in if \<not> list_all known_base bases then (Unmodelled, s)
              else (case List.map_filter base_ref bases of
                      [] \<Rightarrow> alloc (ClassObj (new [])) s
                    | [r] \<Rightarrow>
                        (case class_at (heap s) r of
                           Some k \<Rightarrow> alloc (ClassObj (new (cmro k))) s
                         | None \<Rightarrow> (Unmodelled, s))
                    | _ \<Rightarrow> (Unmodelled, s)))"

text \<open>
  Attribute access. An instance's own attribute comes first, then the classes of the
  resolution order; a function found on the class is bound to the instance. No class of
  the script defines a descriptor, \<^verbatim>\<open>__getattr__\<close> or \<^verbatim>\<open>__slots__\<close>. Attributes of other
  values, and the double-underscore attributes every object has, are not modelled.
\<close>

definition dunder :: "string \<Rightarrow> bool" where
  "dunder n = (take 2 n = ''__'')"

definition bind_method :: "pyval \<Rightarrow> pyval \<Rightarrow> pyval" where
  "bind_method x self = (case x of PFun f env \<Rightarrow> PBound x self | _ \<Rightarrow> x)"

definition class_getattr :: "heap \<Rightarrow> pyclass \<Rightarrow> string \<Rightarrow> pyval outcome" where
  "class_getattr h k n =
     (case mro_lookup h (cmro k) n of
        Some x \<Rightarrow> Ok x
      | None \<Rightarrow> if plain_class h k \<and> \<not> dunder n then Raise (AttributeError n) else Unmodelled)"

definition py_getattr :: "pyval \<Rightarrow> string \<Rightarrow> pyval py" where
  "py_getattr v n =
     (\<lambda>s. case v of
        PRef r \<Rightarrow>
          (case heap_at (heap s) r of
             Some (InstObj c d) \<Rightarrow>
               (case map_of d n of
                  Some x \<Rightarrow> (Ok x, s)
                | None \<Rightarrow>
                  (case class_at (heap s) c of
                     Some k \<Rightarrow> (outcome_map (\<lambda>x. bind_method x v) (class_getattr (heap s) k n), s)
                   | None \<Rightarrow> (Unmodelled, s)))
           | Some (ClassObj k) \<Rightarrow> (class_getattr (heap s) k n, s)
           | None \<Rightarrow> (Unmodelled, s))
      | _ \<Rightarrow> (Unmodelled, s))"

text \<open>
  \<^verbatim>\<open>v.n = x\<close> on an instance writes the instance's own attributes, whether or not the
  class has an attribute of that name; on a class it writes the class namespace.
\<close>

definition py_setattr :: "pyval \<Rightarrow> string \<Rightarrow> pyval \<Rightarrow> unit py" where
  "py_setattr v n x =
     (\<lambda>s. case v of
        PRef r \<Rightarrow>
          (case heap_at (heap s) r of
             Some (InstObj c d) \<Rightarrow>
               (Ok (), heap_put r (InstObj c (AList.update n x d)) s)
           | Some (ClassObj k) \<Rightarrow>
               (Ok (), heap_put r (ClassObj (k\<lparr>cdict := (n, x) # cdict k\<rparr>)) s)
           | None \<Rightarrow> (Unmodelled, s))
      | _ \<Rightarrow> (Unmodelled, s))"

text \<open>
  The name of the class of a value, \<^verbatim>\<open>v.__class__.__name__\<close>. The class of a class of
  the heap is \<^verbatim>\<open>ABCMeta\<close> if \<^verbatim>\<open>ABC\<close> is among the bases of its resolution order and
  \<^verbatim>\<open>type\<close> otherwise. The classes of the objects of \<^verbatim>\<open>typing\<close> are internal to the
  interpreter and not modelled.
\<close>

definition metaclass_name :: "heap \<Rightarrow> pyclass \<Rightarrow> string" where
  "metaclass_name h k =
     (if list_ex (\<lambda>c. case class_at h c of
                        Some k' \<Rightarrow> PImported ''abc'' ''ABC'' \<in> set (cbases k')
                      | None \<Rightarrow> False) (cmro k)
      then ''ABCMeta'' else ''type'')"

definition type_name :: "pyval \<Rightarrow> string py" where
  "type_name v =
     (\<lambda>s. case v of
        PNone \<Rightarrow> (Ok ''NoneType'', s)
      | PEllipsis \<Rightarrow> (Ok ''ellipsis'', s)
      | PBool b \<Rightarrow> (Ok ''bool'', s)
      | PInt i \<Rightarrow> (Ok ''int'', s)
      | PFloat x \<Rightarrow> (Ok ''float'', s)
      | PComplex c \<Rightarrow> (Ok ''complex'', s)
      | PStr x \<Rightarrow> (Ok ''str'', s)
      | PBytes x \<Rightarrow> (Ok ''bytes'', s)
      | PList xs \<Rightarrow> (Ok ''list'', s)
      | PTuple xs \<Rightarrow> (Ok ''tuple'', s)
      | PSet xs \<Rightarrow> (Ok ''set'', s)
      | PDict kvs \<Rightarrow> (Ok ''dict'', s)
      | PRange a b \<Rightarrow> (Ok ''range'', s)
      | PFun f env \<Rightarrow> (Ok ''function'', s)
      | PBound f self \<Rightarrow> (Ok ''method'', s)
      | PExc c args \<Rightarrow> (Ok c, s)
      | PBuiltin n \<Rightarrow>
          (Ok (if n \<in> set builtin_functions then ''builtin_function_or_method'' else ''type''), s)
      | PTypeVar n \<Rightarrow> (Ok ''TypeVar'', s)
      | PNewType n \<Rightarrow> (Ok ''NewType'', s)
      | PRef r \<Rightarrow>
          (case heap_at (heap s) r of
             Some (InstObj c d) \<Rightarrow>
               (case class_at (heap s) c of Some k \<Rightarrow> (Ok (cname k), s) | None \<Rightarrow> (Unmodelled, s))
           | Some (ClassObj k) \<Rightarrow>
               if plain_class (heap s) k then (Ok (metaclass_name (heap s) k), s)
               else (Unmodelled, s)
           | None \<Rightarrow> (Unmodelled, s))
      | _ \<Rightarrow> (Unmodelled, s))"

text \<open>
  \<^verbatim>\<open>raise v\<close>: an exception instance is raised as it is, an exception class is
  instantiated, anything else is a \<^verbatim>\<open>TypeError\<close>. An instance of a class of the heap is
  an exception only if a built-in exception class is among its bases, which no class of the
  script has; that case is left unmodelled.
\<close>

definition py_raise_value :: "pyval \<Rightarrow> 'a py" where
  "py_raise_value v =
     (\<lambda>s. case v of
        PExc c args \<Rightarrow> (Raise v, s)
      | PBuiltin n \<Rightarrow> (Raise (if n \<in> set exception_classes then PExc n [] else TypeError), s)
      | PRef r \<Rightarrow>
          (case heap_at (heap s) r of
             Some (InstObj c d) \<Rightarrow>
               (case class_at (heap s) c of
                  Some k \<Rightarrow> if plain_class (heap s) k then (Raise TypeError, s) else (Unmodelled, s)
                | None \<Rightarrow> (Unmodelled, s))
           | Some (ClassObj k) \<Rightarrow>
               if plain_class (heap s) k then (Raise TypeError, s) else (Unmodelled, s)
           | None \<Rightarrow> (Unmodelled, s))
      | _ \<Rightarrow> (Raise TypeError, s))"

text \<open>
  \<^verbatim>\<open>isinstance(v, c)\<close> for a built-in class or a class of the heap (no class of the script
  registers virtual subclasses).
\<close>

definition isinstance_builtin :: "pyval \<Rightarrow> string \<Rightarrow> bool" where
  "isinstance_builtin v c =
     (c = ''object'' \<or>
      (case v of
         PNone \<Rightarrow> False
       | PBool b \<Rightarrow> c = ''bool'' \<or> c = ''int''
       | PInt i \<Rightarrow> c = ''int''
       | PFloat x \<Rightarrow> c = ''float''
       | PComplex x \<Rightarrow> c = ''complex''
       | PStr x \<Rightarrow> c = ''str''
       | PBytes x \<Rightarrow> c = ''bytes''
       | PList xs \<Rightarrow> c = ''list''
       | PTuple xs \<Rightarrow> c = ''tuple''
       | PSet xs \<Rightarrow> c = ''set''
       | PDict kvs \<Rightarrow> c = ''dict''
       | PRange a b \<Rightarrow> c = ''range''
       | PExc n args \<Rightarrow> exc_isa n c
       | _ \<Rightarrow> False))"

definition py_isinstance :: "pyval \<Rightarrow> pyval \<Rightarrow> pyval py" where
  "py_isinstance v c =
     (\<lambda>s. case c of
        PBuiltin n \<Rightarrow>
          if n \<in> set builtin_functions then (Raise TypeError, s)
          else (case v of
                  PRef r \<Rightarrow>
                    (case heap_at (heap s) r of
                       Some (InstObj i d) \<Rightarrow>
                         (case class_at (heap s) i of
                            Some k \<Rightarrow> if plain_class (heap s) k then (Ok (PBool (n = ''object'')), s)
                                      else (Unmodelled, s)
                          | None \<Rightarrow> (Unmodelled, s))
                     | _ \<Rightarrow> (Unmodelled, s))
                | PFun f env \<Rightarrow> (Ok (PBool (n = ''object'')), s)
                | PBound f self \<Rightarrow> (Ok (PBool (n = ''object'')), s)
                | PBuiltin b \<Rightarrow> (Unmodelled, s)
                | PImported m b \<Rightarrow> (Unmodelled, s)
                | PAlias a \<Rightarrow> (Unmodelled, s)
                | PUnionType \<Rightarrow> (Unmodelled, s)
                | PTypeVar a \<Rightarrow> (Unmodelled, s)
                | PNewType a \<Rightarrow> (Unmodelled, s)
                | PTypedDict a \<Rightarrow> (Unmodelled, s)
                | _ \<Rightarrow> (Ok (PBool (isinstance_builtin v n)), s))
      | PRef r \<Rightarrow>
          (case class_at (heap s) r of
             Some k \<Rightarrow>
               if \<not> plain_class (heap s) k then (Unmodelled, s)
               else (case v of
                       PRef i \<Rightarrow>
                         (case heap_at (heap s) i of
                            Some (InstObj ci d) \<Rightarrow>
                              (case class_at (heap s) ci of
                                 Some ki \<Rightarrow> (Ok (PBool (r \<in> set (cmro ki))), s)
                               | None \<Rightarrow> (Unmodelled, s))
                          | _ \<Rightarrow> (Unmodelled, s))
                     | _ \<Rightarrow> (Ok (PBool False), s))
           | None \<Rightarrow> (Unmodelled, s))
      | _ \<Rightarrow> (Unmodelled, s))"

subsection \<open>Dataclasses and construction\<close>

text \<open>
  \<^verbatim>\<open>@dataclass\<close> collects the fields of the dataclasses among the bases (furthest
  first), then the class's own annotations other than \<^verbatim>\<open>ClassVar\<close>, a later field of the
  same name replacing an earlier one in place; the default of a field is the class
  attribute of its name. A list, dictionary or set as default is a \<^verbatim>\<open>ValueError\<close>, a
  field without default after one with a default a \<^verbatim>\<open>TypeError\<close>.
\<close>

definition is_ClassVar :: "pyval \<Rightarrow> bool" where
  "is_ClassVar a =
     (a = PImported ''typing'' ''ClassVar'' \<or> a = PAlias (PImported ''typing'' ''ClassVar''))"

fun add_fields ::
  "(string \<times> pyval option) list \<Rightarrow> (string \<times> pyval option) list \<Rightarrow> (string \<times> pyval option) list"
where
  "add_fields fs [] = fs"
| "add_fields fs ((n, d) # rest) = add_fields (AList.update n d fs) rest"

definition inherited_fields :: "heap \<Rightarrow> nat list \<Rightarrow> (string \<times> pyval option) list" where
  "inherited_fields h ancestors =
     foldl (\<lambda>fs c. case class_at h c of
                      Some k \<Rightarrow> (case cfields k of Some own \<Rightarrow> add_fields fs own | None \<Rightarrow> fs)
                    | None \<Rightarrow> fs) [] (rev ancestors)"

definition own_fields :: "heap \<Rightarrow> pyclass \<Rightarrow> (string \<times> pyval option) list" where
  "own_fields h k =
     map (\<lambda>(n, a). (n, mro_lookup h (cmro k) n))
       (filter (\<lambda>(n, a). \<not> is_ClassVar a) (cannots k))"

definition mutable_default :: "pyval option \<Rightarrow> bool" where
  "mutable_default d =
     (case d of
        Some v \<Rightarrow> (case v of PList _ \<Rightarrow> True | PDict _ \<Rightarrow> True | PSet _ \<Rightarrow> True | _ \<Rightarrow> False)
      | None \<Rightarrow> False)"

fun defaults_last :: "(string \<times> pyval option) list \<Rightarrow> bool" where
  "defaults_last [] = True"
| "defaults_last ((n, d) # fs) =
     (case d of None \<Rightarrow> defaults_last fs | Some _ \<Rightarrow> list_all (\<lambda>f. snd f \<noteq> None) fs)"

definition dataclass :: "pyval \<Rightarrow> pyval py" where
  "dataclass c =
     (\<lambda>s. case c of
        PRef r \<Rightarrow>
          (case class_at (heap s) r of
             Some k \<Rightarrow>
               (let own = own_fields (heap s) k;
                    fs = add_fields (inherited_fields (heap s) (tl (cmro k))) own
                in if \<not> plain_class (heap s) k then (Unmodelled, s)
                   else if list_ex (\<lambda>f. mutable_default (snd f)) own then (Raise ValueError, s)
                   else if \<not> defaults_last fs then (Raise TypeError, s)
                   else (Ok c, heap_put r (ClassObj (k\<lparr>cfields := Some fs\<rparr>)) s))
           | None \<Rightarrow> (Unmodelled, s))
      | _ \<Rightarrow> (Unmodelled, s))"

text \<open>
  The generated \<^verbatim>\<open>__init__\<close>: positional arguments fill the fields in order, keyword
  arguments by name, the rest take their defaults. Each mismatch is a \<^verbatim>\<open>TypeError\<close>.
\<close>

fun bind_fields ::
  "(string \<times> pyval option) list \<Rightarrow> pyval list \<Rightarrow> (string \<times> pyval) list
   \<Rightarrow> (string \<times> pyval) list outcome" where
  "bind_fields [] [] kw = (if kw = [] then Ok [] else Raise TypeError)"
| "bind_fields [] (a # as) kw = Raise TypeError"
| "bind_fields ((f, d) # fs) (a # as) kw =
     (if map_of kw f \<noteq> None then Raise TypeError
      else outcome_map (\<lambda>r. (f, a) # r) (bind_fields fs as kw))"
| "bind_fields ((f, d) # fs) [] kw =
     (case map_of kw f of
        Some v \<Rightarrow> outcome_map (\<lambda>r. (f, v) # r) (bind_fields fs [] (AList.delete f kw))
      | None \<Rightarrow>
        (case d of
           Some v \<Rightarrow> outcome_map (\<lambda>r. (f, v) # r) (bind_fields fs [] kw)
         | None \<Rightarrow> Raise TypeError))"

text \<open>
  The fields of the nearest dataclass in the resolution order: a class of the script
  defines no \<^verbatim>\<open>__init__\<close> or \<^verbatim>\<open>__new__\<close> of its own, so its constructor is the generated
  one it inherits, or \<^verbatim>\<open>object\<close>'s, which takes no argument.
\<close>

fun init_fields :: "heap \<Rightarrow> nat list \<Rightarrow> (string \<times> pyval option) list option" where
  "init_fields h [] = None"
| "init_fields h (c # cs) =
     (case class_at h c of
        Some k \<Rightarrow> (case cfields k of Some fs \<Rightarrow> Some fs | None \<Rightarrow> init_fields h cs)
      | None \<Rightarrow> init_fields h cs)"

definition construct :: "nat \<Rightarrow> pyval list \<Rightarrow> (string \<times> pyval) list \<Rightarrow> pyval py" where
  "construct r args kwargs =
     (\<lambda>s. case class_at (heap s) r of
        Some k \<Rightarrow>
          if \<not> plain_class (heap s) k then (Unmodelled, s)
          else (case init_fields (heap s) (cmro k) of
                  Some fs \<Rightarrow>
                    (case bind_fields fs args kwargs of
                       Ok d \<Rightarrow> alloc (InstObj r d) s
                     | Raise e \<Rightarrow> (Raise e, s)
                     | Unmodelled \<Rightarrow> (Unmodelled, s))
                | None \<Rightarrow>
                    if args = [] \<and> kwargs = [] then alloc (InstObj r []) s
                    else (Raise TypeError, s))
      | None \<Rightarrow> (Unmodelled, s))"

section \<open>Functions of the script that print, raise or use the heap\<close>

text \<open>Line 143: \<^verbatim>\<open>def hello_world(): print("Hello World")\<close>.\<close>

definition hello_world :: "pyval py" where
  "hello_world = py_print ''Hello World''"

text \<open>
  Line 151: \<^verbatim>\<open>print(f"{exception.__class__.__name__} was thrown!")\<close>, then
  \<^verbatim>\<open>raise exception\<close>.
\<close>

definition raise_exception :: "pyval \<Rightarrow> pyval py" where
  "raise_exception exception =
     py_bind (type_name exception) (\<lambda>n.
     py_then (py_print (n @ '' was thrown!'')) (py_raise_value exception))"

text \<open>
  Lines 179 and 183:
  \<^verbatim>\<open>print(f"This vehicle can go to {vehicle.speed} and is {vehicle.color}")\<close> and the same
  with \<^verbatim>\<open>truck\<close>.
\<close>

definition show_vehicle :: "pyval \<Rightarrow> pyval py" where
  "show_vehicle vehicle =
     py_bind (py_getattr vehicle ''speed'') (\<lambda>a. py_bind (lift (py_str a)) (\<lambda>sa.
     py_bind (py_getattr vehicle ''color'') (\<lambda>b. py_bind (lift (py_str b)) (\<lambda>sb.
     py_print (''This vehicle can go to '' @ sa @ '' and is '' @ sb)))))"

definition show_truck :: "pyval \<Rightarrow> pyval py" where
  "show_truck truck =
     py_bind (py_getattr truck ''speed'') (\<lambda>a. py_bind (lift (py_str a)) (\<lambda>sa.
     py_bind (py_getattr truck ''color'') (\<lambda>b. py_bind (lift (py_str b)) (\<lambda>sb.
     py_print (''This truck can go to '' @ sa @ '' and is '' @ sb)))))"

text \<open>
  Lines 477 and 494: \<^verbatim>\<open>if name is None: print("No name")\<close>, then, outside the \<^verbatim>\<open>if\<close>,
  \<^verbatim>\<open>print(f"Welcome {name}.")\<close>.
\<close>

definition greetings :: "pyval \<Rightarrow> pyval py" where
  "greetings name =
     py_then (if name = PNone then py_print ''No name'' else py_return PNone)
       (py_bind (lift (py_str name)) (\<lambda>n. py_print (''Welcome '' @ n @ ''.'')))"

definition greetings_alternative :: "pyval \<Rightarrow> pyval py" where
  "greetings_alternative name =
     py_then (if name = PNone then py_print ''No name'' else py_return PNone)
       (py_bind (lift (py_str name)) (\<lambda>n. py_print (''Welcome '' @ n @ ''.'')))"

text \<open>Lines 96 and 101: the two \<^verbatim>\<open>pay\<close> methods.\<close>

definition PaymentSystem_pay :: "pyval \<Rightarrow> pyval py" where
  "PaymentSystem_pay self = py_raise (PExc ''NotImplementedError'' [])"

definition DebitPaymentSystem_pay :: "pyval \<Rightarrow> pyval py" where
  "DebitPaymentSystem_pay self = py_print ''You are paying with Debit''"

text \<open>
  Lines 356 and 364: \<^verbatim>\<open>return f"Citizen data: {self.name} - {self.tax_id}"\<close> and
  \<^verbatim>\<open>return f"This diplomat represents {self.country}"\<close>.
\<close>

definition Citizen_get_summary :: "pyval \<Rightarrow> pyval py" where
  "Citizen_get_summary self =
     py_bind (py_getattr self ''name'') (\<lambda>a. py_bind (lift (py_str a)) (\<lambda>sa.
     py_bind (py_getattr self ''tax_id'') (\<lambda>b. py_bind (lift (py_str b)) (\<lambda>sb.
     py_return (PStr (''Citizen data: '' @ sa @ '' - '' @ sb))))))"

definition Diplomat_get_summary :: "pyval \<Rightarrow> pyval py" where
  "Diplomat_get_summary self =
     py_bind (py_getattr self ''country'') (\<lambda>a. py_bind (lift (py_str a)) (\<lambda>sa.
     py_return (PStr (''This diplomat represents '' @ sa))))"

text \<open>Line 419: \<^verbatim>\<open>def set_pretol_price(self, value): self.petrol_price = value\<close>.\<close>

definition Car_set_pretol_price :: "pyval \<Rightarrow> pyval \<Rightarrow> pyval py" where
  "Car_set_pretol_price self v = py_then (py_setattr self ''petrol_price'' v) (py_return PNone)"

text \<open>Lines 631 and 636: the two \<^verbatim>\<open>play\<close> methods; the body of the first is \<^verbatim>\<open>...\<close>.\<close>

definition StreamingSystem_play :: "pyval \<Rightarrow> pyval py" where
  "StreamingSystem_play self = py_return PNone"

definition WebStreamingSystem_play :: "pyval \<Rightarrow> pyval py" where
  "WebStreamingSystem_play self = py_print ''You are playing from the website''"

text \<open>Line 666: \<^verbatim>\<open>def __call__(self, value): return value * 2\<close>.\<close>

definition Doubler_call :: "pyval \<Rightarrow> pyval \<Rightarrow> pyval py" where
  "Doubler_call self v = lift (py_mul v (PInt 2))"

text \<open>Line 839: \<^verbatim>\<open>def show_quality(self): return self.config.quality\<close>.\<close>

definition show_quality :: "pyval \<Rightarrow> pyval py" where
  "show_quality self = py_bind (py_getattr self ''config'') (\<lambda>c. py_getattr c ''quality'')"

subsection \<open>Calls\<close>

text \<open>
  The function objects by the name of their \<^verbatim>\<open>def\<close>, each with the number of arguments
  it takes: a call with another number is a \<^verbatim>\<open>TypeError\<close>. The bodies of the two
  \<^verbatim>\<open>@overload\<close> stubs are \<^verbatim>\<open>...\<close>; \<^verbatim>\<open>_overload_dummy\<close> is what \<^verbatim>\<open>typing.overload\<close>
  returns in their place.
\<close>

definition fn0 :: "pyval py \<Rightarrow> pyval list \<Rightarrow> pyval py" where
  "fn0 body args = (case args of [] \<Rightarrow> body | _ \<Rightarrow> py_raise TypeError)"

definition fn1 :: "(pyval \<Rightarrow> pyval py) \<Rightarrow> pyval list \<Rightarrow> pyval py" where
  "fn1 body args = (case args of [a] \<Rightarrow> body a | _ \<Rightarrow> py_raise TypeError)"

definition fn2 :: "(pyval \<Rightarrow> pyval \<Rightarrow> pyval py) \<Rightarrow> pyval list \<Rightarrow> pyval py" where
  "fn2 body args = (case args of [a, b] \<Rightarrow> body a b | _ \<Rightarrow> py_raise TypeError)"

definition function_table :: "(string \<times> ((string \<times> pyval) list \<Rightarrow> pyval list \<Rightarrow> pyval py)) list" where
  "function_table =
     [(''multiply_ab'', \<lambda>env. fn2 (\<lambda>a b. lift (multiply_ab a b))),
      (''hello_world'', \<lambda>env. fn0 hello_world),
      (''raise_exception'', \<lambda>env. fn1 raise_exception),
      (''show_vehicle'', \<lambda>env. fn1 show_vehicle),
      (''show_truck'', \<lambda>env. fn1 show_truck),
      (''is_user_valid'', \<lambda>env. fn1 (\<lambda>a. lift (is_user_valid a))),
      (''double'', \<lambda>env. fn1 (\<lambda>a. lift (double a))),
      (''double_alternative'', \<lambda>env. fn1 (\<lambda>a. lift (double_alternative a))),
      (''greetings'', \<lambda>env. fn1 greetings),
      (''greetings_alternative'', \<lambda>env. fn1 greetings_alternative),
      (''get_scores'', \<lambda>env. fn0 (lift get_scores)),
      (''convertable_to_string'', \<lambda>env. fn1 (\<lambda>a. lift (convertable_to_string a))),
      (''triple_stub'', \<lambda>env. fn1 (\<lambda>a. py_return PNone)),
      (''_overload_dummy'', \<lambda>env args. py_raise (PExc ''NotImplementedError'' [])),
      (''triple'', \<lambda>env. fn1 (\<lambda>a. lift (triple a))),
      (''sum_all_elements'', \<lambda>env. fn1 (\<lambda>a. lift (sum_all_elements a))),
      (''sum_all_elements_2'', \<lambda>env. fn1 (\<lambda>a. lift (sum_all_elements_2 a))),
      (''double_def'', \<lambda>env. fn1 (\<lambda>a. lift (double_def a))),
      (''lambda_673'', \<lambda>env. fn1 (\<lambda>a. lift (lambda_673 a))),
      (''multiply'', \<lambda>env. fn1 (\<lambda>a. lift (multiply a))),
      (''helper'', \<lambda>env. fn1 (\<lambda>a. lift (helper env a))),
      (''first_union'', \<lambda>env. fn1 (\<lambda>a. lift (first_union a))),
      (''first_typevar'', \<lambda>env. fn1 (\<lambda>a. lift (first_typevar a))),
      (''first_typevar_constrained'', \<lambda>env. fn1 (\<lambda>a. lift (first_typevar_constrained a))),
      (''first_typevar_bounded'', \<lambda>env. fn1 (\<lambda>a. lift (first_typevar_bounded a))),
      (''PaymentSystem.pay'', \<lambda>env. fn1 PaymentSystem_pay),
      (''DebitPaymentSystem.pay'', \<lambda>env. fn1 DebitPaymentSystem_pay),
      (''Citizen.get_summary'', \<lambda>env. fn1 Citizen_get_summary),
      (''Diplomat.get_summary'', \<lambda>env. fn1 Diplomat_get_summary),
      (''Car.set_pretol_price'', \<lambda>env. fn2 Car_set_pretol_price),
      (''StreamingSystem.play'', \<lambda>env. fn1 StreamingSystem_play),
      (''WebStreamingSystem.play'', \<lambda>env. fn1 WebStreamingSystem_play),
      (''Doubler.__call__'', \<lambda>env. fn2 Doubler_call),
      (''WebCamStreamingService.show_quality'', \<lambda>env. fn1 show_quality)]"

definition call_fun :: "string \<Rightarrow> (string \<times> pyval) list \<Rightarrow> pyval list \<Rightarrow> pyval py" where
  "call_fun f env args =
     (case map_of function_table f of Some body \<Rightarrow> body env args | None \<Rightarrow> unmodelled)"

text \<open>
  The built-in functions and classes the script calls at module level. A built-in
  exception class makes an exception object of its arguments.
\<close>

definition call_builtin :: "string \<Rightarrow> pyval list \<Rightarrow> pyval py" where
  "call_builtin n args =
     (if n \<in> set exception_classes then py_return (PExc n args)
      else if n = ''isinstance''
      then (case args of [v, c] \<Rightarrow> py_isinstance v c | _ \<Rightarrow> py_raise TypeError)
      else if n = ''range''
      then (case args of
              [a] \<Rightarrow> (case a of PInt i \<Rightarrow> py_return (PRange 0 i) | _ \<Rightarrow> unmodelled)
            | [a, b] \<Rightarrow>
                (case a of
                   PInt i \<Rightarrow> (case b of PInt j \<Rightarrow> py_return (PRange i j) | _ \<Rightarrow> unmodelled)
                 | _ \<Rightarrow> unmodelled)
            | _ \<Rightarrow> unmodelled)
      else if n = ''sum'' then (case args of [v] \<Rightarrow> lift (py_sum v) | _ \<Rightarrow> unmodelled)
      else if n = ''print''
      then (case args of [v] \<Rightarrow> py_bind (lift (py_str v)) py_print | _ \<Rightarrow> unmodelled)
      else unmodelled)"

text \<open>
  The objects of \<^verbatim>\<open>typing\<close> and \<^verbatim>\<open>dataclasses\<close> the script calls. \<^verbatim>\<open>TypeVar\<close> refuses a
  single constraint and constraints together with a bound; \<^verbatim>\<open>TypedDict\<close> takes the
  fields as keyword arguments (Python up to 3.12); \<^verbatim>\<open>overload\<close> replaces the function
  by a dummy and \<^verbatim>\<open>final\<close> returns it.
\<close>

definition call_imported ::
  "string \<Rightarrow> string \<Rightarrow> pyval list \<Rightarrow> (string \<times> pyval) list \<Rightarrow> pyval py" where
  "call_imported m n args kwargs =
     (if m = ''typing'' \<and> n = ''TypeVar''
      then (case args of
              [] \<Rightarrow> py_raise TypeError
            | a # cs \<Rightarrow>
                (case a of
                   PStr v \<Rightarrow>
                     if \<not> list_all (\<lambda>kw. fst kw = ''bound'') kwargs then unmodelled
                     else if length cs = 1 \<or> (cs \<noteq> [] \<and> kwargs \<noteq> []) then py_raise TypeError
                     else py_return (PTypeVar v)
                 | _ \<Rightarrow> unmodelled))
      else if m = ''typing'' \<and> n = ''NewType''
      then (case args of
              [a, tp] \<Rightarrow>
                (case a of PStr v \<Rightarrow> if kwargs = [] then py_return (PNewType v) else unmodelled
                 | _ \<Rightarrow> unmodelled)
            | _ \<Rightarrow> unmodelled)
      else if m = ''typing'' \<and> n = ''TypedDict''
      then (case args of
              [a] \<Rightarrow> (case a of PStr v \<Rightarrow> py_return (PTypedDict v) | _ \<Rightarrow> unmodelled)
            | _ \<Rightarrow> unmodelled)
      else if m = ''typing'' \<and> n = ''overload''
      then (case args of
              [f] \<Rightarrow> if kwargs = [] then py_return (PFun ''_overload_dummy'' []) else unmodelled
            | _ \<Rightarrow> unmodelled)
      else if m = ''typing'' \<and> n = ''final''
      then (case args of [f] \<Rightarrow> if kwargs = [] then py_return f else unmodelled
            | _ \<Rightarrow> unmodelled)
      else if m = ''dataclasses'' \<and> n = ''dataclass''
      then (case args of [c] \<Rightarrow> if kwargs = [] then dataclass c else unmodelled
            | _ \<Rightarrow> unmodelled)
      else unmodelled)"

text \<open>
  A bound method is called through its function with the instance as first argument; an
  instance of a class is called through the \<^verbatim>\<open>__call__\<close> of its class.
\<close>

definition callee :: "pyval \<Rightarrow> pyval list \<Rightarrow> (pyval \<times> pyval list) py" where
  "callee f args =
     (\<lambda>s. case f of
        PBound g self \<Rightarrow> (Ok (g, self # args), s)
      | PRef r \<Rightarrow>
          (case heap_at (heap s) r of
             Some (InstObj c d) \<Rightarrow>
               (case class_at (heap s) c of
                  Some k \<Rightarrow>
                    (case mro_lookup (heap s) (cmro k) ''__call__'' of
                       Some g \<Rightarrow> (Ok (g, f # args), s)
                     | None \<Rightarrow>
                         if plain_class (heap s) k then (Raise TypeError, s) else (Unmodelled, s))
                | None \<Rightarrow> (Unmodelled, s))
           | _ \<Rightarrow> (Ok (f, args), s))
      | _ \<Rightarrow> (Ok (f, args), s))"

text \<open>
  Keyword arguments are modelled for \<^verbatim>\<open>summation\<close>, which collects them, for the
  constructors of dataclasses and for the calls of \<^verbatim>\<open>typing\<close>.
\<close>

definition call_direct :: "pyval \<Rightarrow> pyval list \<Rightarrow> (string \<times> pyval) list \<Rightarrow> pyval py" where
  "call_direct g args kwargs =
     (case g of
        PFun f env \<Rightarrow>
          if f = ''summation'' then lift (summation args kwargs)
          else if kwargs = [] then call_fun f env args
          else unmodelled
      | PRef r \<Rightarrow> construct r args kwargs
      | PBuiltin n \<Rightarrow> if kwargs = [] then call_builtin n args else unmodelled
      | PImported m n \<Rightarrow> call_imported m n args kwargs
      | PNewType n \<Rightarrow>
          (case args of
             [x] \<Rightarrow> if kwargs = [] then lift (UserID x) else py_raise TypeError
           | _ \<Rightarrow> py_raise TypeError)
      | PBound f self \<Rightarrow> unmodelled
      | PAlias a \<Rightarrow> unmodelled
      | PUnionType \<Rightarrow> unmodelled
      | PTypeVar a \<Rightarrow> unmodelled
      | PTypedDict a \<Rightarrow> unmodelled
      | _ \<Rightarrow> py_raise TypeError)"

definition call_simple :: "pyval \<Rightarrow> pyval list \<Rightarrow> (string \<times> pyval) list \<Rightarrow> pyval py" where
  "call_simple f args kwargs = py_bind (callee f args) (\<lambda>(g, xs). call_direct g xs kwargs)"

text \<open>
  Line 655: \<^verbatim>\<open>def map_function(function, elements):\<close>
  \<^verbatim>\<open>return [function(element) for element in elements]\<close>. The function called on the
  elements is any callable but \<^verbatim>\<open>map_function\<close> itself.
\<close>

definition map_function :: "pyval \<Rightarrow> pyval \<Rightarrow> pyval py" where
  "map_function function elements =
     py_bind (lift (py_iter elements)) (\<lambda>xs.
     py_bind (py_mapM (\<lambda>element. call_simple function [element] []) xs) (\<lambda>ys.
     py_return (PList ys)))"

definition call_value :: "pyval \<Rightarrow> pyval list \<Rightarrow> (string \<times> pyval) list \<Rightarrow> pyval py" where
  "call_value f args kwargs =
     py_bind (callee f args) (\<lambda>(g, xs).
       if g = PFun ''map_function'' []
       then (if kwargs = [] then fn2 map_function xs else unmodelled)
       else call_direct g xs kwargs)"

section \<open>Expressions and statements\<close>

definition const :: "pyval \<Rightarrow> pyval py" where
  "const v = py_return v"

definition keyword :: "string \<times> pyval py \<Rightarrow> (string \<times> pyval) py" where
  "keyword kw = py_bind (snd kw) (\<lambda>v. py_return (fst kw, v))"

text \<open>A call evaluates the callee, the arguments and the keyword arguments in this order.\<close>

definition call :: "pyval py \<Rightarrow> pyval py list \<Rightarrow> (string \<times> pyval py) list \<Rightarrow> pyval py" where
  "call f args kwargs =
     py_bind f (\<lambda>fv. py_bind (eval_all args) (\<lambda>xs. py_bind (eval_all (map keyword kwargs)) (\<lambda>kw.
     call_value fv xs kw)))"

definition attr :: "pyval py \<Rightarrow> string \<Rightarrow> pyval py" where
  "attr e n = py_bind e (\<lambda>v. py_getattr v n)"

definition binop :: "(pyval \<Rightarrow> pyval \<Rightarrow> pyval outcome) \<Rightarrow> pyval py \<Rightarrow> pyval py \<Rightarrow> pyval py" where
  "binop f a b = py_bind a (\<lambda>x. py_bind b (\<lambda>y. lift (f x y)))"

text \<open>
  A subscript of a class of the heap makes an alias if the class is generic and is a
  \<^verbatim>\<open>TypeError\<close> if not.
\<close>

definition py_subscript :: "pyval \<Rightarrow> pyval \<Rightarrow> pyval py" where
  "py_subscript v i =
     (\<lambda>s. case v of
        PRef r \<Rightarrow>
          (case class_at (heap s) r of
             Some k \<Rightarrow>
               if generic_class (heap s) k then (Ok (PAlias v), s)
               else if plain_class (heap s) k then (Raise TypeError, s)
               else (Unmodelled, s)
           | None \<Rightarrow> (Unmodelled, s))
      | _ \<Rightarrow> (py_getitem v i, s))"

definition subscript :: "pyval py \<Rightarrow> pyval py \<Rightarrow> pyval py" where
  "subscript e i = py_bind e (\<lambda>v. py_bind i (\<lambda>k. py_subscript v k))"

text \<open>\<^verbatim>\<open>a | b\<close> between two types (Python 3.10) makes a union; other operands are not modelled.\<close>

definition is_type_operand :: "pyval \<Rightarrow> bool" where
  "is_type_operand v =
     (case v of PBuiltin n \<Rightarrow> n \<in> set builtin_classes | PAlias a \<Rightarrow> True | PUnionType \<Rightarrow> True
      | _ \<Rightarrow> False)"

definition py_or :: "pyval \<Rightarrow> pyval \<Rightarrow> pyval outcome" where
  "py_or a b = (if is_type_operand a \<and> is_type_operand b then Ok PUnionType else Unmodelled)"

definition list_of :: "pyval py list \<Rightarrow> pyval py" where
  "list_of es = py_bind (eval_all es) (\<lambda>vs. py_return (PList vs))"

definition tuple_of :: "pyval py list \<Rightarrow> pyval py" where
  "tuple_of es = py_bind (eval_all es) (\<lambda>vs. py_return (PTuple vs))"

definition set_of :: "pyval py list \<Rightarrow> pyval py" where
  "set_of es = py_bind (eval_all es) (\<lambda>vs. lift (set_from (PSet []) vs))"

definition entry :: "pyval py \<times> pyval py \<Rightarrow> (pyval \<times> pyval) py" where
  "entry kv = py_bind (fst kv) (\<lambda>k. py_bind (snd kv) (\<lambda>v. py_return (k, v)))"

definition dict_of :: "(pyval py \<times> pyval py) list \<Rightarrow> pyval py" where
  "dict_of kvs = py_bind (eval_all (map entry kvs)) (\<lambda>xs. lift (dict_from (PDict []) xs))"

text \<open>\<^verbatim>\<open>sep.join(v)\<close> on a string.\<close>

definition join :: "pyval py \<Rightarrow> pyval py \<Rightarrow> pyval py" where
  "join sep e =
     py_bind sep (\<lambda>s. py_bind e (\<lambda>v.
       case s of PStr x \<Rightarrow> lift (str_join x v) | _ \<Rightarrow> unmodelled))"

subsection \<open>Statements\<close>

definition assign :: "string \<Rightarrow> pyval py \<Rightarrow> unit py" where
  "assign n e = py_bind e (store n)"

text \<open>
  \<^verbatim>\<open>n: ann = e\<close> evaluates and stores the value, then evaluates the annotation;
  \<^verbatim>\<open>n: ann\<close> alone evaluates the annotation and binds nothing.
\<close>

definition annotate :: "string \<Rightarrow> pyval py \<Rightarrow> unit py" where
  "annotate n ann = py_bind ann (note_annotation n)"

definition ann_assign :: "string \<Rightarrow> pyval py \<Rightarrow> pyval py \<Rightarrow> unit py" where
  "ann_assign n ann e = py_then (assign n e) (annotate n ann)"

definition expr_stmt :: "pyval py \<Rightarrow> unit py" where
  "expr_stmt e = py_bind e (\<lambda>_. py_return ())"

definition assert_stmt :: "pyval py \<Rightarrow> unit py" where
  "assert_stmt e = py_bind e (\<lambda>v. if py_truthy v then py_return () else py_raise AssertionError)"

definition if_stmt :: "pyval py \<Rightarrow> unit py list \<Rightarrow> unit py" where
  "if_stmt e body = py_bind e (\<lambda>v. if py_truthy v then exec body else py_return ())"

text \<open>\<^verbatim>\<open>a, b = e\<close>: as many names as elements, or a \<^verbatim>\<open>ValueError\<close>.\<close>

definition unpack_assign :: "string list \<Rightarrow> pyval py \<Rightarrow> unit py" where
  "unpack_assign ns e =
     py_bind e (\<lambda>v. py_bind (lift (py_iter v)) (\<lambda>xs.
       if length xs = length ns then exec (map (\<lambda>(n, x). store n x) (zip ns xs))
       else py_raise ValueError))"

text \<open>
  \<^verbatim>\<open>n.append(x)\<close> and \<^verbatim>\<open>n.add(x)\<close> on the container a name holds, and \<^verbatim>\<open>n[k] = e\<close>: the
  changed container is stored under the name again.
\<close>

definition value_method :: "pyval \<Rightarrow> string \<Rightarrow> pyval list \<Rightarrow> pyval outcome" where
  "value_method v m args =
     (case args of
        [x] \<Rightarrow> if m = ''append'' then list_append v x
               else if m = ''add'' then set_add v x
               else Unmodelled
      | _ \<Rightarrow> Unmodelled)"

definition method_stmt :: "string \<Rightarrow> string \<Rightarrow> pyval py list \<Rightarrow> unit py" where
  "method_stmt n m args =
     py_bind (load n) (\<lambda>v. py_bind (eval_all args) (\<lambda>xs.
     py_bind (lift (value_method v m xs)) (store n)))"

definition setitem_stmt :: "string \<Rightarrow> pyval py \<Rightarrow> pyval py \<Rightarrow> unit py" where
  "setitem_stmt n key e =
     py_bind e (\<lambda>x. py_bind (load n) (\<lambda>v. py_bind key (\<lambda>k.
     py_bind (lift (dict_set v k x)) (store n))))"

definition setattr_stmt :: "pyval py \<Rightarrow> string \<Rightarrow> pyval py \<Rightarrow> unit py" where
  "setattr_stmt target n e = py_bind e (\<lambda>x. py_bind target (\<lambda>v. py_setattr v n x))"

text \<open>
  \<^verbatim>\<open>try: body except cls: handler\<close>. The class is evaluated when an exception arrives; an
  exception of another class goes on.
\<close>

definition exc_matches :: "pyval \<Rightarrow> pyval \<Rightarrow> bool outcome" where
  "exc_matches e c =
     (case c of
        PBuiltin d \<Rightarrow>
          if d \<in> set exception_classes
          then (case e of PExc n args \<Rightarrow> Ok (exc_isa n d) | _ \<Rightarrow> Unmodelled)
          else Raise TypeError
      | _ \<Rightarrow> Unmodelled)"

definition try_except :: "unit py list \<Rightarrow> pyval py \<Rightarrow> unit py list \<Rightarrow> unit py" where
  "try_except body cls handler =
     (\<lambda>s. case exec body s of
        (Raise e, s1) \<Rightarrow>
          (case cls s1 of
             (Ok c, s2) \<Rightarrow>
               (case exc_matches e c of
                  Ok m \<Rightarrow> if m then exec handler s2 else (Raise e, s2)
                | Raise e' \<Rightarrow> (Raise e', s2)
                | Unmodelled \<Rightarrow> (Unmodelled, s2))
           | (Raise e', s2) \<Rightarrow> (Raise e', s2)
           | (Unmodelled, s2) \<Rightarrow> (Unmodelled, s2))
      | r \<Rightarrow> r)"

text \<open>
  \<^verbatim>\<open>def\<close>: the decorators are evaluated, then the annotations of the parameters and of
  the result; the function object is made, the decorators are applied from the last to the
  first, and the result is bound to the name. The body is not executed.
\<close>

fun decorate :: "pyval list \<Rightarrow> pyval \<Rightarrow> pyval py" where
  "decorate [] v = py_return v"
| "decorate (d # ds) v = py_bind (call_value d [v] []) (decorate ds)"

definition def_stmt :: "string \<Rightarrow> string \<Rightarrow> pyval py list \<Rightarrow> pyval py list \<Rightarrow> unit py" where
  "def_stmt n f decorators annotations =
     py_bind (eval_all decorators) (\<lambda>ds. py_bind (eval_all annotations) (\<lambda>_.
     py_bind (decorate (rev ds) (PFun f [])) (store n)))"

text \<open>
  \<^verbatim>\<open>class\<close>: the decorators are evaluated, then the bases and the keywords; the body runs
  in a namespace of its own; the class is made of what the body left, the decorators are
  applied, and the result is bound to the name.
\<close>

definition in_class_body :: "unit py \<Rightarrow> ((string \<times> pyval) list \<times> (string \<times> pyval) list) py" where
  "in_class_body body =
     (\<lambda>s. case body (s\<lparr>locals := Some [], annots := []\<rparr>) of
        (r, s') \<Rightarrow>
          (outcome_map
             (\<lambda>_. (case locals s' of Some l \<Rightarrow> l | None \<Rightarrow> [], annots s')) r,
           s'\<lparr>locals := locals s, annots := annots s\<rparr>))"

definition class_stmt ::
  "string \<Rightarrow> pyval py list \<Rightarrow> pyval py list \<Rightarrow> pyval py list \<Rightarrow> unit py list \<Rightarrow> unit py" where
  "class_stmt n decorators bases kws body =
     py_bind (eval_all decorators) (\<lambda>ds. py_bind (eval_all bases) (\<lambda>bs.
     py_bind (eval_all kws) (\<lambda>_. py_bind (in_class_body (exec body)) (\<lambda>(d, anns).
     py_bind (make_class n bs d anns) (\<lambda>c. py_bind (decorate (rev ds) c) (store n))))))"

section \<open>The script, statement by statement\<close>

text \<open>
  Each top-level statement of \<^verbatim>\<open>src/python_typing.py\<close> in order, grouped by the headings
  of the file. A comment line and the module docstring do nothing and are left out.
\<close>

definition lit_int :: "int \<Rightarrow> pyval py" where
  "lit_int i = const (PInt i)"

definition lit_float :: "real \<Rightarrow> pyval py" where
  "lit_float x = const (PFloat x)"

definition lit_str :: "string \<Rightarrow> pyval py" where
  "lit_str x = const (PStr x)"

text \<open>\<^verbatim>\<open>Union[float, List[float]]\<close>, which the file writes seven times.\<close>

definition Union_float_List :: "pyval py" where
  "Union_float_List =
     subscript (load ''Union'') (tuple_of [load ''float'', subscript (load ''List'') (load ''float'')])"

text \<open>Lines 32 to 41.\<close>

definition simple_data_types :: "unit py list" where
  "simple_data_types =
     [ann_assign ''numbers_integer'' (load ''int'') (lit_int 10),
      ann_assign ''numbers_float'' (load ''float'') (lit_float 10.0),
      ann_assign ''numbers_integer_with_float'' (load ''int'') (lit_float 10.0),
      ann_assign ''name'' (load ''str'') (lit_str ''John''),
      ann_assign ''name_stream'' (load ''bytes'') (const (PBytes ''John'')),
      ann_assign ''complex_solution'' (load ''complex'')
        (binop py_add (lit_int 2) (const (PComplex (Complex 0 4)))),
      ann_assign ''base_object'' (load ''object'') (lit_str ''Hello'')]"

text \<open>Lines 47 to 84.\<close>

definition complex_data_types :: "unit py list" where
  "complex_data_types =
     [import_from ''typing'' [''List'', ''Set'', ''Dict'', ''Tuple''],
      ann_assign ''marks'' (subscript (load ''List'') (load ''float''))
        (list_of [lit_float 4.2, lit_float 7.6, lit_float 2.5]),
      method_stmt ''marks'' ''append'' [lit_str ''John''],
      ann_assign ''students'' (subscript (load ''Set'') (load ''str''))
        (set_of [lit_str ''John'', lit_str ''Mary'', lit_str ''David'']),
      method_stmt ''students'' ''add'' [lit_int 4],
      ann_assign ''point'' (subscript (load ''Tuple'') (tuple_of [load ''float'', load ''float'']))
        (tuple_of [lit_float 1.5, lit_float 2.5]),
      assign ''point'' (tuple_of [lit_float 0.5, lit_float 4.5]),
      assign ''point'' (tuple_of [lit_float 0.5, lit_float 4.5, lit_float 1.0]),
      ann_assign ''any_length_tuple''
        (subscript (load ''Tuple'') (tuple_of [load ''float'', const PEllipsis]))
        (tuple_of [lit_float 0.5, lit_float 4.5, lit_float 1.0]),
      assign ''any_length_tuple''
        (tuple_of [lit_float 0.5, lit_float 4.5, lit_float 1.0, lit_float 5.0]),
      assign ''any_length_tuple''
        (tuple_of [lit_float 0.5, lit_float 4.5, lit_float 1.0, lit_str ''5.0'']),
      ann_assign ''poly_line''
        (subscript (load ''List'')
           (subscript (load ''Tuple'') (tuple_of [load ''float'', load ''float''])))
        (list_of [tuple_of [lit_float 0.0, lit_float 0.0], tuple_of [lit_float 1.5, lit_float 1.5]]),
      method_stmt ''poly_line'' ''append'' [tuple_of [lit_float 3.0, lit_float 1.5]],
      method_stmt ''poly_line'' ''append'' [list_of [lit_float 4.0, lit_float 0.5]],
      ann_assign ''students_marks''
        (subscript (load ''Dict'') (tuple_of [load ''str'', load ''int''])) (dict_of []),
      setitem_stmt ''students_marks'' (lit_str ''Mary'') (lit_int 9),
      setitem_stmt ''students_marks'' (lit_str ''John'') (lit_float 6.5),
      annotate ''first_in_tuple'' (load ''float''),
      annotate ''second_in_tuple'' (load ''float''),
      unpack_assign [''first_in_tuple'', ''second_in_tuple'']
        (tuple_of [lit_float 0.5, lit_float 4.5]),
      ann_assign ''point_2'' (subscript (load ''tuple'') (tuple_of [load ''float'', load ''float'']))
        (tuple_of [lit_float 1.5, lit_float 2.5]),
      ann_assign ''poly_line_2''
        (subscript (load ''list'')
           (subscript (load ''tuple'') (tuple_of [load ''float'', load ''float''])))
        (list_of [tuple_of [lit_float 0.0, lit_float 0.0], tuple_of [lit_float 1.5, lit_float 1.5]]),
      ann_assign ''students_marks''
        (subscript (load ''dict'') (tuple_of [load ''str'', load ''int''])) (dict_of [])]"

text \<open>Lines 92 to 106.\<close>

definition classes_and_inheritance :: "unit py list" where
  "classes_and_inheritance =
     [import_from ''abc'' [''ABC''],
      class_stmt ''PaymentSystem'' [] [load ''ABC''] []
        [def_stmt ''pay'' ''PaymentSystem.pay'' [] [const PNone]],
      class_stmt ''DebitPaymentSystem'' [] [load ''PaymentSystem''] []
        [def_stmt ''pay'' ''DebitPaymentSystem.pay'' [] [const PNone]],
      ann_assign ''payment'' (load ''PaymentSystem'') (call (load ''DebitPaymentSystem'') [] []),
      expr_stmt (call (attr (load ''payment'') ''pay'') [] [])]"

text \<open>Lines 114 to 124.\<close>

definition automatic_type_inference :: "unit py list" where
  "automatic_type_inference =
     [assign ''teachers'' (list_of [lit_str ''Andrew'', lit_str ''Alex'', lit_str ''Jason'']),
      method_stmt ''teachers'' ''append'' [lit_float 7.5],
      assign ''participants_scores'' (list_of []),
      method_stmt ''participants_scores'' ''append'' [lit_float 5.0],
      ann_assign ''participants_scores_alt'' (subscript (load ''List'') (load ''float''))
        (list_of []),
      method_stmt ''participants_scores_alt'' ''append'' [lit_float 5.0]]"

text \<open>Lines 132 to 153, and the \<^verbatim>\<open>try\<close> of lines 155 to 158, whose handler is \<^verbatim>\<open>pass\<close>.\<close>

definition try_raise_exception :: "unit py list" where
  "try_raise_exception =
     [try_except
        [expr_stmt (call (load ''raise_exception'') [call (load ''ValueError'') [] []] [])]
        (load ''Exception'') []]"

definition functions_section :: "unit py list" where
  "functions_section =
     [def_stmt ''multiply'' ''multiply_ab'' [] [load ''float'', load ''float'', load ''float''],
      expr_stmt (call (load ''multiply'') [lit_int 4, lit_int 4] []),
      expr_stmt (call (load ''multiply'') [lit_str ''a'', lit_int 4] []),
      def_stmt ''hello_world'' ''hello_world'' [] [const PNone],
      import_from ''typing'' [''NoReturn''],
      def_stmt ''raise_exception'' ''raise_exception'' [] [load ''Exception'', load ''NoReturn'']]"

text \<open>Lines 165 to 192.\<close>

definition classes_section :: "unit py list" where
  "classes_section =
     [import_from ''dataclasses'' [''dataclass''],
      class_stmt ''Vehicle'' [load ''dataclass''] [] []
        [annotate ''speed'' (load ''float''), annotate ''color'' (load ''str'')],
      class_stmt ''Truck'' [load ''dataclass''] [load ''Vehicle''] []
        [annotate ''tare'' (load ''float'')],
      def_stmt ''show_vehicle'' ''show_vehicle'' [] [load ''Vehicle''],
      def_stmt ''show_truck'' ''show_truck'' [] [load ''Truck''],
      assign ''new_vehicle''
        (call (load ''Vehicle'') [] [(''speed'', lit_int 140), (''color'', lit_str ''Blue'')]),
      assign ''new_truck''
        (call (load ''Truck'') []
           [(''speed'', lit_int 90), (''color'', lit_str ''Red''), (''tare'', lit_int 10)]),
      expr_stmt (call (load ''show_vehicle'') [load ''new_vehicle''] []),
      expr_stmt (call (load ''show_vehicle'') [load ''new_truck''] []),
      expr_stmt (call (load ''show_truck'') [load ''new_truck''] []),
      expr_stmt (call (load ''show_truck'') [load ''new_vehicle''] [])]"

text \<open>Lines 200 to 220.\<close>

definition point_lit :: "real \<Rightarrow> real \<Rightarrow> pyval py" where
  "point_lit x y = tuple_of [lit_float x, lit_float y]"

definition type_aliases :: "unit py list" where
  "type_aliases =
     [assign ''Point2D'' (subscript (load ''Tuple'') (tuple_of [load ''float'', load ''float''])),
      assign ''Triangle''
        (subscript (load ''Tuple'')
           (tuple_of [load ''Point2D'', load ''Point2D'', load ''Point2D''])),
      ann_assign ''poligon'' (load ''Triangle'')
        (tuple_of [point_lit 0.0 0.0, point_lit 0.0 1.0, point_lit 1.0 1.0]),
      import_from ''typing'' [''TypeAlias''],
      ann_assign ''Pentagon'' (load ''TypeAlias'')
        (subscript (load ''Tuple'')
           (tuple_of [load ''Point2D'', load ''Point2D'', load ''Point2D'', load ''Point2D'',
                      load ''Point2D''])),
      ann_assign ''house_polygon'' (load ''Pentagon'')
        (tuple_of [point_lit 0.0 0.0, point_lit 4.0 0.0, point_lit 4.0 4.0, point_lit 2.0 6.0,
                   point_lit 0.0 4.0])]"

text \<open>Lines 228 to 249.\<close>

definition newtype_section :: "unit py list" where
  "newtype_section =
     [import_from ''typing'' [''NewType''],
      assign ''UserID'' (call (load ''NewType'') [lit_str ''UserID'', load ''int''] []),
      assign ''user_a'' (call (load ''UserID'') [lit_int 156] []),
      assign ''user_b'' (call (load ''UserID'') [lit_int 654] []),
      assert_stmt (call (load ''isinstance'') [load ''user_a'', load ''int''] []),
      assert_stmt
        (binop py_eq (binop py_add (load ''user_a'') (load ''user_b''))
           (binop py_add (lit_int 156) (lit_int 654))),
      assign ''sum_of_ids'' (binop py_add (load ''user_a'') (load ''user_b'')),
      assert_stmt (call (load ''isinstance'') [load ''sum_of_ids'', load ''int''] []),
      def_stmt ''is_user_valid'' ''is_user_valid'' [] [load ''UserID''],
      expr_stmt (call (load ''is_user_valid'') [load ''user_a''] []),
      expr_stmt
        (call (load ''is_user_valid'') [binop py_add (load ''user_a'') (load ''user_b'')] []),
      expr_stmt (call (load ''is_user_valid'') [lit_int 156] [])]"

text \<open>Lines 262 to 316.\<close>

definition typed_dict_section :: "unit py list" where
  "typed_dict_section =
     [import_from ''typing'' [''TypedDict''],
      assign ''ProductDict''
        (call (load ''TypedDict'') [lit_str ''Product'']
           [(''name'', load ''str''), (''price'', load ''float'')]),
      ann_assign ''mobile_x'' (load ''ProductDict'')
        (dict_of [(lit_str ''name'', lit_str ''MobileX''), (lit_str ''price'', lit_int 300)]),
      setitem_stmt ''mobile_x'' (lit_str ''price'') (lit_int 350),
      setitem_stmt ''mobile_x'' (lit_str ''brand'') (lit_str ''XCo''),
      ann_assign ''mobile_y'' (load ''ProductDict'')
        (dict_of [(lit_str ''name'', lit_str ''MobileY'')]),
      class_stmt ''ProductClass'' [] [load ''TypedDict''] []
        [annotate ''name'' (load ''str''), annotate ''price'' (load ''float'')],
      ann_assign ''mobile_x_alt'' (load ''ProductClass'')
        (dict_of [(lit_str ''name'', lit_str ''MobileX''), (lit_str ''price'', lit_int 300)]),
      setitem_stmt ''mobile_x_alt'' (lit_str ''price'') (lit_int 350),
      setitem_stmt ''mobile_x_alt'' (lit_str ''brand'') (lit_str ''XCo''),
      class_stmt ''UnpricedProduct'' [] [load ''TypedDict''] [const (PBool False)]
        [annotate ''name'' (load ''str''), annotate ''price'' (load ''float'')],
      ann_assign ''mobile_z'' (load ''UnpricedProduct'')
        (dict_of [(lit_str ''name'', lit_str ''MobileZ'')]),
      class_stmt ''Person'' [] [load ''TypedDict''] []
        [annotate ''name'' (load ''str''), annotate ''age'' (load ''float'')],
      class_stmt ''Student'' [] [load ''Person''] [const (PBool False)]
        [annotate ''mark'' (load ''float'')],
      ann_assign ''teacher'' (load ''Person'')
        (dict_of [(lit_str ''name'', lit_str ''Alfred''), (lit_str ''age'', lit_int 30)]),
      setitem_stmt ''teacher'' (lit_str ''mark'') (lit_int 0),
      ann_assign ''student'' (load ''Student'')
        (dict_of [(lit_str ''name'', lit_str ''Peter''), (lit_str ''age'', lit_int 16)]),
      setitem_stmt ''student'' (lit_str ''mark'') (lit_float 6.5)]"

text \<open>Lines 331 to 336, and lines 338 to 374.\<close>

definition final_origin :: "unit py list" where
  "final_origin =
     [import_from ''typing'' [''Final''],
      ann_assign ''origin''
        (subscript (load ''Final'')
           (subscript (load ''Tuple'') (tuple_of [load ''float'', load ''float''])))
        (point_lit 0.0 0.0),
      assign ''origin'' (point_lit 1.5 1.5)]"

definition final_section :: "unit py list" where
  "final_section =
     [ann_assign ''FREE_FALL_ACCELERATION'' (subscript (load ''Final'') (load ''float''))
        (lit_float 9.764),
      import_from ''dataclasses'' [''dataclass''],
      import_from ''typing'' [''final''],
      class_stmt ''Citizen'' [load ''dataclass''] [] []
        [annotate ''name'' (load ''str''),
         annotate ''tax_id'' (subscript (load ''Final'') (load ''int'')),
         def_stmt ''get_summary'' ''Citizen.get_summary'' [load ''final''] []],
      class_stmt ''Diplomat'' [load ''dataclass''] [load ''Citizen''] []
        [annotate ''country'' (load ''str''),
         def_stmt ''get_summary'' ''Diplomat.get_summary'' [] []],
      assign ''citizen'' (call (load ''Citizen'') [lit_str ''John'', lit_int 1235] []),
      setattr_stmt (load ''citizen'') ''name'' (lit_str ''John White''),
      setattr_stmt (load ''citizen'') ''tax_id'' (lit_int 654),
      expr_stmt (call (attr (load ''citizen'') ''get_summary'') [] []),
      assign ''diplomat''
        (call (load ''Diplomat'') [lit_str ''John'', lit_int 1235, lit_str ''Pythonland''] []),
      expr_stmt (call (attr (load ''citizen'') ''get_summary'') [] [])]"

text \<open>Lines 384 to 404.\<close>

definition literal_and_any :: "unit py list" where
  "literal_and_any =
     [import_from ''typing'' [''Literal''],
      ann_assign ''sex'' (subscript (load ''Literal'') (tuple_of [lit_str ''M'', lit_str ''F'']))
        (lit_str ''F''),
      assign ''sex'' (lit_str ''M''),
      assign ''sex'' (lit_str ''Masculine''),
      import_from ''typing'' [''Any''],
      ann_assign ''parameter''
        (subscript (load ''Dict'') (tuple_of [load ''str'', load ''Any''])) (dict_of []),
      setitem_stmt ''parameter'' (lit_str ''workers'') (lit_int 5),
      setitem_stmt ''parameter'' (lit_str ''experiment_name'') (lit_str ''attemp_01''),
      setitem_stmt ''parameter'' (lit_str ''config'')
        (dict_of [(lit_str ''id'', lit_int 123), (lit_str ''module'', lit_str ''Testing'')])]"

text \<open>Lines 413 to 439.\<close>

definition class_Car :: "unit py" where
  "class_Car =
     class_stmt ''Car'' [] [] []
       [ann_assign ''petrol_price'' (subscript (load ''ClassVar'') (load ''float'')) (lit_int 2),
        def_stmt ''set_pretol_price'' ''Car.set_pretol_price'' [] [load ''float'']]"

definition classvar_section :: "unit py list" where
  "classvar_section =
     [import_from ''typing'' [''ClassVar''],
      class_Car,
      assign ''new_car'' (call (load ''Car'') [] []),
      assert_stmt (binop py_eq (attr (load ''Car'') ''petrol_price'') (lit_int 2)),
      assert_stmt (binop py_eq (attr (load ''new_car'') ''petrol_price'') (lit_int 2)),
      expr_stmt (call (attr (load ''new_car'') ''set_pretol_price'') [lit_int 5] []),
      assert_stmt (binop py_eq (attr (load ''Car'') ''petrol_price'') (lit_int 2)),
      assert_stmt (binop py_eq (attr (load ''new_car'') ''petrol_price'') (lit_int 5)),
      import_from ''dataclasses'' [''dataclass''],
      class_stmt ''Motorbike'' [load ''dataclass''] [] []
        [annotate ''brand'' (load ''str''),
         annotate ''speed'' (load ''float''),
         annotate ''maintenance_frequency'' (subscript (load ''ClassVar'') (load ''float''))]]"

text \<open>Lines 446 to 500.\<close>

definition union_and_optional :: "unit py list" where
  "union_and_optional =
     [import_from ''typing'' [''Union''],
      def_stmt ''double'' ''double'' [] [Union_float_List, Union_float_List],
      ann_assign ''result'' (load ''float'') (call (load ''double'') [lit_int 4] []),
      ann_assign ''result_2'' Union_float_List (call (load ''double'') [lit_int 4] []),
      assign ''FloatOrList''
        (binop py_or (load ''float'') (subscript (load ''List'') (load ''float''))),
      def_stmt ''double_alternative'' ''double_alternative'' []
        [load ''FloatOrList'', load ''FloatOrList''],
      ann_assign ''result_alternative'' (load ''float'')
        (call (load ''double_alternative'') [lit_int 4] []),
      ann_assign ''result_alternative_2'' (load ''FloatOrList'')
        (call (load ''double_alternative'') [lit_int 4] []),
      ann_assign ''user_input'' (subscript (load ''Union'') (tuple_of [load ''str'', const PNone]))
        (lit_str ''Admin''),
      def_stmt ''greetings'' ''greetings'' []
        [subscript (load ''Union'') (tuple_of [load ''str'', const PNone]), const PNone],
      expr_stmt (call (load ''greetings'') [load ''user_input''] []),
      import_from ''typing'' [''Optional''],
      ann_assign ''user_input_alternative'' (subscript (load ''Optional'') (load ''str''))
        (lit_str ''Admin''),
      def_stmt ''greetings_alternative'' ''greetings_alternative'' []
        [subscript (load ''Optional'') (load ''str''), const PNone],
      expr_stmt (call (load ''greetings_alternative'') [load ''user_input_alternative''] [])]"

text \<open>Lines 508 to 539.\<close>

definition narrowing :: "unit py list" where
  "narrowing =
     [def_stmt ''get_scores'' ''get_scores'' [] [Union_float_List],
      ann_assign ''field'' Union_float_List (call (load ''get_scores'') [] []),
      method_stmt ''field'' ''append'' [lit_float 6.2],
      if_stmt (call (load ''isinstance'') [load ''field'', load ''list''] [])
        [method_stmt ''field'' ''append'' [lit_float 6.2]],
      import_from ''typing'' [''TypeGuard''],
      def_stmt ''convertable_to_string'' ''convertable_to_string'' []
        [subscript (load ''List'') (load ''Any''),
         subscript (load ''TypeGuard'') (subscript (load ''List'') (load ''str''))],
      ann_assign ''data'' (subscript (load ''List'') (load ''object''))
        (list_of [lit_str ''5'', lit_str ''8'', lit_str ''1'', lit_str ''0'', lit_str ''6'']),
      assign ''join_object'' (join (lit_str '' '') (load ''data'')),
      if_stmt (call (load ''convertable_to_string'') [load ''data''] [])
        [assign ''join_str'' (join (lit_str '' '') (load ''data''))]]"

text \<open>Lines 547 to 569.\<close>

definition overloads :: "unit py list" where
  "overloads =
     [import_from ''typing'' [''overload''],
      def_stmt ''triple'' ''triple_stub'' [load ''overload''] [load ''float'', load ''float''],
      def_stmt ''triple'' ''triple_stub'' [load ''overload'']
        [subscript (load ''List'') (load ''float''), subscript (load ''List'') (load ''float'')],
      def_stmt ''triple'' ''triple'' [] [Union_float_List, Union_float_List],
      ann_assign ''triple_result'' (load ''float'') (call (load ''triple'') [lit_int 4] []),
      ann_assign ''triple_result_2'' (subscript (load ''List'') (load ''float''))
        (call (load ''triple'') [list_of [lit_int 4]] []),
      ann_assign ''triple_result_3'' Union_float_List (call (load ''triple'') [lit_int 4] []),
      ann_assign ''triple_result_4'' Union_float_List
        (call (load ''triple'') [list_of [lit_int 4]] [])]"

text \<open>Lines 584 to 640.\<close>

definition one_two_three :: "pyval py list" where
  "one_two_three = [lit_int 1, lit_int 2, lit_int 3]"

definition protocols :: "unit py list" where
  "protocols =
     [def_stmt ''sum_all_elements'' ''sum_all_elements'' []
        [subscript (load ''List'') (load ''float''), load ''float''],
      expr_stmt (call (load ''sum_all_elements'') [list_of one_two_three] []),
      expr_stmt (call (load ''sum_all_elements'') [tuple_of one_two_three] []),
      def_stmt ''sum_all_elements_2'' ''sum_all_elements_2'' []
        [subscript (load ''Union'')
           (tuple_of [subscript (load ''List'') (load ''float''),
                      subscript (load ''Tuple'') (tuple_of [load ''float'', const PEllipsis])]),
         load ''float''],
      expr_stmt (call (load ''sum_all_elements_2'') [list_of one_two_three] []),
      expr_stmt (call (load ''sum_all_elements_2'') [tuple_of one_two_three] []),
      expr_stmt
        (call (load ''sum_all_elements_2'') [call (load ''range'') [lit_int 1, lit_int 4] []] []),
      import_from ''typing'' [''Iterable''],
      def_stmt ''sum_all_elements_2'' ''sum_all_elements_2'' []
        [subscript (load ''Iterable'') (load ''float''), load ''float''],
      expr_stmt (call (load ''sum_all_elements_2'') [list_of one_two_three] []),
      expr_stmt (call (load ''sum_all_elements_2'') [tuple_of one_two_three] []),
      expr_stmt
        (call (load ''sum_all_elements_2'') [call (load ''range'') [lit_int 1, lit_int 4] []] []),
      import_from ''typing'' [''Protocol''],
      class_stmt ''StreamingSystem'' [] [load ''Protocol''] []
        [def_stmt ''play'' ''StreamingSystem.play'' [] [const PNone]],
      class_stmt ''WebStreamingSystem'' [] [] []
        [def_stmt ''play'' ''WebStreamingSystem.play'' [] [const PNone]],
      ann_assign ''streaming'' (load ''StreamingSystem'')
        (call (load ''WebStreamingSystem'') [] [])]"

text \<open>Lines 652 to 701.\<close>

definition Callable_float_float :: "pyval py" where
  "Callable_float_float =
     subscript (load ''Callable'') (tuple_of [list_of [load ''float''], load ''float''])"

definition typing_functions :: "unit py list" where
  "typing_functions =
     [import_from ''typing'' [''Callable''],
      def_stmt ''map_function'' ''map_function'' []
        [Callable_float_float, subscript (load ''List'') (load ''float''),
         subscript (load ''List'') (load ''float'')],
      def_stmt ''double_def'' ''double_def'' [] [load ''float''],
      class_stmt ''Doubler'' [] [] []
        [def_stmt ''__call__'' ''Doubler.__call__'' [] [load ''float'', load ''float'']],
      assign ''numbers'' (list_of [lit_float 1.5, lit_float 0.5, lit_float 3.5, lit_float 4.0]),
      expr_stmt (call (load ''map_function'') [load ''double_def'', load ''numbers''] []),
      expr_stmt
        (call (load ''map_function'') [const (PFun ''lambda_673'' []), load ''numbers''] []),
      expr_stmt
        (call (load ''map_function'') [call (load ''Doubler'') [] [], load ''numbers''] []),
      def_stmt ''summation'' ''summation'' [] [load ''float'', load ''float'', load ''float''],
      assert_stmt
        (binop py_eq (call (load ''summation'') [lit_int 2] [(''x'', lit_int 4)]) (lit_int 6)),
      def_stmt ''multiply'' ''multiply'' [] [load ''float'', Callable_float_float],
      assert_stmt
        (binop py_eq (call (call (load ''multiply'') [lit_int 2] []) [lit_int 3] []) (lit_int 6))]"

text \<open>Lines 713 to 798. The four calls after each of the four functions are the same.\<close>

definition first_calls :: "string \<Rightarrow> unit py list" where
  "first_calls f =
     [assign ''test_float'' (call (load f) [list_of one_two_three] []),
      assign ''test_float''
        (call (load f) [list_of [lit_float 1.5, lit_float 2.5, lit_float 3.5]] []),
      assign ''test_str''
        (call (load f) [list_of [lit_str ''1.5'', lit_str ''2.5'', lit_str ''3.5'']] []),
      assign ''test_union'' (call (load f) [list_of [lit_float 1.5, lit_str ''2.5'']] [])]"

definition typevars :: "unit py list" where
  "typevars =
     [import_from ''dataclasses'' [''dataclass''],
      import_from ''typing'' [''Union'', ''Sequence''],
      assign ''FloatStrUnion'' (subscript (load ''Union'') (tuple_of [load ''float'', load ''str''])),
      def_stmt ''first_union'' ''first_union'' []
        [subscript (load ''List'') (load ''FloatStrUnion''), load ''FloatStrUnion''],
      annotate ''test_float'' (load ''float''),
      annotate ''test_str'' (load ''str''),
      annotate ''test_union'' (load ''FloatStrUnion'')]
     @ first_calls ''first_union'' @
     [import_from ''typing'' [''TypeVar''],
      assign ''T'' (call (load ''TypeVar'') [lit_str ''T''] []),
      def_stmt ''first_typevar'' ''first_typevar'' []
        [subscript (load ''Sequence'') (load ''T''), load ''T'']]
     @ first_calls ''first_typevar'' @
     [assign ''FloatOrString''
        (call (load ''TypeVar'') [lit_str ''FloatOrString'', load ''float'', load ''str''] []),
      def_stmt ''first_typevar_constrained'' ''first_typevar_constrained'' []
        [subscript (load ''List'') (load ''FloatOrString''), load ''FloatOrString'']]
     @ first_calls ''first_typevar_constrained'' @
     [assign ''BoundedFloat''
        (call (load ''TypeVar'') [lit_str ''BoundedFloat''] [(''bound'', load ''float'')]),
      def_stmt ''first_typevar_bounded'' ''first_typevar_bounded'' []
        [subscript (load ''List'') (load ''BoundedFloat''), load ''BoundedFloat'']]
     @ first_calls ''first_typevar_bounded''"

text \<open>
  Lines 809 to 845. The body of each class ends with the expression statement \<^verbatim>\<open>...\<close>.
  Line 820 names \<^verbatim>\<open>Generic\<close>, which no \<^verbatim>\<open>import\<close> of the file binds.
\<close>

definition class_AbstractStreamingService :: "unit py" where
  "class_AbstractStreamingService =
     class_stmt ''AbstractStreamingService'' [load ''dataclass'']
       [load ''ABC'', subscript (load ''Generic'') (load ''StreamConfig'')] []
       [annotate ''config'' (load ''StreamConfig''), expr_stmt (const PEllipsis)]"

definition variance_prelude :: "unit py list" where
  "variance_prelude =
     [import_from ''abc'' [''ABC''],
      class_stmt ''AbstractStreamingServiceConfig'' [load ''dataclass''] [load ''ABC''] []
        [expr_stmt (const PEllipsis)],
      assign ''StreamConfig''
        (call (load ''TypeVar'') [lit_str ''StreamConfig'']
           [(''bound'', load ''AbstractStreamingServiceConfig'')])]"

definition variance_classes :: "unit py list" where
  "variance_classes =
     [class_AbstractStreamingService,
      class_stmt ''WebCamStreamingServiceConfig'' [load ''dataclass'']
        [load ''AbstractStreamingServiceConfig''] []
        [ann_assign ''quality'' (load ''str'') (lit_str ''720p''), expr_stmt (const PEllipsis)],
      class_stmt ''HighSpeedWebCamStreamingServiceConfig'' [load ''dataclass'']
        [load ''WebCamStreamingServiceConfig''] []
        [ann_assign ''fps'' (load ''int'') (lit_int 15000), expr_stmt (const PEllipsis)],
      class_stmt ''WebCamStreamingService'' [load ''dataclass'']
        [subscript (load ''AbstractStreamingService'') (load ''WebCamStreamingServiceConfig'')] []
        [def_stmt ''show_quality'' ''WebCamStreamingService.show_quality'' [] [load ''str'']]]"

definition service_of :: "string \<Rightarrow> pyval py" where
  "service_of config_class =
     call (load ''WebCamStreamingService'') [call (load config_class) [] []] []"

definition variance_calls :: "unit py list" where
  "variance_calls =
     [expr_stmt (service_of ''AbstractStreamingServiceConfig''),
      expr_stmt (service_of ''WebCamStreamingServiceConfig''),
      expr_stmt (service_of ''HighSpeedWebCamStreamingServiceConfig'')]"

text \<open>The file up to line 818, and the whole file.\<close>

definition script_before_820 :: "unit py list" where
  "script_before_820 =
     simple_data_types @ complex_data_types @ classes_and_inheritance
     @ automatic_type_inference @ functions_section @ try_raise_exception @ classes_section
     @ type_aliases @ newtype_section @ typed_dict_section @ final_origin @ final_section
     @ literal_and_any @ classvar_section @ union_and_optional @ narrowing @ overloads
     @ protocols @ typing_functions @ typevars @ variance_prelude"

definition script :: "unit py list" where
  "script = script_before_820 @ variance_classes @ variance_calls"

text \<open>
  Line 820 with the missing \<^verbatim>\<open>import\<close> supplied, to see what the rest of the file does
  once \<^verbatim>\<open>Generic\<close> is bound.
\<close>

definition repaired_variance_classes :: "unit py list" where
  "repaired_variance_classes = import_from ''typing'' [''Generic''] # variance_classes"

text \<open>
  Constructing the service with a configuration of the given class and calling
  \<^verbatim>\<open>show_quality\<close> on it.
\<close>

definition quality_of :: "string \<Rightarrow> pyval py" where
  "quality_of config_class = call (attr (service_of config_class) ''show_quality'') [] []"


text \<open>
  Lines 413 to 423 followed by the construction of a second instance of \<^verbatim>\<open>Car\<close>, and the
  value read as \<^verbatim>\<open>petrol_price\<close> through a name.
\<close>

definition two_cars :: "unit py list" where
  "two_cars =
     [import_from ''typing'' [''ClassVar''],
      class_Car,
      assign ''new_car'' (call (load ''Car'') [] []),
      assign ''other_car'' (call (load ''Car'') [] [])]"


definition petrol_price_of :: "string \<Rightarrow> state \<Rightarrow> pyval outcome" where
  "petrol_price_of n s = fst (attr (load n) ''petrol_price'' s)"


text \<open>The file through line 336.\<close>

definition script_through_336 :: "unit py list" where
  "script_through_336 =
     simple_data_types @ complex_data_types @ classes_and_inheritance
     @ automatic_type_inference @ functions_section @ try_raise_exception @ classes_section
     @ type_aliases @ newtype_section @ typed_dict_section @ final_origin"


subsection \<open>The states the run goes through\<close>

text \<open>The state after each group of statements, from the initial state on.\<close>

definition after_simple_data_types :: state where
  "after_simple_data_types = snd (exec simple_data_types initial_state)"

definition after_complex_data_types :: state where
  "after_complex_data_types = snd (exec complex_data_types after_simple_data_types)"

definition after_classes_and_inheritance :: state where
  "after_classes_and_inheritance = snd (exec classes_and_inheritance after_complex_data_types)"

definition after_automatic_type_inference :: state where
  "after_automatic_type_inference = snd (exec automatic_type_inference after_classes_and_inheritance)"

definition after_functions_section :: state where
  "after_functions_section = snd (exec functions_section after_automatic_type_inference)"

definition after_try_raise_exception :: state where
  "after_try_raise_exception = snd (exec try_raise_exception after_functions_section)"

definition after_classes_section :: state where
  "after_classes_section = snd (exec classes_section after_try_raise_exception)"

definition after_type_aliases :: state where
  "after_type_aliases = snd (exec type_aliases after_classes_section)"

definition after_newtype_section :: state where
  "after_newtype_section = snd (exec newtype_section after_type_aliases)"

definition after_typed_dict_section :: state where
  "after_typed_dict_section = snd (exec typed_dict_section after_newtype_section)"

definition after_final_origin :: state where
  "after_final_origin = snd (exec final_origin after_typed_dict_section)"

definition after_final_section :: state where
  "after_final_section = snd (exec final_section after_final_origin)"

definition after_literal_and_any :: state where
  "after_literal_and_any = snd (exec literal_and_any after_final_section)"

definition after_classvar_section :: state where
  "after_classvar_section = snd (exec classvar_section after_literal_and_any)"

definition after_union_and_optional :: state where
  "after_union_and_optional = snd (exec union_and_optional after_classvar_section)"

definition after_narrowing :: state where
  "after_narrowing = snd (exec narrowing after_union_and_optional)"

definition after_overloads :: state where
  "after_overloads = snd (exec overloads after_narrowing)"

definition after_protocols :: state where
  "after_protocols = snd (exec protocols after_overloads)"

definition after_typing_functions :: state where
  "after_typing_functions = snd (exec typing_functions after_protocols)"

definition after_typevars :: state where
  "after_typevars = snd (exec typevars after_typing_functions)"

definition after_variance_prelude :: state where
  "after_variance_prelude = snd (exec variance_prelude after_typevars)"

definition after_repaired_variance_classes :: state where
  "after_repaired_variance_classes = snd (exec repaired_variance_classes after_variance_prelude)"

section \<open>Properties of the functions\<close>

lemmas stmt_defs = ann_assign_def assign_def annotate_def expr_stmt_def assert_stmt_def if_stmt_def
  unpack_assign_def method_stmt_def setitem_stmt_def setattr_stmt_def def_stmt_def class_stmt_def
  import_from_def import_one_def try_except_def in_class_body_def

lemmas expr_defs = const_def lit_int_def lit_float_def lit_str_def call_def attr_def binop_def
  subscript_def list_of_def tuple_of_def set_of_def dict_of_def join_def keyword_def entry_def
  load_def store_def note_annotation_def

lemmas monad_defs = py_bind_def py_then_def py_return_def py_raise_def lift_def unmodelled_def

lemmas call_defs = call_value_def callee_def call_direct_def call_fun_def fn0_def fn1_def fn2_def

lemma py_mul_int: "py_mul (PInt a) (PInt b) = Ok (PInt (a * b))"
  by (simp add: py_mul_def as_num_def arith_def)

lemma py_add_int: "py_add (PInt a) (PInt b) = Ok (PInt (a + b))"
  by (simp add: py_add_def as_num_def arith_def)

text \<open>An integer is converted to a float exactly when its magnitude is at most \<^verbatim>\<open>2 ** 30\<close>.\<close>

lemma exact_float_of_int: "exact_float (of_int a) = (\<bar>a\<bar> \<le> 1073741824)"
proof -
  have "real_of_int a * 1048576 = of_int (a * 1048576)"
    by simp
  then show ?thesis
    unfolding exact_float_def by (simp only: floor_of_int) auto
qed

lemma py_mul_float:
  "exact_float a \<Longrightarrow> exact_float b \<Longrightarrow> exact_float (a * b) \<Longrightarrow>
   py_mul (PFloat a) (PFloat b) = Ok (PFloat (a * b))"
  by (simp add: py_mul_def as_num_def arith_def float_op_def)

lemma py_mul_float_3:
  "exact_float r \<Longrightarrow> exact_float (r * 3) \<Longrightarrow> py_mul (PFloat r) (PInt 3) = Ok (PFloat (r * 3))"
  using exact_float_of_int [of 3] by (simp add: py_mul_def as_num_def arith_def float_op_def)

text \<open>
  A comprehension whose expression has a value on every element has the list of these
  values, in order.
\<close>

lemma comprehension_values:
  "\<forall>i<length xs. f (xs ! i) = Ok (g (xs ! i)) \<Longrightarrow> comprehension f xs = Ok (map g xs)"
proof (induction xs)
  case Nil
  then show ?case by simp
next
  case (Cons x xs)
  have "f x = Ok (g x)"
    using Cons.prems by force
  moreover have "\<forall>i<length xs. f (xs ! i) = Ok (g (xs ! i))"
    using Cons.prems by force
  ultimately show ?case
    using Cons.IH by (simp add: outcome_map_def)
qed

text \<open>
  C6. \<^verbatim>\<open>triple\<close> of an integer is the integer times 3. \<^verbatim>\<open>triple\<close> of a list of integers is
  the list of the integers times 3, in the same order, so of the same length. Floats are
  covered where the product by 3 is exact (the float and its product by 3 are multiples
  of \<^verbatim>\<open>2 ** -20\<close> of magnitude at most \<^verbatim>\<open>2 ** 30\<close>), so that no rounding takes place:
  \<^verbatim>\<open>triple\<close> of such a float is the float times 3, and \<^verbatim>\<open>triple\<close> of a list of integers
  and such floats is a list of the same length whose element at each index is the element
  of the input at that index times 3. (Lists are values in the model, so the result never
  shares with the argument.)
\<close>

theorem C6_triple:
  assumes "exact_float r" and "exact_float (r * 3)"
    and "list_all (\<lambda>x. case x of PInt n \<Rightarrow> True
                         | PFloat q \<Rightarrow> exact_float q \<and> exact_float (q * 3) | _ \<Rightarrow> False) xs"
  shows "triple (PInt n) = Ok (PInt (n * 3))
    \<and> triple (PList (map PInt ns)) = Ok (PList (map (\<lambda>n. PInt (n * 3)) ns))
    \<and> length (map (\<lambda>n. PInt (n * 3)) ns) = length (map PInt ns)
    \<and> triple (PFloat r) = Ok (PFloat (r * 3))
    \<and> (\<exists>ys. triple (PList xs) = Ok (PList ys) \<and> length ys = length xs
           \<and> (\<forall>i<length xs. (\<forall>k. xs ! i = PInt k \<longrightarrow> ys ! i = PInt (k * 3))
                \<and> (\<forall>q. xs ! i = PFloat q \<longrightarrow> ys ! i = PFloat (q * 3))))"
proof -
  let ?g = "\<lambda>x. case x of PInt k \<Rightarrow> PInt (k * 3) | PFloat q \<Rightarrow> PFloat (q * 3) | _ \<Rightarrow> x"
  have "triple (PInt n) = Ok (PInt (n * 3))"
    by (simp add: triple_def py_mul_int)
  moreover have "triple (PList (map PInt ns)) = Ok (PList (map (\<lambda>n. PInt (n * 3)) ns))"
    using comprehension_values [of "map PInt ns" "\<lambda>x. py_mul x (PInt 3)" ?g]
    by (simp add: triple_def outcome_map_def py_mul_int comp_def)
  moreover have "triple (PFloat r) = Ok (PFloat (r * 3))"
    using assms(1,2) by (simp add: triple_def py_mul_float_3)
  moreover have "\<exists>ys. triple (PList xs) = Ok (PList ys) \<and> length ys = length xs
           \<and> (\<forall>i<length xs. (\<forall>k. xs ! i = PInt k \<longrightarrow> ys ! i = PInt (k * 3))
                \<and> (\<forall>q. xs ! i = PFloat q \<longrightarrow> ys ! i = PFloat (q * 3)))"
  proof -
    have "\<forall>i<length xs. py_mul (xs ! i) (PInt 3) = Ok (?g (xs ! i))"
    proof (intro allI impI)
      fix i assume "i < length xs"
      then have "case xs ! i of PInt n \<Rightarrow> True
                   | PFloat q \<Rightarrow> exact_float q \<and> exact_float (q * 3) | _ \<Rightarrow> False"
        using assms(3) by (simp add: list_all_length)
      then show "py_mul (xs ! i) (PInt 3) = Ok (?g (xs ! i))"
        by (cases "xs ! i") (simp_all add: py_mul_int py_mul_float_3)
    qed
    then have "comprehension (\<lambda>x. py_mul x (PInt 3)) xs = Ok (map ?g xs)"
      by (rule comprehension_values)
    then have "triple (PList xs) = Ok (PList (map ?g xs))"
      by (simp add: triple_def outcome_map_def)
    then show ?thesis
      by (intro exI [of _ "map ?g xs"]) simp
  qed
  ultimately show ?thesis by simp
qed

theorem C6_triple_witness:
  "exact_float 1.5 \<and> exact_float (1.5 * 3)
   \<and> list_all (\<lambda>x. case x of PInt n \<Rightarrow> True
                     | PFloat q \<Rightarrow> exact_float q \<and> exact_float (q * 3) | _ \<Rightarrow> False)
       [PInt 4, PFloat 2.5]
   \<and> triple (PInt 4) = Ok (PInt 12)
   \<and> triple (PList [PInt 1, PInt 2, PInt 3]) = Ok (PList [PInt 3, PInt 6, PInt 9])
   \<and> triple (PFloat 1.5) = Ok (PFloat 4.5)
   \<and> triple (PList [PInt 4, PFloat 2.5]) = Ok (PList [PInt 12, PFloat 7.5])"
proof -
  have h: "exact_float 1.5" "exact_float (1.5 * 3)"
    "list_all (\<lambda>x. case x of PInt n \<Rightarrow> True
                     | PFloat q \<Rightarrow> exact_float q \<and> exact_float (q * 3) | _ \<Rightarrow> False)
       [PInt 4, PFloat 2.5]"
    by (simp_all add: exact_float_def)
  let ?xs = "[PInt 4, PFloat 2.5]"
  note t = C6_triple [OF h, of 4 "[1, 2, 3]"]
  from t obtain ys where ys: "triple (PList ?xs) = Ok (PList ys)" "length ys = length ?xs"
    and el: "\<forall>i<length ?xs. (\<forall>k. ?xs ! i = PInt k \<longrightarrow> ys ! i = PInt (k * 3))
                \<and> (\<forall>q. ?xs ! i = PFloat q \<longrightarrow> ys ! i = PFloat (q * 3))"
    by blast
  have i: "0 < length ?xs" "1 < length ?xs" "?xs ! 0 = PInt 4" "?xs ! 1 = PFloat 2.5"
    by simp_all
  from el i(1) have "\<forall>k. ?xs ! 0 = PInt k \<longrightarrow> ys ! 0 = PInt (k * 3)"
    by blast
  with i(3) have y0: "ys ! 0 = PInt (4 * 3)"
    by blast
  from el i(2) have "\<forall>q. ?xs ! 1 = PFloat q \<longrightarrow> ys ! 1 = PFloat (q * 3)"
    by blast
  with i(4) have y1: "ys ! 1 = PFloat (2.5 * 3)"
    by blast
  from ys(2) y0 y1 have "ys = [PInt 12, PFloat 7.5]"
    by (cases ys; cases "tl ys") auto
  with ys(1) t h show ?thesis
    by simp
qed

text \<open>
  C8. \<^verbatim>\<open>multiply(x)\<close> returns the function \<^verbatim>\<open>helper\<close> holding \<open>x\<close>, and calling that
  function with \<open>y\<close> gives what \<^verbatim>\<open>x * y\<close> gives, whatever the two values and the state.
  For two integers the result is their product, so \<^verbatim>\<open>multiply(2)(3)\<close> is exactly 6. For
  two floats it is their product where that product is exact (the floats and the product
  are multiples of \<^verbatim>\<open>2 ** -20\<close> of magnitude at most \<^verbatim>\<open>2 ** 30\<close>); where Python rounds
  the product the model gives it no value.
\<close>

theorem C8_multiply:
  assumes "exact_float c" and "exact_float d" and "exact_float (c * d)"
  shows "call (call (const (PFun ''multiply'' [])) [const x] []) [const y] [] s = (py_mul x y, s)
   \<and> call (call (const (PFun ''multiply'' [])) [lit_int a] []) [lit_int b] [] s
       = (Ok (PInt (a * b)), s)
   \<and> call (call (const (PFun ''multiply'' [])) [lit_int 2] []) [lit_int 3] [] s
       = (Ok (PInt 6), s)
   \<and> multiply x = Ok (PFun ''helper'' [(''x'', x)])
   \<and> helper [(''x'', x)] y = py_mul x y
   \<and> helper [(''x'', PInt a)] (PInt b) = Ok (PInt (a * b))
   \<and> helper [(''x'', PFloat c)] (PFloat d) = Ok (PFloat (c * d))"
  using assms
  by (simp add: expr_defs monad_defs call_defs function_table_def multiply_def helper_def
        py_mul_int py_mul_float)

theorem C8_multiply_witness:
  "exact_float 1.5 \<and> exact_float 2.5 \<and> exact_float (1.5 * 2.5)
   \<and> helper [(''x'', PFloat 1.5)] (PFloat 2.5) = Ok (PFloat 3.75)
   \<and> helper [(''x'', PInt 2)] (PInt 3) = Ok (PInt 6)
   \<and> multiply (PInt 2) = Ok (PFun ''helper'' [(''x'', PInt 2)])"
proof -
  have h: "exact_float 1.5" "exact_float 2.5" "exact_float (1.5 * 2.5)"
    by (simp_all add: exact_float_def)
  show ?thesis
    using h C8_multiply [OF h, of "PInt 2" "PInt 3" initial_state 2 3]
    by (simp add: py_mul_int)
qed

text \<open>
  C9. The four first-element functions are the same function. On a non-empty list or
  tuple each returns the first element, and on a non-empty string its first character; on
  the empty list each raises \<^verbatim>\<open>IndexError\<close>.
\<close>

theorem C9_first_functions_equal:
  "first_union = first_typevar \<and> first_typevar = first_typevar_constrained
   \<and> first_typevar_constrained = first_typevar_bounded
   \<and> first_union (PList (x # xs)) = Ok x \<and> first_union (PTuple (x # xs)) = Ok x
   \<and> first_union (PStr (c # cs)) = Ok (PStr [c])
   \<and> first_union (PList []) = Raise IndexError"
  by (auto simp: first_union_def first_typevar_def first_typevar_constrained_def
        first_typevar_bounded_def fun_eq_iff py_getitem_def as_index_def seq_item_def
        outcome_map_def)

text \<open>
  C10. For \<^verbatim>\<open>None\<close> both greeting functions print \<^verbatim>\<open>No name\<close> and then
  \<^verbatim>\<open>Welcome None.\<close>: there is no early return. For a string they print the welcome line
  alone. So the welcome line is the last line printed for every input of the annotated
  type.
\<close>

theorem C10_greetings_no_early_return:
  "greetings PNone s = (Ok PNone, s\<lparr>console := console s @ [''No name'', ''Welcome None.'']\<rparr>)
   \<and> greetings_alternative PNone s =
       (Ok PNone, s\<lparr>console := console s @ [''No name'', ''Welcome None.'']\<rparr>)
   \<and> greetings (PStr n) s = (Ok PNone, s\<lparr>console := console s @ [''Welcome '' @ n @ ''.'']\<rparr>)
   \<and> greetings_alternative (PStr n) s =
       (Ok PNone, s\<lparr>console := console s @ [''Welcome '' @ n @ ''.'']\<rparr>)"
  by (simp add: greetings_def greetings_alternative_def monad_defs py_print_def py_str_def)

section \<open>The run of the script\<close>

text \<open>
  The run is followed group by group. For each group of statements one lemma says that
  it ends without a fault from the state the previous group left, and what it adds to
  that state: the new bindings of the module namespace and of the heap (newest first, over
  those of the state before), the next free reference, and the lines printed.
\<close>

named_theorems run_simps

lemma lookup_in_map_of: "map_of (newer @ older) k = lookup_in k newer (map_of older)"
  by (induction newer) auto

lemma lookup_in_cong: "k = k' \<Longrightarrow> lookup_in k newer older = lookup_in k' newer older"
  by simp

lemma initial_state_simps [run_simps]:
  "map_of (globals initial_state) n = None" "map_of (heap initial_state) r = None"
  "next_ref initial_state = 0" "locals initial_state = None" "annots initial_state = []"
  "console initial_state = []"
  by (simp_all add: initial_state_def)

lemma exc_chain_numeral:
  "exc_chain (numeral k) c =
     (case map_of exc_parent c of None \<Rightarrow> [c] | Some p \<Rightarrow> c # exc_chain (pred_numeral k) p)"
  by (simp add: numeral_eq_Suc)

lemma complex_literal: "numeral w + Complex 0 y = Complex (numeral w) y"
  by (simp add: complex_eq_iff)

lemmas value_defs = Let_def complex_literal exc_chain_numeral upto.simps py_add_def py_mul_def arith_def exact_float_def
  float_op_def complex_add_def py_eq_def as_num_def is_scalar_def is_number_def
  scalar_eq_def py_truthy_def py_str_def str_of_int_def digits.simps py_getitem_def py_iter_def
  py_sum_def str_join_def list_append_def set_add_def dict_set_def unhashable_def seq_item_def
  as_index_def seq_repeat_def repeat_def range_list_def typing_subscriptable_def is_PStr_def
  outcome_map_def py_or_def is_type_operand_def value_method_def
  TypeError_def ValueError_def IndexError_def KeyError_def NameError_def AttributeError_def
  ImportError_def AssertionError_def

lemmas body_defs = multiply_ab_def double_def double_alternative_def triple_def get_scores_def
  is_user_valid_def convertable_to_string_def sum_all_elements_def sum_all_elements_2_def
  double_def_def lambda_673_def summation_def multiply_def helper_def first_union_def
  first_typevar_def first_typevar_constrained_def first_typevar_bounded_def UserID_def
  hello_world_def raise_exception_def show_vehicle_def show_truck_def greetings_def
  greetings_alternative_def PaymentSystem_pay_def DebitPaymentSystem_pay_def
  Citizen_get_summary_def Diplomat_get_summary_def Car_set_pretol_price_def
  StreamingSystem_play_def WebStreamingSystem_play_def Doubler_call_def show_quality_def
  map_function_def py_print_def

lemmas heap_defs = heap_at_def alloc_def heap_put_def class_at_def make_class_def base_ref_def
  is_Generic_def transparent_base_def known_base_def plain_class_def generic_class_def dunder_def
  bind_method_def class_getattr_def py_getattr_def py_setattr_def type_name_def metaclass_name_def
  py_raise_value_def isinstance_builtin_def py_isinstance_def is_ClassVar_def
  inherited_fields_def own_fields_def mutable_default_def dataclass_def construct_def
  py_subscript_def exc_matches_def exc_isa_def module_names_def

lemmas run_defs = stmt_defs expr_defs monad_defs call_value_def callee_def call_direct_def
  call_simple_def fn0_def fn1_def fn2_def call_fun_def function_table_def call_builtin_def
  call_imported_def value_defs body_defs heap_defs builtin_names_def builtin_classes_def
  builtin_functions_def exception_classes_def exc_parent_def point_lit_def Union_float_List_def
  Callable_float_float_def one_two_three_def first_calls_def service_of_def class_Car_def
  class_AbstractStreamingService_def variance_classes_def variance_calls_def

lemma run_simple_data_types [run_simps]:
  "exec simple_data_types initial_state = (Ok (), after_simple_data_types)"
  "map_of (globals after_simple_data_types) n =
     lookup_in n
       [(''base_object'', PStr ''Hello''), (''complex_solution'', PComplex (Complex 2 4)),
       (''name_stream'', PBytes ''John''), (''name'', PStr ''John''),
       (''numbers_integer_with_float'', PFloat 10), (''numbers_float'', PFloat 10),
       (''numbers_integer'', PInt 10)]
       (map_of (globals initial_state))"
    (is "_ = lookup_in n ?G _")
  "map_of (heap after_simple_data_types) r =
     lookup_in r
       []
       (map_of (heap initial_state))"
    (is "_ = lookup_in r ?H _")
  "next_ref after_simple_data_types = 0"
  "locals after_simple_data_types = None"
  "annots after_simple_data_types = []"
  and console_simple_data_types:
  "console after_simple_data_types =
     console initial_state @
       []"
    (is "_ = _ @ ?L")
proof -
  have "exec simple_data_types initial_state =
      (Ok (), initial_state\<lparr>globals := ?G @ globals initial_state\<rparr>)"
    by (simp add: simple_data_types_def run_defs run_simps cong: lookup_in_cong)
  then have eq: "after_simple_data_types =
      initial_state\<lparr>globals := ?G @ globals initial_state\<rparr>"
    by (simp add: after_simple_data_types_def)
  show "exec simple_data_types initial_state = (Ok (), after_simple_data_types)"
    using \<open>exec simple_data_types initial_state = _\<close> by (simp add: eq)
  show "map_of (globals after_simple_data_types) n = lookup_in n ?G (map_of (globals initial_state))"
    by (simp add: eq lookup_in_map_of)
  show "map_of (heap after_simple_data_types) r = lookup_in r ?H (map_of (heap initial_state))"
    by (simp add: eq lookup_in_map_of)
  show "next_ref after_simple_data_types = 0" "locals after_simple_data_types = None" "annots after_simple_data_types = []"
    by (simp_all add: eq run_simps)
  show "console after_simple_data_types = console initial_state @ ?L"
    by (simp add: eq)
qed

lemma run_complex_data_types [run_simps]:
  "exec complex_data_types after_simple_data_types = (Ok (), after_complex_data_types)"
  "map_of (globals after_complex_data_types) n =
     lookup_in n
       [(''students_marks'', PDict []), (''poly_line_2'', PList [PTuple [PFloat 0, PFloat 0],
       PTuple [PFloat (3 / 2), PFloat (3 / 2)]]), (''point_2'', PTuple [PFloat (3 / 2),
       PFloat (5 / 2)]), (''second_in_tuple'', PFloat (9 / 2)), (''first_in_tuple'',
       PFloat (1 / 2)), (''students_marks'', PDict [(PStr ''Mary'', PInt 9), (PStr ''John'',
       PFloat (13 / 2))]), (''students_marks'', PDict [(PStr ''Mary'', PInt 9)]),
       (''students_marks'', PDict []), (''poly_line'', PList [PTuple [PFloat 0, PFloat 0],
       PTuple [PFloat (3 / 2), PFloat (3 / 2)], PTuple [PFloat 3, PFloat (3 / 2)],
       PList [PFloat 4, PFloat (1 / 2)]]), (''poly_line'', PList [PTuple [PFloat 0, PFloat 0],
       PTuple [PFloat (3 / 2), PFloat (3 / 2)], PTuple [PFloat 3, PFloat (3 / 2)]]),
       (''poly_line'', PList [PTuple [PFloat 0, PFloat 0], PTuple [PFloat (3 / 2),
       PFloat (3 / 2)]]), (''any_length_tuple'', PTuple [PFloat (1 / 2), PFloat (9 / 2),
       PFloat 1, PStr ''5.0'']), (''any_length_tuple'', PTuple [PFloat (1 / 2), PFloat (9 / 2),
       PFloat 1, PFloat 5]), (''any_length_tuple'', PTuple [PFloat (1 / 2), PFloat (9 / 2),
       PFloat 1]), (''point'', PTuple [PFloat (1 / 2), PFloat (9 / 2), PFloat 1]), (''point'',
       PTuple [PFloat (1 / 2), PFloat (9 / 2)]), (''point'', PTuple [PFloat (3 / 2),
       PFloat (5 / 2)]), (''students'', PSet [PStr ''John'', PStr ''Mary'', PStr ''David'',
       PInt 4]), (''students'', PSet [PStr ''John'', PStr ''Mary'', PStr ''David'']),
       (''marks'', PList [PFloat (21 / 5), PFloat (38 / 5), PFloat (5 / 2), PStr ''John'']),
       (''marks'', PList [PFloat (21 / 5), PFloat (38 / 5), PFloat (5 / 2)]), (''Tuple'',
       PImported ''typing'' ''Tuple''), (''Dict'', PImported ''typing'' ''Dict''), (''Set'',
       PImported ''typing'' ''Set''), (''List'', PImported ''typing'' ''List'')]
       (map_of (globals after_simple_data_types))"
    (is "_ = lookup_in n ?G _")
  "map_of (heap after_complex_data_types) r =
     lookup_in r
       []
       (map_of (heap after_simple_data_types))"
    (is "_ = lookup_in r ?H _")
  "next_ref after_complex_data_types = 0"
  "locals after_complex_data_types = None"
  "annots after_complex_data_types = []"
  and console_complex_data_types:
  "console after_complex_data_types =
     console after_simple_data_types @
       []"
    (is "_ = _ @ ?L")
proof -
  have "exec complex_data_types after_simple_data_types =
      (Ok (), after_simple_data_types\<lparr>globals := ?G @ globals after_simple_data_types\<rparr>)"
    by (simp add: complex_data_types_def run_defs run_simps cong: lookup_in_cong)
  then have eq: "after_complex_data_types =
      after_simple_data_types\<lparr>globals := ?G @ globals after_simple_data_types\<rparr>"
    by (simp add: after_complex_data_types_def)
  show "exec complex_data_types after_simple_data_types = (Ok (), after_complex_data_types)"
    using \<open>exec complex_data_types after_simple_data_types = _\<close> by (simp add: eq)
  show "map_of (globals after_complex_data_types) n = lookup_in n ?G (map_of (globals after_simple_data_types))"
    by (simp add: eq lookup_in_map_of)
  show "map_of (heap after_complex_data_types) r = lookup_in r ?H (map_of (heap after_simple_data_types))"
    by (simp add: eq lookup_in_map_of)
  show "next_ref after_complex_data_types = 0" "locals after_complex_data_types = None" "annots after_complex_data_types = []"
    by (simp_all add: eq run_simps)
  show "console after_complex_data_types = console after_simple_data_types @ ?L"
    by (simp add: eq)
qed

lemma run_classes_and_inheritance [run_simps]:
  "exec classes_and_inheritance after_complex_data_types = (Ok (), after_classes_and_inheritance)"
  "map_of (globals after_classes_and_inheritance) n =
     lookup_in n
       [(''payment'', PRef 2), (''DebitPaymentSystem'', PRef 1), (''PaymentSystem'', PRef 0),
       (''ABC'', PImported ''abc'' ''ABC'')]
       (map_of (globals after_complex_data_types))"
    (is "_ = lookup_in n ?G _")
  "map_of (heap after_classes_and_inheritance) r =
     lookup_in r
       [(2, InstObj 1 []), (1, ClassObj \<lparr>cname = ''DebitPaymentSystem'',
       cbases = [PRef 0], cmro = [1, 0], cdict = [(''pay'',
       PFun ''DebitPaymentSystem.pay'' [])], cannots = [], cfields = None\<rparr>), (0,
       ClassObj \<lparr>cname = ''PaymentSystem'', cbases = [PImported ''abc'' ''ABC''],
       cmro = [0], cdict = [(''pay'', PFun ''PaymentSystem.pay'' [])], cannots = [],
       cfields = None\<rparr>)]
       (map_of (heap after_complex_data_types))"
    (is "_ = lookup_in r ?H _")
  "next_ref after_classes_and_inheritance = 3"
  "locals after_classes_and_inheritance = None"
  "annots after_classes_and_inheritance = []"
  and console_classes_and_inheritance:
  "console after_classes_and_inheritance =
     console after_complex_data_types @
       [''You are paying with Debit'']"
    (is "_ = _ @ ?L")
proof -
  have "exec classes_and_inheritance after_complex_data_types =
      (Ok (), after_complex_data_types\<lparr>globals := ?G @ globals after_complex_data_types,
        heap := ?H @ heap after_complex_data_types, next_ref := 3,
        console := console after_complex_data_types @ ?L\<rparr>)"
    by (simp add: classes_and_inheritance_def run_defs run_simps cong: lookup_in_cong)
  then have eq: "after_classes_and_inheritance =
      after_complex_data_types\<lparr>globals := ?G @ globals after_complex_data_types,
      heap := ?H @ heap after_complex_data_types, next_ref := 3,
      console := console after_complex_data_types @ ?L\<rparr>"
    by (simp add: after_classes_and_inheritance_def)
  show "exec classes_and_inheritance after_complex_data_types = (Ok (), after_classes_and_inheritance)"
    using \<open>exec classes_and_inheritance after_complex_data_types = _\<close> by (simp add: eq)
  show "map_of (globals after_classes_and_inheritance) n = lookup_in n ?G (map_of (globals after_complex_data_types))"
    by (simp add: eq lookup_in_map_of)
  show "map_of (heap after_classes_and_inheritance) r = lookup_in r ?H (map_of (heap after_complex_data_types))"
    by (simp add: eq lookup_in_map_of)
  show "next_ref after_classes_and_inheritance = 3" "locals after_classes_and_inheritance = None" "annots after_classes_and_inheritance = []"
    by (simp_all add: eq run_simps)
  show "console after_classes_and_inheritance = console after_complex_data_types @ ?L"
    by (simp add: eq)
qed

lemma run_automatic_type_inference [run_simps]:
  "exec automatic_type_inference after_classes_and_inheritance = (Ok (), after_automatic_type_inference)"
  "map_of (globals after_automatic_type_inference) n =
     lookup_in n
       [(''participants_scores_alt'', PList [PFloat 5]), (''participants_scores_alt'',
       PList []), (''participants_scores'', PList [PFloat 5]), (''participants_scores'',
       PList []), (''teachers'', PList [PStr ''Andrew'', PStr ''Alex'', PStr ''Jason'',
       PFloat (15 / 2)]), (''teachers'', PList [PStr ''Andrew'', PStr ''Alex'',
       PStr ''Jason''])]
       (map_of (globals after_classes_and_inheritance))"
    (is "_ = lookup_in n ?G _")
  "map_of (heap after_automatic_type_inference) r =
     lookup_in r
       []
       (map_of (heap after_classes_and_inheritance))"
    (is "_ = lookup_in r ?H _")
  "next_ref after_automatic_type_inference = 3"
  "locals after_automatic_type_inference = None"
  "annots after_automatic_type_inference = []"
  and console_automatic_type_inference:
  "console after_automatic_type_inference =
     console after_classes_and_inheritance @
       []"
    (is "_ = _ @ ?L")
proof -
  have "exec automatic_type_inference after_classes_and_inheritance =
      (Ok (), after_classes_and_inheritance\<lparr>globals := ?G @ globals after_classes_and_inheritance\<rparr>)"
    by (simp add: automatic_type_inference_def run_defs run_simps cong: lookup_in_cong)
  then have eq: "after_automatic_type_inference =
      after_classes_and_inheritance\<lparr>globals := ?G @ globals after_classes_and_inheritance\<rparr>"
    by (simp add: after_automatic_type_inference_def)
  show "exec automatic_type_inference after_classes_and_inheritance = (Ok (), after_automatic_type_inference)"
    using \<open>exec automatic_type_inference after_classes_and_inheritance = _\<close> by (simp add: eq)
  show "map_of (globals after_automatic_type_inference) n = lookup_in n ?G (map_of (globals after_classes_and_inheritance))"
    by (simp add: eq lookup_in_map_of)
  show "map_of (heap after_automatic_type_inference) r = lookup_in r ?H (map_of (heap after_classes_and_inheritance))"
    by (simp add: eq lookup_in_map_of)
  show "next_ref after_automatic_type_inference = 3" "locals after_automatic_type_inference = None" "annots after_automatic_type_inference = []"
    by (simp_all add: eq run_simps)
  show "console after_automatic_type_inference = console after_classes_and_inheritance @ ?L"
    by (simp add: eq)
qed

lemma run_functions_section [run_simps]:
  "exec functions_section after_automatic_type_inference = (Ok (), after_functions_section)"
  "map_of (globals after_functions_section) n =
     lookup_in n
       [(''raise_exception'', PFun ''raise_exception'' []), (''NoReturn'',
       PImported ''typing'' ''NoReturn''), (''hello_world'', PFun ''hello_world'' []),
       (''multiply'', PFun ''multiply_ab'' [])]
       (map_of (globals after_automatic_type_inference))"
    (is "_ = lookup_in n ?G _")
  "map_of (heap after_functions_section) r =
     lookup_in r
       []
       (map_of (heap after_automatic_type_inference))"
    (is "_ = lookup_in r ?H _")
  "next_ref after_functions_section = 3"
  "locals after_functions_section = None"
  "annots after_functions_section = []"
  and console_functions_section:
  "console after_functions_section =
     console after_automatic_type_inference @
       []"
    (is "_ = _ @ ?L")
proof -
  have "exec functions_section after_automatic_type_inference =
      (Ok (), after_automatic_type_inference\<lparr>globals := ?G @ globals after_automatic_type_inference\<rparr>)"
    by (simp add: functions_section_def run_defs run_simps cong: lookup_in_cong)
  then have eq: "after_functions_section =
      after_automatic_type_inference\<lparr>globals := ?G @ globals after_automatic_type_inference\<rparr>"
    by (simp add: after_functions_section_def)
  show "exec functions_section after_automatic_type_inference = (Ok (), after_functions_section)"
    using \<open>exec functions_section after_automatic_type_inference = _\<close> by (simp add: eq)
  show "map_of (globals after_functions_section) n = lookup_in n ?G (map_of (globals after_automatic_type_inference))"
    by (simp add: eq lookup_in_map_of)
  show "map_of (heap after_functions_section) r = lookup_in r ?H (map_of (heap after_automatic_type_inference))"
    by (simp add: eq lookup_in_map_of)
  show "next_ref after_functions_section = 3" "locals after_functions_section = None" "annots after_functions_section = []"
    by (simp_all add: eq run_simps)
  show "console after_functions_section = console after_automatic_type_inference @ ?L"
    by (simp add: eq)
qed

lemma run_try_raise_exception [run_simps]:
  "exec try_raise_exception after_functions_section = (Ok (), after_try_raise_exception)"
  "map_of (globals after_try_raise_exception) n =
     lookup_in n
       []
       (map_of (globals after_functions_section))"
    (is "_ = lookup_in n ?G _")
  "map_of (heap after_try_raise_exception) r =
     lookup_in r
       []
       (map_of (heap after_functions_section))"
    (is "_ = lookup_in r ?H _")
  "next_ref after_try_raise_exception = 3"
  "locals after_try_raise_exception = None"
  "annots after_try_raise_exception = []"
  and console_try_raise_exception:
  "console after_try_raise_exception =
     console after_functions_section @
       [''ValueError was thrown!'']"
    (is "_ = _ @ ?L")
proof -
  have "exec try_raise_exception after_functions_section =
      (Ok (), after_functions_section\<lparr>console := console after_functions_section @ ?L\<rparr>)"
    by (simp add: try_raise_exception_def run_defs run_simps cong: lookup_in_cong)
  then have eq: "after_try_raise_exception =
      after_functions_section\<lparr>console := console after_functions_section @ ?L\<rparr>"
    by (simp add: after_try_raise_exception_def)
  show "exec try_raise_exception after_functions_section = (Ok (), after_try_raise_exception)"
    using \<open>exec try_raise_exception after_functions_section = _\<close> by (simp add: eq)
  show "map_of (globals after_try_raise_exception) n = lookup_in n ?G (map_of (globals after_functions_section))"
    by (simp add: eq lookup_in_map_of)
  show "map_of (heap after_try_raise_exception) r = lookup_in r ?H (map_of (heap after_functions_section))"
    by (simp add: eq lookup_in_map_of)
  show "next_ref after_try_raise_exception = 3" "locals after_try_raise_exception = None" "annots after_try_raise_exception = []"
    by (simp_all add: eq run_simps)
  show "console after_try_raise_exception = console after_functions_section @ ?L"
    by (simp add: eq)
qed

lemma run_classes_section [run_simps]:
  "exec classes_section after_try_raise_exception = (Ok (), after_classes_section)"
  "map_of (globals after_classes_section) n =
     lookup_in n
       [(''new_truck'', PRef 6), (''new_vehicle'', PRef 5), (''show_truck'',
       PFun ''show_truck'' []), (''show_vehicle'', PFun ''show_vehicle'' []), (''Truck'',
       PRef 4), (''Vehicle'', PRef 3), (''dataclass'', PImported ''dataclasses'' ''dataclass'')]
       (map_of (globals after_try_raise_exception))"
    (is "_ = lookup_in n ?G _")
  "map_of (heap after_classes_section) r =
     lookup_in r
       [(6, InstObj 4 [(''speed'', PInt 90), (''color'', PStr ''Red''), (''tare'', PInt 10)]),
       (5, InstObj 3 [(''speed'', PInt 140), (''color'', PStr ''Blue'')]), (4,
       ClassObj \<lparr>cname = ''Truck'', cbases = [PRef 3], cmro = [4, 3], cdict = [],
       cannots = [(''tare'', PBuiltin ''float'')], cfields = Some [(''speed'', None),
       (''color'', None), (''tare'', None)]\<rparr>), (4, ClassObj \<lparr>cname = ''Truck'',
       cbases = [PRef 3], cmro = [4, 3], cdict = [], cannots = [(''tare'', PBuiltin ''float'')],
       cfields = None\<rparr>), (3, ClassObj \<lparr>cname = ''Vehicle'', cbases = [],
       cmro = [3], cdict = [], cannots = [(''speed'', PBuiltin ''float''), (''color'',
       PBuiltin ''str'')], cfields = Some [(''speed'', None), (''color'', None)]\<rparr>), (3,
       ClassObj \<lparr>cname = ''Vehicle'', cbases = [], cmro = [3], cdict = [],
       cannots = [(''speed'', PBuiltin ''float''), (''color'', PBuiltin ''str'')],
       cfields = None\<rparr>)]
       (map_of (heap after_try_raise_exception))"
    (is "_ = lookup_in r ?H _")
  "next_ref after_classes_section = 7"
  "locals after_classes_section = None"
  "annots after_classes_section = []"
  and console_classes_section:
  "console after_classes_section =
     console after_try_raise_exception @
       [''This vehicle can go to 140 and is Blue'', ''This vehicle can go to 90 and is Red'',
       ''This truck can go to 90 and is Red'', ''This truck can go to 140 and is Blue'']"
    (is "_ = _ @ ?L")
proof -
  have "exec classes_section after_try_raise_exception =
      (Ok (), after_try_raise_exception\<lparr>globals := ?G @ globals after_try_raise_exception,
        heap := ?H @ heap after_try_raise_exception, next_ref := 7,
        console := console after_try_raise_exception @ ?L\<rparr>)"
    by (simp add: classes_section_def run_defs run_simps cong: lookup_in_cong)
  then have eq: "after_classes_section =
      after_try_raise_exception\<lparr>globals := ?G @ globals after_try_raise_exception,
      heap := ?H @ heap after_try_raise_exception, next_ref := 7,
      console := console after_try_raise_exception @ ?L\<rparr>"
    by (simp add: after_classes_section_def)
  show "exec classes_section after_try_raise_exception = (Ok (), after_classes_section)"
    using \<open>exec classes_section after_try_raise_exception = _\<close> by (simp add: eq)
  show "map_of (globals after_classes_section) n = lookup_in n ?G (map_of (globals after_try_raise_exception))"
    by (simp add: eq lookup_in_map_of)
  show "map_of (heap after_classes_section) r = lookup_in r ?H (map_of (heap after_try_raise_exception))"
    by (simp add: eq lookup_in_map_of)
  show "next_ref after_classes_section = 7" "locals after_classes_section = None" "annots after_classes_section = []"
    by (simp_all add: eq run_simps)
  show "console after_classes_section = console after_try_raise_exception @ ?L"
    by (simp add: eq)
qed

lemma run_type_aliases [run_simps]:
  "exec type_aliases after_classes_section = (Ok (), after_type_aliases)"
  "map_of (globals after_type_aliases) n =
     lookup_in n
       [(''house_polygon'', PTuple [PTuple [PFloat 0, PFloat 0], PTuple [PFloat 4, PFloat 0],
       PTuple [PFloat 4, PFloat 4], PTuple [PFloat 2, PFloat 6], PTuple [PFloat 0, PFloat 4]]),
       (''Pentagon'', PAlias (PImported ''typing'' ''Tuple'')), (''TypeAlias'',
       PImported ''typing'' ''TypeAlias''), (''poligon'', PTuple [PTuple [PFloat 0, PFloat 0],
       PTuple [PFloat 0, PFloat 1], PTuple [PFloat 1, PFloat 1]]), (''Triangle'',
       PAlias (PImported ''typing'' ''Tuple'')), (''Point2D'',
       PAlias (PImported ''typing'' ''Tuple''))]
       (map_of (globals after_classes_section))"
    (is "_ = lookup_in n ?G _")
  "map_of (heap after_type_aliases) r =
     lookup_in r
       []
       (map_of (heap after_classes_section))"
    (is "_ = lookup_in r ?H _")
  "next_ref after_type_aliases = 7"
  "locals after_type_aliases = None"
  "annots after_type_aliases = []"
  and console_type_aliases:
  "console after_type_aliases =
     console after_classes_section @
       []"
    (is "_ = _ @ ?L")
proof -
  have "exec type_aliases after_classes_section =
      (Ok (), after_classes_section\<lparr>globals := ?G @ globals after_classes_section\<rparr>)"
    by (simp add: type_aliases_def run_defs run_simps cong: lookup_in_cong)
  then have eq: "after_type_aliases =
      after_classes_section\<lparr>globals := ?G @ globals after_classes_section\<rparr>"
    by (simp add: after_type_aliases_def)
  show "exec type_aliases after_classes_section = (Ok (), after_type_aliases)"
    using \<open>exec type_aliases after_classes_section = _\<close> by (simp add: eq)
  show "map_of (globals after_type_aliases) n = lookup_in n ?G (map_of (globals after_classes_section))"
    by (simp add: eq lookup_in_map_of)
  show "map_of (heap after_type_aliases) r = lookup_in r ?H (map_of (heap after_classes_section))"
    by (simp add: eq lookup_in_map_of)
  show "next_ref after_type_aliases = 7" "locals after_type_aliases = None" "annots after_type_aliases = []"
    by (simp_all add: eq run_simps)
  show "console after_type_aliases = console after_classes_section @ ?L"
    by (simp add: eq)
qed

lemma run_newtype_section [run_simps]:
  "exec newtype_section after_type_aliases = (Ok (), after_newtype_section)"
  "map_of (globals after_newtype_section) n =
     lookup_in n
       [(''is_user_valid'', PFun ''is_user_valid'' []), (''sum_of_ids'', PInt 810), (''user_b'',
       PInt 654), (''user_a'', PInt 156), (''UserID'', PNewType ''UserID''), (''NewType'',
       PImported ''typing'' ''NewType'')]
       (map_of (globals after_type_aliases))"
    (is "_ = lookup_in n ?G _")
  "map_of (heap after_newtype_section) r =
     lookup_in r
       []
       (map_of (heap after_type_aliases))"
    (is "_ = lookup_in r ?H _")
  "next_ref after_newtype_section = 7"
  "locals after_newtype_section = None"
  "annots after_newtype_section = []"
  and console_newtype_section:
  "console after_newtype_section =
     console after_type_aliases @
       []"
    (is "_ = _ @ ?L")
proof -
  have "exec newtype_section after_type_aliases =
      (Ok (), after_type_aliases\<lparr>globals := ?G @ globals after_type_aliases\<rparr>)"
    by (simp add: newtype_section_def run_defs run_simps cong: lookup_in_cong)
  then have eq: "after_newtype_section =
      after_type_aliases\<lparr>globals := ?G @ globals after_type_aliases\<rparr>"
    by (simp add: after_newtype_section_def)
  show "exec newtype_section after_type_aliases = (Ok (), after_newtype_section)"
    using \<open>exec newtype_section after_type_aliases = _\<close> by (simp add: eq)
  show "map_of (globals after_newtype_section) n = lookup_in n ?G (map_of (globals after_type_aliases))"
    by (simp add: eq lookup_in_map_of)
  show "map_of (heap after_newtype_section) r = lookup_in r ?H (map_of (heap after_type_aliases))"
    by (simp add: eq lookup_in_map_of)
  show "next_ref after_newtype_section = 7" "locals after_newtype_section = None" "annots after_newtype_section = []"
    by (simp_all add: eq run_simps)
  show "console after_newtype_section = console after_type_aliases @ ?L"
    by (simp add: eq)
qed

lemma run_typed_dict_section [run_simps]:
  "exec typed_dict_section after_newtype_section = (Ok (), after_typed_dict_section)"
  "map_of (globals after_typed_dict_section) n =
     lookup_in n
       [(''student'', PDict [(PStr ''name'', PStr ''Peter''), (PStr ''age'', PInt 16),
       (PStr ''mark'', PFloat (13 / 2))]), (''student'', PDict [(PStr ''name'', PStr ''Peter''),
       (PStr ''age'', PInt 16)]), (''teacher'', PDict [(PStr ''name'', PStr ''Alfred''),
       (PStr ''age'', PInt 30), (PStr ''mark'', PInt 0)]), (''teacher'', PDict [(PStr ''name'',
       PStr ''Alfred''), (PStr ''age'', PInt 30)]), (''Student'', PRef 10), (''Person'',
       PRef 9), (''mobile_z'', PDict [(PStr ''name'', PStr ''MobileZ'')]), (''UnpricedProduct'',
       PRef 8), (''mobile_x_alt'', PDict [(PStr ''name'', PStr ''MobileX''), (PStr ''price'',
       PInt 350), (PStr ''brand'', PStr ''XCo'')]), (''mobile_x_alt'', PDict [(PStr ''name'',
       PStr ''MobileX''), (PStr ''price'', PInt 350)]), (''mobile_x_alt'',
       PDict [(PStr ''name'', PStr ''MobileX''), (PStr ''price'', PInt 300)]),
       (''ProductClass'', PRef 7), (''mobile_y'', PDict [(PStr ''name'', PStr ''MobileY'')]),
       (''mobile_x'', PDict [(PStr ''name'', PStr ''MobileX''), (PStr ''price'', PInt 350),
       (PStr ''brand'', PStr ''XCo'')]), (''mobile_x'', PDict [(PStr ''name'',
       PStr ''MobileX''), (PStr ''price'', PInt 350)]), (''mobile_x'', PDict [(PStr ''name'',
       PStr ''MobileX''), (PStr ''price'', PInt 300)]), (''ProductDict'',
       PTypedDict ''Product''), (''TypedDict'', PImported ''typing'' ''TypedDict'')]
       (map_of (globals after_newtype_section))"
    (is "_ = lookup_in n ?G _")
  "map_of (heap after_typed_dict_section) r =
     lookup_in r
       [(10, ClassObj \<lparr>cname = ''Student'', cbases = [PRef 9], cmro = [10, 9],
       cdict = [], cannots = [(''mark'', PBuiltin ''float'')], cfields = None\<rparr>), (9,
       ClassObj \<lparr>cname = ''Person'', cbases = [PImported ''typing'' ''TypedDict''],
       cmro = [9], cdict = [], cannots = [(''name'', PBuiltin ''str''), (''age'',
       PBuiltin ''float'')], cfields = None\<rparr>), (8,
       ClassObj \<lparr>cname = ''UnpricedProduct'',
       cbases = [PImported ''typing'' ''TypedDict''], cmro = [8], cdict = [],
       cannots = [(''name'', PBuiltin ''str''), (''price'', PBuiltin ''float'')],
       cfields = None\<rparr>), (7, ClassObj \<lparr>cname = ''ProductClass'',
       cbases = [PImported ''typing'' ''TypedDict''], cmro = [7], cdict = [],
       cannots = [(''name'', PBuiltin ''str''), (''price'', PBuiltin ''float'')],
       cfields = None\<rparr>)]
       (map_of (heap after_newtype_section))"
    (is "_ = lookup_in r ?H _")
  "next_ref after_typed_dict_section = 11"
  "locals after_typed_dict_section = None"
  "annots after_typed_dict_section = []"
  and console_typed_dict_section:
  "console after_typed_dict_section =
     console after_newtype_section @
       []"
    (is "_ = _ @ ?L")
proof -
  have "exec typed_dict_section after_newtype_section =
      (Ok (), after_newtype_section\<lparr>globals := ?G @ globals after_newtype_section,
        heap := ?H @ heap after_newtype_section, next_ref := 11\<rparr>)"
    by (simp add: typed_dict_section_def run_defs run_simps cong: lookup_in_cong)
  then have eq: "after_typed_dict_section =
      after_newtype_section\<lparr>globals := ?G @ globals after_newtype_section,
      heap := ?H @ heap after_newtype_section, next_ref := 11\<rparr>"
    by (simp add: after_typed_dict_section_def)
  show "exec typed_dict_section after_newtype_section = (Ok (), after_typed_dict_section)"
    using \<open>exec typed_dict_section after_newtype_section = _\<close> by (simp add: eq)
  show "map_of (globals after_typed_dict_section) n = lookup_in n ?G (map_of (globals after_newtype_section))"
    by (simp add: eq lookup_in_map_of)
  show "map_of (heap after_typed_dict_section) r = lookup_in r ?H (map_of (heap after_newtype_section))"
    by (simp add: eq lookup_in_map_of)
  show "next_ref after_typed_dict_section = 11" "locals after_typed_dict_section = None" "annots after_typed_dict_section = []"
    by (simp_all add: eq run_simps)
  show "console after_typed_dict_section = console after_newtype_section @ ?L"
    by (simp add: eq)
qed

lemma run_final_origin [run_simps]:
  "exec final_origin after_typed_dict_section = (Ok (), after_final_origin)"
  "map_of (globals after_final_origin) n =
     lookup_in n
       [(''origin'', PTuple [PFloat (3 / 2), PFloat (3 / 2)]), (''origin'', PTuple [PFloat 0,
       PFloat 0]), (''Final'', PImported ''typing'' ''Final'')]
       (map_of (globals after_typed_dict_section))"
    (is "_ = lookup_in n ?G _")
  "map_of (heap after_final_origin) r =
     lookup_in r
       []
       (map_of (heap after_typed_dict_section))"
    (is "_ = lookup_in r ?H _")
  "next_ref after_final_origin = 11"
  "locals after_final_origin = None"
  "annots after_final_origin = []"
  and console_final_origin:
  "console after_final_origin =
     console after_typed_dict_section @
       []"
    (is "_ = _ @ ?L")
proof -
  have "exec final_origin after_typed_dict_section =
      (Ok (), after_typed_dict_section\<lparr>globals := ?G @ globals after_typed_dict_section\<rparr>)"
    by (simp add: final_origin_def run_defs run_simps cong: lookup_in_cong)
  then have eq: "after_final_origin =
      after_typed_dict_section\<lparr>globals := ?G @ globals after_typed_dict_section\<rparr>"
    by (simp add: after_final_origin_def)
  show "exec final_origin after_typed_dict_section = (Ok (), after_final_origin)"
    using \<open>exec final_origin after_typed_dict_section = _\<close> by (simp add: eq)
  show "map_of (globals after_final_origin) n = lookup_in n ?G (map_of (globals after_typed_dict_section))"
    by (simp add: eq lookup_in_map_of)
  show "map_of (heap after_final_origin) r = lookup_in r ?H (map_of (heap after_typed_dict_section))"
    by (simp add: eq lookup_in_map_of)
  show "next_ref after_final_origin = 11" "locals after_final_origin = None" "annots after_final_origin = []"
    by (simp_all add: eq run_simps)
  show "console after_final_origin = console after_typed_dict_section @ ?L"
    by (simp add: eq)
qed

lemma run_final_section [run_simps]:
  "exec final_section after_final_origin = (Ok (), after_final_section)"
  "map_of (globals after_final_section) n =
     lookup_in n
       [(''diplomat'', PRef 14), (''citizen'', PRef 13), (''Diplomat'', PRef 12), (''Citizen'',
       PRef 11), (''final'', PImported ''typing'' ''final''), (''dataclass'',
       PImported ''dataclasses'' ''dataclass''), (''FREE_FALL_ACCELERATION'',
       PFloat (2441 / 250))]
       (map_of (globals after_final_origin))"
    (is "_ = lookup_in n ?G _")
  "map_of (heap after_final_section) r =
     lookup_in r
       [(14, InstObj 12 [(''name'', PStr ''John''), (''tax_id'', PInt 1235), (''country'',
       PStr ''Pythonland'')]), (13, InstObj 11 [(''name'', PStr ''John White''), (''tax_id'',
       PInt 654)]), (13, InstObj 11 [(''name'', PStr ''John White''), (''tax_id'', PInt 1235)]),
       (13, InstObj 11 [(''name'', PStr ''John''), (''tax_id'', PInt 1235)]), (12,
       ClassObj \<lparr>cname = ''Diplomat'', cbases = [PRef 11], cmro = [12, 11],
       cdict = [(''get_summary'', PFun ''Diplomat.get_summary'' [])], cannots = [(''country'',
       PBuiltin ''str'')], cfields = Some [(''name'', None), (''tax_id'', None), (''country'',
       None)]\<rparr>), (12, ClassObj \<lparr>cname = ''Diplomat'', cbases = [PRef 11],
       cmro = [12, 11], cdict = [(''get_summary'', PFun ''Diplomat.get_summary'' [])],
       cannots = [(''country'', PBuiltin ''str'')], cfields = None\<rparr>), (11,
       ClassObj \<lparr>cname = ''Citizen'', cbases = [], cmro = [11],
       cdict = [(''get_summary'', PFun ''Citizen.get_summary'' [])], cannots = [(''name'',
       PBuiltin ''str''), (''tax_id'', PAlias (PImported ''typing'' ''Final''))],
       cfields = Some [(''name'', None), (''tax_id'', None)]\<rparr>), (11,
       ClassObj \<lparr>cname = ''Citizen'', cbases = [], cmro = [11],
       cdict = [(''get_summary'', PFun ''Citizen.get_summary'' [])], cannots = [(''name'',
       PBuiltin ''str''), (''tax_id'', PAlias (PImported ''typing'' ''Final''))],
       cfields = None\<rparr>)]
       (map_of (heap after_final_origin))"
    (is "_ = lookup_in r ?H _")
  "next_ref after_final_section = 15"
  "locals after_final_section = None"
  "annots after_final_section = []"
  and console_final_section:
  "console after_final_section =
     console after_final_origin @
       []"
    (is "_ = _ @ ?L")
proof -
  have "exec final_section after_final_origin =
      (Ok (), after_final_origin\<lparr>globals := ?G @ globals after_final_origin,
        heap := ?H @ heap after_final_origin, next_ref := 15\<rparr>)"
    by (simp add: final_section_def run_defs run_simps cong: lookup_in_cong)
  then have eq: "after_final_section =
      after_final_origin\<lparr>globals := ?G @ globals after_final_origin,
      heap := ?H @ heap after_final_origin, next_ref := 15\<rparr>"
    by (simp add: after_final_section_def)
  show "exec final_section after_final_origin = (Ok (), after_final_section)"
    using \<open>exec final_section after_final_origin = _\<close> by (simp add: eq)
  show "map_of (globals after_final_section) n = lookup_in n ?G (map_of (globals after_final_origin))"
    by (simp add: eq lookup_in_map_of)
  show "map_of (heap after_final_section) r = lookup_in r ?H (map_of (heap after_final_origin))"
    by (simp add: eq lookup_in_map_of)
  show "next_ref after_final_section = 15" "locals after_final_section = None" "annots after_final_section = []"
    by (simp_all add: eq run_simps)
  show "console after_final_section = console after_final_origin @ ?L"
    by (simp add: eq)
qed

lemma run_literal_and_any [run_simps]:
  "exec literal_and_any after_final_section = (Ok (), after_literal_and_any)"
  "map_of (globals after_literal_and_any) n =
     lookup_in n
       [(''parameter'', PDict [(PStr ''workers'', PInt 5), (PStr ''experiment_name'',
       PStr ''attemp_01''), (PStr ''config'', PDict [(PStr ''id'', PInt 123), (PStr ''module'',
       PStr ''Testing'')])]), (''parameter'', PDict [(PStr ''workers'', PInt 5),
       (PStr ''experiment_name'', PStr ''attemp_01'')]), (''parameter'',
       PDict [(PStr ''workers'', PInt 5)]), (''parameter'', PDict []), (''Any'',
       PImported ''typing'' ''Any''), (''sex'', PStr ''Masculine''), (''sex'', PStr ''M''),
       (''sex'', PStr ''F''), (''Literal'', PImported ''typing'' ''Literal'')]
       (map_of (globals after_final_section))"
    (is "_ = lookup_in n ?G _")
  "map_of (heap after_literal_and_any) r =
     lookup_in r
       []
       (map_of (heap after_final_section))"
    (is "_ = lookup_in r ?H _")
  "next_ref after_literal_and_any = 15"
  "locals after_literal_and_any = None"
  "annots after_literal_and_any = []"
  and console_literal_and_any:
  "console after_literal_and_any =
     console after_final_section @
       []"
    (is "_ = _ @ ?L")
proof -
  have "exec literal_and_any after_final_section =
      (Ok (), after_final_section\<lparr>globals := ?G @ globals after_final_section\<rparr>)"
    by (simp add: literal_and_any_def run_defs run_simps cong: lookup_in_cong)
  then have eq: "after_literal_and_any =
      after_final_section\<lparr>globals := ?G @ globals after_final_section\<rparr>"
    by (simp add: after_literal_and_any_def)
  show "exec literal_and_any after_final_section = (Ok (), after_literal_and_any)"
    using \<open>exec literal_and_any after_final_section = _\<close> by (simp add: eq)
  show "map_of (globals after_literal_and_any) n = lookup_in n ?G (map_of (globals after_final_section))"
    by (simp add: eq lookup_in_map_of)
  show "map_of (heap after_literal_and_any) r = lookup_in r ?H (map_of (heap after_final_section))"
    by (simp add: eq lookup_in_map_of)
  show "next_ref after_literal_and_any = 15" "locals after_literal_and_any = None" "annots after_literal_and_any = []"
    by (simp_all add: eq run_simps)
  show "console after_literal_and_any = console after_final_section @ ?L"
    by (simp add: eq)
qed

lemma run_classvar_section [run_simps]:
  "exec classvar_section after_literal_and_any = (Ok (), after_classvar_section)"
  "map_of (globals after_classvar_section) n =
     lookup_in n
       [(''Motorbike'', PRef 17), (''dataclass'', PImported ''dataclasses'' ''dataclass''),
       (''new_car'', PRef 16), (''Car'', PRef 15), (''ClassVar'',
       PImported ''typing'' ''ClassVar'')]
       (map_of (globals after_literal_and_any))"
    (is "_ = lookup_in n ?G _")
  "map_of (heap after_classvar_section) r =
     lookup_in r
       [(17, ClassObj \<lparr>cname = ''Motorbike'', cbases = [], cmro = [17], cdict = [],
       cannots = [(''brand'', PBuiltin ''str''), (''speed'', PBuiltin ''float''),
       (''maintenance_frequency'', PAlias (PImported ''typing'' ''ClassVar''))],
       cfields = Some [(''brand'', None), (''speed'', None)]\<rparr>), (17,
       ClassObj \<lparr>cname = ''Motorbike'', cbases = [], cmro = [17], cdict = [],
       cannots = [(''brand'', PBuiltin ''str''), (''speed'', PBuiltin ''float''),
       (''maintenance_frequency'', PAlias (PImported ''typing'' ''ClassVar''))],
       cfields = None\<rparr>), (16, InstObj 15 [(''petrol_price'', PInt 5)]), (16,
       InstObj 15 []), (15, ClassObj \<lparr>cname = ''Car'', cbases = [], cmro = [15],
       cdict = [(''set_pretol_price'', PFun ''Car.set_pretol_price'' []), (''petrol_price'',
       PInt 2)], cannots = [(''petrol_price'', PAlias (PImported ''typing'' ''ClassVar''))],
       cfields = None\<rparr>)]
       (map_of (heap after_literal_and_any))"
    (is "_ = lookup_in r ?H _")
  "next_ref after_classvar_section = 18"
  "locals after_classvar_section = None"
  "annots after_classvar_section = []"
  and console_classvar_section:
  "console after_classvar_section =
     console after_literal_and_any @
       []"
    (is "_ = _ @ ?L")
proof -
  have "exec classvar_section after_literal_and_any =
      (Ok (), after_literal_and_any\<lparr>globals := ?G @ globals after_literal_and_any,
        heap := ?H @ heap after_literal_and_any, next_ref := 18\<rparr>)"
    by (simp add: classvar_section_def run_defs run_simps cong: lookup_in_cong)
  then have eq: "after_classvar_section =
      after_literal_and_any\<lparr>globals := ?G @ globals after_literal_and_any,
      heap := ?H @ heap after_literal_and_any, next_ref := 18\<rparr>"
    by (simp add: after_classvar_section_def)
  show "exec classvar_section after_literal_and_any = (Ok (), after_classvar_section)"
    using \<open>exec classvar_section after_literal_and_any = _\<close> by (simp add: eq)
  show "map_of (globals after_classvar_section) n = lookup_in n ?G (map_of (globals after_literal_and_any))"
    by (simp add: eq lookup_in_map_of)
  show "map_of (heap after_classvar_section) r = lookup_in r ?H (map_of (heap after_literal_and_any))"
    by (simp add: eq lookup_in_map_of)
  show "next_ref after_classvar_section = 18" "locals after_classvar_section = None" "annots after_classvar_section = []"
    by (simp_all add: eq run_simps)
  show "console after_classvar_section = console after_literal_and_any @ ?L"
    by (simp add: eq)
qed

lemma run_union_and_optional [run_simps]:
  "exec union_and_optional after_classvar_section = (Ok (), after_union_and_optional)"
  "map_of (globals after_union_and_optional) n =
     lookup_in n
       [(''greetings_alternative'', PFun ''greetings_alternative'' []),
       (''user_input_alternative'', PStr ''Admin''), (''Optional'',
       PImported ''typing'' ''Optional''), (''greetings'', PFun ''greetings'' []),
       (''user_input'', PStr ''Admin''), (''result_alternative_2'', PInt 8),
       (''result_alternative'', PInt 8), (''double_alternative'',
       PFun ''double_alternative'' []), (''FloatOrList'', PUnionType), (''result_2'', PInt 8),
       (''result'', PInt 8), (''double'', PFun ''double'' []), (''Union'',
       PImported ''typing'' ''Union'')]
       (map_of (globals after_classvar_section))"
    (is "_ = lookup_in n ?G _")
  "map_of (heap after_union_and_optional) r =
     lookup_in r
       []
       (map_of (heap after_classvar_section))"
    (is "_ = lookup_in r ?H _")
  "next_ref after_union_and_optional = 18"
  "locals after_union_and_optional = None"
  "annots after_union_and_optional = []"
  and console_union_and_optional:
  "console after_union_and_optional =
     console after_classvar_section @
       [''Welcome Admin.'', ''Welcome Admin.'']"
    (is "_ = _ @ ?L")
proof -
  have "exec union_and_optional after_classvar_section =
      (Ok (), after_classvar_section\<lparr>globals := ?G @ globals after_classvar_section,
        console := console after_classvar_section @ ?L\<rparr>)"
    by (simp add: union_and_optional_def run_defs run_simps cong: lookup_in_cong)
  then have eq: "after_union_and_optional =
      after_classvar_section\<lparr>globals := ?G @ globals after_classvar_section,
      console := console after_classvar_section @ ?L\<rparr>"
    by (simp add: after_union_and_optional_def)
  show "exec union_and_optional after_classvar_section = (Ok (), after_union_and_optional)"
    using \<open>exec union_and_optional after_classvar_section = _\<close> by (simp add: eq)
  show "map_of (globals after_union_and_optional) n = lookup_in n ?G (map_of (globals after_classvar_section))"
    by (simp add: eq lookup_in_map_of)
  show "map_of (heap after_union_and_optional) r = lookup_in r ?H (map_of (heap after_classvar_section))"
    by (simp add: eq lookup_in_map_of)
  show "next_ref after_union_and_optional = 18" "locals after_union_and_optional = None" "annots after_union_and_optional = []"
    by (simp_all add: eq run_simps)
  show "console after_union_and_optional = console after_classvar_section @ ?L"
    by (simp add: eq)
qed

lemma run_narrowing [run_simps]:
  "exec narrowing after_union_and_optional = (Ok (), after_narrowing)"
  "map_of (globals after_narrowing) n =
     lookup_in n
       [(''join_str'', PStr ''5 8 1 0 6''), (''join_object'', PStr ''5 8 1 0 6''), (''data'',
       PList [PStr ''5'', PStr ''8'', PStr ''1'', PStr ''0'', PStr ''6'']),
       (''convertable_to_string'', PFun ''convertable_to_string'' []), (''TypeGuard'',
       PImported ''typing'' ''TypeGuard''), (''field'', PList [PFloat (9 / 2), PFloat (3 / 5),
       PFloat (31 / 5), PFloat (31 / 5)]), (''field'', PList [PFloat (9 / 2), PFloat (3 / 5),
       PFloat (31 / 5)]), (''field'', PList [PFloat (9 / 2), PFloat (3 / 5)]), (''get_scores'',
       PFun ''get_scores'' [])]
       (map_of (globals after_union_and_optional))"
    (is "_ = lookup_in n ?G _")
  "map_of (heap after_narrowing) r =
     lookup_in r
       []
       (map_of (heap after_union_and_optional))"
    (is "_ = lookup_in r ?H _")
  "next_ref after_narrowing = 18"
  "locals after_narrowing = None"
  "annots after_narrowing = []"
  and console_narrowing:
  "console after_narrowing =
     console after_union_and_optional @
       []"
    (is "_ = _ @ ?L")
proof -
  have "exec narrowing after_union_and_optional =
      (Ok (), after_union_and_optional\<lparr>globals := ?G @ globals after_union_and_optional\<rparr>)"
    by (simp add: narrowing_def run_defs run_simps cong: lookup_in_cong)
  then have eq: "after_narrowing =
      after_union_and_optional\<lparr>globals := ?G @ globals after_union_and_optional\<rparr>"
    by (simp add: after_narrowing_def)
  show "exec narrowing after_union_and_optional = (Ok (), after_narrowing)"
    using \<open>exec narrowing after_union_and_optional = _\<close> by (simp add: eq)
  show "map_of (globals after_narrowing) n = lookup_in n ?G (map_of (globals after_union_and_optional))"
    by (simp add: eq lookup_in_map_of)
  show "map_of (heap after_narrowing) r = lookup_in r ?H (map_of (heap after_union_and_optional))"
    by (simp add: eq lookup_in_map_of)
  show "next_ref after_narrowing = 18" "locals after_narrowing = None" "annots after_narrowing = []"
    by (simp_all add: eq run_simps)
  show "console after_narrowing = console after_union_and_optional @ ?L"
    by (simp add: eq)
qed

lemma run_overloads [run_simps]:
  "exec overloads after_narrowing = (Ok (), after_overloads)"
  "map_of (globals after_overloads) n =
     lookup_in n
       [(''triple_result_4'', PList [PInt 12]), (''triple_result_3'', PInt 12),
       (''triple_result_2'', PList [PInt 12]), (''triple_result'', PInt 12), (''triple'',
       PFun ''triple'' []), (''triple'', PFun ''_overload_dummy'' []), (''triple'',
       PFun ''_overload_dummy'' []), (''overload'', PImported ''typing'' ''overload'')]
       (map_of (globals after_narrowing))"
    (is "_ = lookup_in n ?G _")
  "map_of (heap after_overloads) r =
     lookup_in r
       []
       (map_of (heap after_narrowing))"
    (is "_ = lookup_in r ?H _")
  "next_ref after_overloads = 18"
  "locals after_overloads = None"
  "annots after_overloads = []"
  and console_overloads:
  "console after_overloads =
     console after_narrowing @
       []"
    (is "_ = _ @ ?L")
proof -
  have "exec overloads after_narrowing =
      (Ok (), after_narrowing\<lparr>globals := ?G @ globals after_narrowing\<rparr>)"
    by (simp add: overloads_def run_defs run_simps cong: lookup_in_cong)
  then have eq: "after_overloads =
      after_narrowing\<lparr>globals := ?G @ globals after_narrowing\<rparr>"
    by (simp add: after_overloads_def)
  show "exec overloads after_narrowing = (Ok (), after_overloads)"
    using \<open>exec overloads after_narrowing = _\<close> by (simp add: eq)
  show "map_of (globals after_overloads) n = lookup_in n ?G (map_of (globals after_narrowing))"
    by (simp add: eq lookup_in_map_of)
  show "map_of (heap after_overloads) r = lookup_in r ?H (map_of (heap after_narrowing))"
    by (simp add: eq lookup_in_map_of)
  show "next_ref after_overloads = 18" "locals after_overloads = None" "annots after_overloads = []"
    by (simp_all add: eq run_simps)
  show "console after_overloads = console after_narrowing @ ?L"
    by (simp add: eq)
qed

lemma run_protocols [run_simps]:
  "exec protocols after_overloads = (Ok (), after_protocols)"
  "map_of (globals after_protocols) n =
     lookup_in n
       [(''streaming'', PRef 20), (''WebStreamingSystem'', PRef 19), (''StreamingSystem'',
       PRef 18), (''Protocol'', PImported ''typing'' ''Protocol''), (''sum_all_elements_2'',
       PFun ''sum_all_elements_2'' []), (''Iterable'', PImported ''typing'' ''Iterable''),
       (''sum_all_elements_2'', PFun ''sum_all_elements_2'' []), (''sum_all_elements'',
       PFun ''sum_all_elements'' [])]
       (map_of (globals after_overloads))"
    (is "_ = lookup_in n ?G _")
  "map_of (heap after_protocols) r =
     lookup_in r
       [(20, InstObj 19 []), (19, ClassObj \<lparr>cname = ''WebStreamingSystem'', cbases = [],
       cmro = [19], cdict = [(''play'', PFun ''WebStreamingSystem.play'' [])], cannots = [],
       cfields = None\<rparr>), (18, ClassObj \<lparr>cname = ''StreamingSystem'',
       cbases = [PImported ''typing'' ''Protocol''], cmro = [18], cdict = [(''play'',
       PFun ''StreamingSystem.play'' [])], cannots = [], cfields = None\<rparr>)]
       (map_of (heap after_overloads))"
    (is "_ = lookup_in r ?H _")
  "next_ref after_protocols = 21"
  "locals after_protocols = None"
  "annots after_protocols = []"
  and console_protocols:
  "console after_protocols =
     console after_overloads @
       []"
    (is "_ = _ @ ?L")
proof -
  have "exec protocols after_overloads =
      (Ok (), after_overloads\<lparr>globals := ?G @ globals after_overloads,
        heap := ?H @ heap after_overloads, next_ref := 21\<rparr>)"
    by (simp add: protocols_def run_defs run_simps cong: lookup_in_cong)
  then have eq: "after_protocols =
      after_overloads\<lparr>globals := ?G @ globals after_overloads,
      heap := ?H @ heap after_overloads, next_ref := 21\<rparr>"
    by (simp add: after_protocols_def)
  show "exec protocols after_overloads = (Ok (), after_protocols)"
    using \<open>exec protocols after_overloads = _\<close> by (simp add: eq)
  show "map_of (globals after_protocols) n = lookup_in n ?G (map_of (globals after_overloads))"
    by (simp add: eq lookup_in_map_of)
  show "map_of (heap after_protocols) r = lookup_in r ?H (map_of (heap after_overloads))"
    by (simp add: eq lookup_in_map_of)
  show "next_ref after_protocols = 21" "locals after_protocols = None" "annots after_protocols = []"
    by (simp_all add: eq run_simps)
  show "console after_protocols = console after_overloads @ ?L"
    by (simp add: eq)
qed

lemma run_typing_functions [run_simps]:
  "exec typing_functions after_protocols = (Ok (), after_typing_functions)"
  "map_of (globals after_typing_functions) n =
     lookup_in n
       [(''multiply'', PFun ''multiply'' []), (''summation'', PFun ''summation'' []),
       (''numbers'', PList [PFloat (3 / 2), PFloat (1 / 2), PFloat (7 / 2), PFloat 4]),
       (''Doubler'', PRef 21), (''double_def'', PFun ''double_def'' []), (''map_function'',
       PFun ''map_function'' []), (''Callable'', PImported ''typing'' ''Callable'')]
       (map_of (globals after_protocols))"
    (is "_ = lookup_in n ?G _")
  "map_of (heap after_typing_functions) r =
     lookup_in r
       [(22, InstObj 21 []), (21, ClassObj \<lparr>cname = ''Doubler'', cbases = [],
       cmro = [21], cdict = [(''__call__'', PFun ''Doubler.__call__'' [])], cannots = [],
       cfields = None\<rparr>)]
       (map_of (heap after_protocols))"
    (is "_ = lookup_in r ?H _")
  "next_ref after_typing_functions = 23"
  "locals after_typing_functions = None"
  "annots after_typing_functions = []"
  and console_typing_functions:
  "console after_typing_functions =
     console after_protocols @
       []"
    (is "_ = _ @ ?L")
proof -
  have "exec typing_functions after_protocols =
      (Ok (), after_protocols\<lparr>globals := ?G @ globals after_protocols,
        heap := ?H @ heap after_protocols, next_ref := 23\<rparr>)"
    by (simp add: typing_functions_def run_defs run_simps cong: lookup_in_cong)
  then have eq: "after_typing_functions =
      after_protocols\<lparr>globals := ?G @ globals after_protocols,
      heap := ?H @ heap after_protocols, next_ref := 23\<rparr>"
    by (simp add: after_typing_functions_def)
  show "exec typing_functions after_protocols = (Ok (), after_typing_functions)"
    using \<open>exec typing_functions after_protocols = _\<close> by (simp add: eq)
  show "map_of (globals after_typing_functions) n = lookup_in n ?G (map_of (globals after_protocols))"
    by (simp add: eq lookup_in_map_of)
  show "map_of (heap after_typing_functions) r = lookup_in r ?H (map_of (heap after_protocols))"
    by (simp add: eq lookup_in_map_of)
  show "next_ref after_typing_functions = 23" "locals after_typing_functions = None" "annots after_typing_functions = []"
    by (simp_all add: eq run_simps)
  show "console after_typing_functions = console after_protocols @ ?L"
    by (simp add: eq)
qed

lemma run_typevars [run_simps]:
  "exec typevars after_typing_functions = (Ok (), after_typevars)"
  "map_of (globals after_typevars) n =
     lookup_in n
       [(''test_union'', PFloat (3 / 2)), (''test_str'', PStr ''1.5''), (''test_float'',
       PFloat (3 / 2)), (''test_float'', PInt 1), (''first_typevar_bounded'',
       PFun ''first_typevar_bounded'' []), (''BoundedFloat'', PTypeVar ''BoundedFloat''),
       (''test_union'', PFloat (3 / 2)), (''test_str'', PStr ''1.5''), (''test_float'',
       PFloat (3 / 2)), (''test_float'', PInt 1), (''first_typevar_constrained'',
       PFun ''first_typevar_constrained'' []), (''FloatOrString'', PTypeVar ''FloatOrString''),
       (''test_union'', PFloat (3 / 2)), (''test_str'', PStr ''1.5''), (''test_float'',
       PFloat (3 / 2)), (''test_float'', PInt 1), (''first_typevar'',
       PFun ''first_typevar'' []), (''T'', PTypeVar ''T''), (''TypeVar'',
       PImported ''typing'' ''TypeVar''), (''test_union'', PFloat (3 / 2)), (''test_str'',
       PStr ''1.5''), (''test_float'', PFloat (3 / 2)), (''test_float'', PInt 1),
       (''first_union'', PFun ''first_union'' []), (''FloatStrUnion'',
       PAlias (PImported ''typing'' ''Union'')), (''Sequence'',
       PImported ''typing'' ''Sequence''), (''Union'', PImported ''typing'' ''Union''),
       (''dataclass'', PImported ''dataclasses'' ''dataclass'')]
       (map_of (globals after_typing_functions))"
    (is "_ = lookup_in n ?G _")
  "map_of (heap after_typevars) r =
     lookup_in r
       []
       (map_of (heap after_typing_functions))"
    (is "_ = lookup_in r ?H _")
  "next_ref after_typevars = 23"
  "locals after_typevars = None"
  "annots after_typevars = []"
  and console_typevars:
  "console after_typevars =
     console after_typing_functions @
       []"
    (is "_ = _ @ ?L")
proof -
  have "exec typevars after_typing_functions =
      (Ok (), after_typing_functions\<lparr>globals := ?G @ globals after_typing_functions\<rparr>)"
    by (simp add: typevars_def run_defs run_simps cong: lookup_in_cong)
  then have eq: "after_typevars =
      after_typing_functions\<lparr>globals := ?G @ globals after_typing_functions\<rparr>"
    by (simp add: after_typevars_def)
  show "exec typevars after_typing_functions = (Ok (), after_typevars)"
    using \<open>exec typevars after_typing_functions = _\<close> by (simp add: eq)
  show "map_of (globals after_typevars) n = lookup_in n ?G (map_of (globals after_typing_functions))"
    by (simp add: eq lookup_in_map_of)
  show "map_of (heap after_typevars) r = lookup_in r ?H (map_of (heap after_typing_functions))"
    by (simp add: eq lookup_in_map_of)
  show "next_ref after_typevars = 23" "locals after_typevars = None" "annots after_typevars = []"
    by (simp_all add: eq run_simps)
  show "console after_typevars = console after_typing_functions @ ?L"
    by (simp add: eq)
qed

lemma run_variance_prelude [run_simps]:
  "exec variance_prelude after_typevars = (Ok (), after_variance_prelude)"
  "map_of (globals after_variance_prelude) n =
     lookup_in n
       [(''StreamConfig'', PTypeVar ''StreamConfig''), (''AbstractStreamingServiceConfig'',
       PRef 23), (''ABC'', PImported ''abc'' ''ABC'')]
       (map_of (globals after_typevars))"
    (is "_ = lookup_in n ?G _")
  "map_of (heap after_variance_prelude) r =
     lookup_in r
       [(23, ClassObj \<lparr>cname = ''AbstractStreamingServiceConfig'',
       cbases = [PImported ''abc'' ''ABC''], cmro = [23], cdict = [], cannots = [],
       cfields = Some []\<rparr>), (23,
       ClassObj \<lparr>cname = ''AbstractStreamingServiceConfig'',
       cbases = [PImported ''abc'' ''ABC''], cmro = [23], cdict = [], cannots = [],
       cfields = None\<rparr>)]
       (map_of (heap after_typevars))"
    (is "_ = lookup_in r ?H _")
  "next_ref after_variance_prelude = 24"
  "locals after_variance_prelude = None"
  "annots after_variance_prelude = []"
  and console_variance_prelude:
  "console after_variance_prelude =
     console after_typevars @
       []"
    (is "_ = _ @ ?L")
proof -
  have "exec variance_prelude after_typevars =
      (Ok (), after_typevars\<lparr>globals := ?G @ globals after_typevars,
        heap := ?H @ heap after_typevars, next_ref := 24\<rparr>)"
    by (simp add: variance_prelude_def run_defs run_simps cong: lookup_in_cong)
  then have eq: "after_variance_prelude =
      after_typevars\<lparr>globals := ?G @ globals after_typevars,
      heap := ?H @ heap after_typevars, next_ref := 24\<rparr>"
    by (simp add: after_variance_prelude_def)
  show "exec variance_prelude after_typevars = (Ok (), after_variance_prelude)"
    using \<open>exec variance_prelude after_typevars = _\<close> by (simp add: eq)
  show "map_of (globals after_variance_prelude) n = lookup_in n ?G (map_of (globals after_typevars))"
    by (simp add: eq lookup_in_map_of)
  show "map_of (heap after_variance_prelude) r = lookup_in r ?H (map_of (heap after_typevars))"
    by (simp add: eq lookup_in_map_of)
  show "next_ref after_variance_prelude = 24" "locals after_variance_prelude = None" "annots after_variance_prelude = []"
    by (simp_all add: eq run_simps)
  show "console after_variance_prelude = console after_typevars @ ?L"
    by (simp add: eq)
qed

lemma run_repaired_variance_classes [run_simps]:
  "exec repaired_variance_classes after_variance_prelude = (Ok (), after_repaired_variance_classes)"
  "map_of (globals after_repaired_variance_classes) n =
     lookup_in n
       [(''WebCamStreamingService'', PRef 27), (''HighSpeedWebCamStreamingServiceConfig'',
       PRef 26), (''WebCamStreamingServiceConfig'', PRef 25), (''AbstractStreamingService'',
       PRef 24), (''Generic'', PImported ''typing'' ''Generic'')]
       (map_of (globals after_variance_prelude))"
    (is "_ = lookup_in n ?G _")
  "map_of (heap after_repaired_variance_classes) r =
     lookup_in r
       [(27, ClassObj \<lparr>cname = ''WebCamStreamingService'', cbases = [PAlias (PRef 24)],
       cmro = [27, 24], cdict = [(''show_quality'',
       PFun ''WebCamStreamingService.show_quality'' [])], cannots = [],
       cfields = Some [(''config'', None)]\<rparr>), (27,
       ClassObj \<lparr>cname = ''WebCamStreamingService'', cbases = [PAlias (PRef 24)],
       cmro = [27, 24], cdict = [(''show_quality'',
       PFun ''WebCamStreamingService.show_quality'' [])], cannots = [], cfields = None\<rparr>),
       (26, ClassObj \<lparr>cname = ''HighSpeedWebCamStreamingServiceConfig'',
       cbases = [PRef 25], cmro = [26, 25, 23], cdict = [(''fps'', PInt 15000)],
       cannots = [(''fps'', PBuiltin ''int'')], cfields = Some [(''quality'',
       Some (PStr ''720p'')), (''fps'', Some (PInt 15000))]\<rparr>), (26,
       ClassObj \<lparr>cname = ''HighSpeedWebCamStreamingServiceConfig'', cbases = [PRef 25],
       cmro = [26, 25, 23], cdict = [(''fps'', PInt 15000)], cannots = [(''fps'',
       PBuiltin ''int'')], cfields = None\<rparr>), (25,
       ClassObj \<lparr>cname = ''WebCamStreamingServiceConfig'', cbases = [PRef 23],
       cmro = [25, 23], cdict = [(''quality'', PStr ''720p'')], cannots = [(''quality'',
       PBuiltin ''str'')], cfields = Some [(''quality'', Some (PStr ''720p''))]\<rparr>), (25,
       ClassObj \<lparr>cname = ''WebCamStreamingServiceConfig'', cbases = [PRef 23],
       cmro = [25, 23], cdict = [(''quality'', PStr ''720p'')], cannots = [(''quality'',
       PBuiltin ''str'')], cfields = None\<rparr>), (24,
       ClassObj \<lparr>cname = ''AbstractStreamingService'',
       cbases = [PImported ''abc'' ''ABC'', PAlias (PImported ''typing'' ''Generic'')],
       cmro = [24], cdict = [], cannots = [(''config'', PTypeVar ''StreamConfig'')],
       cfields = Some [(''config'', None)]\<rparr>), (24,
       ClassObj \<lparr>cname = ''AbstractStreamingService'',
       cbases = [PImported ''abc'' ''ABC'', PAlias (PImported ''typing'' ''Generic'')],
       cmro = [24], cdict = [], cannots = [(''config'', PTypeVar ''StreamConfig'')],
       cfields = None\<rparr>)]
       (map_of (heap after_variance_prelude))"
    (is "_ = lookup_in r ?H _")
  "next_ref after_repaired_variance_classes = 28"
  "locals after_repaired_variance_classes = None"
  "annots after_repaired_variance_classes = []"
  and console_repaired_variance_classes:
  "console after_repaired_variance_classes =
     console after_variance_prelude @
       []"
    (is "_ = _ @ ?L")
proof -
  have "exec repaired_variance_classes after_variance_prelude =
      (Ok (), after_variance_prelude\<lparr>globals := ?G @ globals after_variance_prelude,
        heap := ?H @ heap after_variance_prelude, next_ref := 28\<rparr>)"
    by (simp add: repaired_variance_classes_def run_defs run_simps cong: lookup_in_cong)
  then have eq: "after_repaired_variance_classes =
      after_variance_prelude\<lparr>globals := ?G @ globals after_variance_prelude,
      heap := ?H @ heap after_variance_prelude, next_ref := 28\<rparr>"
    by (simp add: after_repaired_variance_classes_def)
  show "exec repaired_variance_classes after_variance_prelude = (Ok (), after_repaired_variance_classes)"
    using \<open>exec repaired_variance_classes after_variance_prelude = _\<close> by (simp add: eq)
  show "map_of (globals after_repaired_variance_classes) n = lookup_in n ?G (map_of (globals after_variance_prelude))"
    by (simp add: eq lookup_in_map_of)
  show "map_of (heap after_repaired_variance_classes) r = lookup_in r ?H (map_of (heap after_variance_prelude))"
    by (simp add: eq lookup_in_map_of)
  show "next_ref after_repaired_variance_classes = 28" "locals after_repaired_variance_classes = None" "annots after_repaired_variance_classes = []"
    by (simp_all add: eq run_simps)
  show "console after_repaired_variance_classes = console after_variance_prelude @ ?L"
    by (simp add: eq)
qed
lemma exec_append:
  "exec (xs @ ys) s =
     (case exec xs s of
        (Ok u, s') \<Rightarrow> exec ys s'
      | (Raise e, s') \<Rightarrow> (Raise e, s')
      | (Unmodelled, s') \<Rightarrow> (Unmodelled, s'))"
  by (induction xs arbitrary: s)
     (auto simp: py_then_def py_bind_def py_return_def split: prod.splits outcome.splits)

text \<open>The statements up to line 818 run without a fault.\<close>

lemma run_script_before_820:
  "exec script_before_820 initial_state = (Ok (), after_variance_prelude)"
  by (simp add: script_before_820_def exec_append run_simps)

text \<open>The eight lines on the console when line 819 is reached.\<close>

lemma console_before_820:
  "console after_variance_prelude =
     [''You are paying with Debit'', ''ValueError was thrown!'',
      ''This vehicle can go to 140 and is Blue'', ''This vehicle can go to 90 and is Red'',
      ''This truck can go to 90 and is Red'', ''This truck can go to 140 and is Blue'',
      ''Welcome Admin.'', ''Welcome Admin.'']"
  by (simp add: console_simple_data_types console_complex_data_types
        console_classes_and_inheritance console_automatic_type_inference
        console_functions_section console_try_raise_exception console_classes_section
        console_type_aliases console_newtype_section console_typed_dict_section
        console_final_origin console_final_section console_literal_and_any
        console_classvar_section console_union_and_optional console_narrowing
        console_overloads console_protocols console_typing_functions console_typevars
        console_variance_prelude run_simps)

text \<open>
  The class statement of line 819 evaluates its decorator and the base \<^verbatim>\<open>ABC\<close>, then
  fails on the name \<^verbatim>\<open>Generic\<close> and leaves the state as it was.
\<close>

lemma Generic_unbound:
  "class_AbstractStreamingService after_variance_prelude =
     (Raise (NameError ''Generic''), after_variance_prelude)"
  by (simp add: run_defs run_simps cong: lookup_in_cong)

text \<open>
  C1 (the code does otherwise). The run of the whole file prints eight lines and then
  ends at line 820 with the unhandled \<^verbatim>\<open>NameError\<close> for \<^verbatim>\<open>Generic\<close>, in the state reached
  after line 816; the statements of lines 825 to 845 are not executed.
\<close>

theorem C1_script_raises_NameError:
  "exec script initial_state = (Raise (NameError ''Generic''), after_variance_prelude)
   \<and> console after_variance_prelude =
       [''You are paying with Debit'', ''ValueError was thrown!'',
        ''This vehicle can go to 140 and is Blue'', ''This vehicle can go to 90 and is Red'',
        ''This truck can go to 90 and is Red'', ''This truck can go to 140 and is Blue'',
        ''Welcome Admin.'', ''Welcome Admin.'']"
proof -
  have "exec (variance_classes @ variance_calls) after_variance_prelude =
          (Raise (NameError ''Generic''), after_variance_prelude)"
    by (simp add: variance_classes_def py_then_def py_bind_def Generic_unbound)
  then have "exec script initial_state = (Raise (NameError ''Generic''), after_variance_prelude)"
    by (simp add: script_def exec_append [of script_before_820] run_script_before_820)
  then show ?thesis
    by (simp add: console_before_820)
qed

text \<open>
  With \<^verbatim>\<open>Generic\<close> imported before line 819, the four class statements succeed, and
  \<^verbatim>\<open>show_quality\<close> of a service constructed with either configuration returns
  \<^verbatim>\<open>"720p"\<close>.
\<close>

lemma repaired_show_quality:
  "fst (quality_of ''WebCamStreamingServiceConfig'' after_repaired_variance_classes)
     = Ok (PStr ''720p'')"
  "fst (quality_of ''HighSpeedWebCamStreamingServiceConfig'' after_repaired_variance_classes)
     = Ok (PStr ''720p'')"
  by (simp_all add: quality_of_def run_defs run_simps cong: lookup_in_cong)

text \<open>
  C2 (the code does otherwise). As the file stands, the statements of lines 819 to 845
  end with the \<^verbatim>\<open>NameError\<close> of line 820: the name \<^verbatim>\<open>WebCamStreamingService\<close> is never
  bound, and constructing the service fails on that name for either configuration, so no
  quality is read.
\<close>

theorem C2_service_never_defined:
  "exec (variance_classes @ variance_calls) after_variance_prelude =
     (Raise (NameError ''Generic''), after_variance_prelude)
   \<and> map_of (globals after_variance_prelude) ''WebCamStreamingService'' = None
   \<and> fst (quality_of ''WebCamStreamingServiceConfig'' after_variance_prelude)
       = Raise (NameError ''WebCamStreamingService'')
   \<and> fst (quality_of ''HighSpeedWebCamStreamingServiceConfig'' after_variance_prelude)
       = Raise (NameError ''WebCamStreamingService'')"
proof -
  have "exec (variance_classes @ variance_calls) after_variance_prelude =
          (Raise (NameError ''Generic''), after_variance_prelude)"
    by (simp add: variance_classes_def py_then_def py_bind_def Generic_unbound)
  moreover have "map_of (globals after_variance_prelude) ''WebCamStreamingService'' = None"
    by (simp add: run_simps cong: lookup_in_cong)
  moreover have
    "fst (quality_of ''WebCamStreamingServiceConfig'' after_variance_prelude)
       = Raise (NameError ''WebCamStreamingService'')"
    "fst (quality_of ''HighSpeedWebCamStreamingServiceConfig'' after_variance_prelude)
       = Raise (NameError ''WebCamStreamingService'')"
    by (simp_all add: quality_of_def run_defs run_simps cong: lookup_in_cong)
  ultimately show ?thesis by simp
qed

text \<open>
  C3. \<^verbatim>\<open>UserID(156)\<close> and \<^verbatim>\<open>UserID(654)\<close> are the integers 156 and 654, whatever the
  state; their sum is exactly 810; \<^verbatim>\<open>isinstance\<close> against \<^verbatim>\<open>int\<close> holds of the sum and of
  a wrapped value. In the run, lines 228 to 249 end without a fault, so the three
  assertions hold, and leave \<^verbatim>\<open>user_a\<close>, \<^verbatim>\<open>user_b\<close> and \<^verbatim>\<open>sum_of_ids\<close> bound to 156, 654
  and 810.
\<close>

theorem C3_userid_sum:
  "call (const (PNewType ''UserID'')) [lit_int 156] [] s = (Ok (PInt 156), s)
   \<and> call (const (PNewType ''UserID'')) [lit_int 654] [] s = (Ok (PInt 654), s)
   \<and> binop py_add (call (const (PNewType ''UserID'')) [lit_int 156] [])
        (call (const (PNewType ''UserID'')) [lit_int 654] []) s = (Ok (PInt 810), s)
   \<and> py_isinstance (PInt 810) (PBuiltin ''int'') s = (Ok (PBool True), s)
   \<and> py_isinstance (PInt 156) (PBuiltin ''int'') s = (Ok (PBool True), s)
   \<and> exec newtype_section after_type_aliases = (Ok (), after_newtype_section)
   \<and> map_of (globals after_newtype_section) ''UserID'' = Some (PNewType ''UserID'')
   \<and> map_of (globals after_newtype_section) ''user_a'' = Some (PInt 156)
   \<and> map_of (globals after_newtype_section) ''user_b'' = Some (PInt 654)
   \<and> map_of (globals after_newtype_section) ''sum_of_ids'' = Some (PInt 810)"
  by (simp add: expr_defs monad_defs call_defs UserID_def py_add_def as_num_def arith_def
        py_isinstance_def isinstance_builtin_def builtin_functions_def run_simps
      cong: lookup_in_cong)

text \<open>
  C4. From the state the run has reached at line 413: the \<^verbatim>\<open>import\<close>, the class \<^verbatim>\<open>Car\<close>
  and two instances constructed one after the other (the file constructs the first).
  Both instances and the class read 2. After the first instance has called
  \<^verbatim>\<open>set_pretol_price\<close> with any value, it reads that value; the other instance and the
  class still read 2.
\<close>

theorem C4_instance_assignment_shadows:
  "\<exists>s1. exec two_cars after_literal_and_any = (Ok (), s1)
     \<and> petrol_price_of ''new_car'' s1 = Ok (PInt 2)
     \<and> petrol_price_of ''other_car'' s1 = Ok (PInt 2)
     \<and> petrol_price_of ''Car'' s1 = Ok (PInt 2)
     \<and> (\<forall>v. \<exists>s2.
           exec [expr_stmt (call (attr (load ''new_car'') ''set_pretol_price'') [const v] [])] s1
             = (Ok (), s2)
           \<and> petrol_price_of ''new_car'' s2 = Ok v
           \<and> petrol_price_of ''other_car'' s2 = Ok (PInt 2)
           \<and> petrol_price_of ''Car'' s2 = Ok (PInt 2))"
  by (simp add: two_cars_def petrol_price_of_def run_defs run_simps cong: lookup_in_cong)

text \<open>
  C5. Called with an exception object, \<^verbatim>\<open>raise_exception\<close> prints one line naming the
  class of the object and raises the same object; it returns normally for no argument and
  no state. In the run, the \<^verbatim>\<open>try\<close> of lines 155 to 158 ends normally and has added the
  one line \<^verbatim>\<open>ValueError was thrown!\<close> to the console and nothing else to the state.
\<close>

theorem C5_raise_exception:
  "raise_exception (PExc c args) s =
     (Raise (PExc c args), s\<lparr>console := console s @ [c @ '' was thrown!'']\<rparr>)
   \<and> \<not> is_Ok (fst (raise_exception v s))
   \<and> exec try_raise_exception after_functions_section =
       (Ok (), after_functions_section
          \<lparr>console := console after_functions_section @ [''ValueError was thrown!'']\<rparr>)"
proof -
  have "raise_exception (PExc c args) s =
     (Raise (PExc c args), s\<lparr>console := console s @ [c @ '' was thrown!'']\<rparr>)"
    by (simp add: raise_exception_def type_name_def py_raise_value_def py_print_def monad_defs)
  moreover have "\<not> is_Ok (fst (raise_exception v s))"
    by (cases v)
       (auto simp: raise_exception_def type_name_def py_raise_value_def py_print_def monad_defs
          is_Ok_def split: option.splits obj.splits)
  moreover have "exec try_raise_exception after_functions_section =
       (Ok (), after_functions_section
          \<lparr>console := console after_functions_section @ [''ValueError was thrown!'']\<rparr>)"
    by (simp add: try_raise_exception_def run_defs run_simps cong: lookup_in_cong)
  ultimately show ?thesis by simp
qed

text \<open>
  C7. The run through line 336 ends without a fault, and \<^verbatim>\<open>origin\<close> then holds the tuple
  \<^verbatim>\<open>(1.5, 1.5)\<close>: the \<^verbatim>\<open>Final\<close> of line 335 does nothing at runtime.
\<close>

theorem C7_origin_reassigned:
  "exec script_through_336 initial_state = (Ok (), after_final_origin)
   \<and> map_of (globals after_final_origin) ''origin'' = Some (PTuple [PFloat 1.5, PFloat 1.5])"
  by (simp add: script_through_336_def exec_append run_simps cong: lookup_in_cong)


end
